theory Spec2Isabelle
  imports Main
begin

unbundle bit_operations_syntax

section \<open>Strings as the code uses them\<close>

text \<open>
  JavaScript strings are modelled as \<open>string\<close>, a list of 8-bit characters that stands for
  the UTF-8 encoding the digest is computed over. An optional property (\<open>udf1?: string\<close>,
  \<open>body.txnid\<close> of a \<open>Record<string, string>\<close>) is a \<open>string option\<close> with \<open>None\<close> for
  \<open>undefined\<close>.
\<close>

text \<open>\<open>x || d\<close> on an optional string: \<open>undefined\<close> and the empty string are both falsy.\<close>

definition or_else :: "string option \<Rightarrow> string \<Rightarrow> string" where
  "or_else x d = (case x of None \<Rightarrow> d | Some s \<Rightarrow> if s = [] then d else s)"

text \<open>\<open>Array.prototype.join\<close> on an array of strings.\<close>

fun join :: "string \<Rightarrow> string list \<Rightarrow> string" where
  "join sep [] = []"
| "join sep [x] = x"
| "join sep (x # y # ys) = x @ sep @ join sep (y # ys)"

text \<open>\<open>String.prototype.toLowerCase\<close>, on the ASCII letters.\<close>

definition lower_char :: "char \<Rightarrow> char" where
  "lower_char c =
     (case map_of (zip ''ABCDEFGHIJKLMNOPQRSTUVWXYZ'' ''abcdefghijklmnopqrstuvwxyz'') c of
        Some l \<Rightarrow> l
      | None \<Rightarrow> c)"

definition toLowerCase :: "string \<Rightarrow> string" where
  "toLowerCase s = map lower_char s"

section \<open>The keyed digest: HMAC over SHA-512\<close>

text \<open>
  \<open>createHmac("sha512", key).update(msg).digest("hex")\<close> comes from the platform's
  \<open>crypto\<close> module. It is modelled here after FIPS 180-4 (SHA-512) and RFC 2104 (HMAC):
  64-bit words are integers kept below \<open>2 ^ 64\<close>, with the wrap-around written out.
\<close>

definition add64 :: "int \<Rightarrow> int \<Rightarrow> int" where
  "add64 a b = (a + b) mod 2 ^ 64"

definition rotr :: "nat \<Rightarrow> int \<Rightarrow> int" where
  "rotr n x = x div 2 ^ n + (x mod 2 ^ n) * 2 ^ (64 - n)"

definition Ch :: "int \<Rightarrow> int \<Rightarrow> int \<Rightarrow> int" where
  "Ch x y z = (x AND y) XOR ((2 ^ 64 - 1 - x) AND z)"

definition Maj :: "int \<Rightarrow> int \<Rightarrow> int \<Rightarrow> int" where
  "Maj x y z = (x AND y) XOR (x AND z) XOR (y AND z)"

definition bsig0 :: "int \<Rightarrow> int" where
  "bsig0 x = rotr 28 x XOR rotr 34 x XOR rotr 39 x"

definition bsig1 :: "int \<Rightarrow> int" where
  "bsig1 x = rotr 14 x XOR rotr 18 x XOR rotr 41 x"

definition ssig0 :: "int \<Rightarrow> int" where
  "ssig0 x = rotr 1 x XOR rotr 8 x XOR x div 2 ^ 7"

definition ssig1 :: "int \<Rightarrow> int" where
  "ssig1 x = rotr 19 x XOR rotr 61 x XOR x div 2 ^ 6"

text \<open>
  The eighty round constants and the initial hash value are written as pairs of 32-bit
  halves, high half first.
\<close>

definition word_of_halves :: "int \<times> int \<Rightarrow> int" where
  "word_of_halves hl = (case hl of (hi, lo) \<Rightarrow> hi * 2 ^ 32 + lo)"

definition K512 :: "int list" where
  "K512 = map word_of_halves [
    (0x428a2f98, 0xd728ae22), (0x71374491, 0x23ef65cd),
    (0xb5c0fbcf, 0xec4d3b2f), (0xe9b5dba5, 0x8189dbbc),
    (0x3956c25b, 0xf348b538), (0x59f111f1, 0xb605d019),
    (0x923f82a4, 0xaf194f9b), (0xab1c5ed5, 0xda6d8118),
    (0xd807aa98, 0xa3030242), (0x12835b01, 0x45706fbe),
    (0x243185be, 0x4ee4b28c), (0x550c7dc3, 0xd5ffb4e2),
    (0x72be5d74, 0xf27b896f), (0x80deb1fe, 0x3b1696b1),
    (0x9bdc06a7, 0x25c71235), (0xc19bf174, 0xcf692694),
    (0xe49b69c1, 0x9ef14ad2), (0xefbe4786, 0x384f25e3),
    (0x0fc19dc6, 0x8b8cd5b5), (0x240ca1cc, 0x77ac9c65),
    (0x2de92c6f, 0x592b0275), (0x4a7484aa, 0x6ea6e483),
    (0x5cb0a9dc, 0xbd41fbd4), (0x76f988da, 0x831153b5),
    (0x983e5152, 0xee66dfab), (0xa831c66d, 0x2db43210),
    (0xb00327c8, 0x98fb213f), (0xbf597fc7, 0xbeef0ee4),
    (0xc6e00bf3, 0x3da88fc2), (0xd5a79147, 0x930aa725),
    (0x06ca6351, 0xe003826f), (0x14292967, 0x0a0e6e70),
    (0x27b70a85, 0x46d22ffc), (0x2e1b2138, 0x5c26c926),
    (0x4d2c6dfc, 0x5ac42aed), (0x53380d13, 0x9d95b3df),
    (0x650a7354, 0x8baf63de), (0x766a0abb, 0x3c77b2a8),
    (0x81c2c92e, 0x47edaee6), (0x92722c85, 0x1482353b),
    (0xa2bfe8a1, 0x4cf10364), (0xa81a664b, 0xbc423001),
    (0xc24b8b70, 0xd0f89791), (0xc76c51a3, 0x0654be30),
    (0xd192e819, 0xd6ef5218), (0xd6990624, 0x5565a910),
    (0xf40e3585, 0x5771202a), (0x106aa070, 0x32bbd1b8),
    (0x19a4c116, 0xb8d2d0c8), (0x1e376c08, 0x5141ab53),
    (0x2748774c, 0xdf8eeb99), (0x34b0bcb5, 0xe19b48a8),
    (0x391c0cb3, 0xc5c95a63), (0x4ed8aa4a, 0xe3418acb),
    (0x5b9cca4f, 0x7763e373), (0x682e6ff3, 0xd6b2b8a3),
    (0x748f82ee, 0x5defb2fc), (0x78a5636f, 0x43172f60),
    (0x84c87814, 0xa1f0ab72), (0x8cc70208, 0x1a6439ec),
    (0x90befffa, 0x23631e28), (0xa4506ceb, 0xde82bde9),
    (0xbef9a3f7, 0xb2c67915), (0xc67178f2, 0xe372532b),
    (0xca273ece, 0xea26619c), (0xd186b8c7, 0x21c0c207),
    (0xeada7dd6, 0xcde0eb1e), (0xf57d4f7f, 0xee6ed178),
    (0x06f067aa, 0x72176fba), (0x0a637dc5, 0xa2c898a6),
    (0x113f9804, 0xbef90dae), (0x1b710b35, 0x131c471b),
    (0x28db77f5, 0x23047d84), (0x32caab7b, 0x40c72493),
    (0x3c9ebe0a, 0x15c9bebc), (0x431d67c4, 0x9c100d4c),
    (0x4cc5d4be, 0xcb3e42b6), (0x597f299c, 0xfc657e2a),
    (0x5fcb6fab, 0x3ad6faec), (0x6c44198c, 0x4a475817)]"

type_synonym sha_state = "int \<times> int \<times> int \<times> int \<times> int \<times> int \<times> int \<times> int"

definition IV512 :: sha_state where
  "IV512 =
     (word_of_halves (0x6a09e667, 0xf3bcc908),
      word_of_halves (0xbb67ae85, 0x84caa73b),
      word_of_halves (0x3c6ef372, 0xfe94f82b),
      word_of_halves (0xa54ff53a, 0x5f1d36f1),
      word_of_halves (0x510e527f, 0xade682d1),
      word_of_halves (0x9b05688c, 0x2b3e6c1f),
      word_of_halves (0x1f83d9ab, 0xfb41bd6b),
      word_of_halves (0x5be0cd19, 0x137e2179))"

text \<open>
  One round, with the message schedule computed on the fly: the window holds the sixteen
  schedule words \<open>W t, ..., W (t + 15)\<close>.
\<close>

fun step512 :: "sha_state \<times> int list \<Rightarrow> int \<Rightarrow> sha_state \<times> int list" where
  "step512 ((a, b, c, d, e, f, g, h),
            [w0, w1, w2, w3, w4, w5, w6, w7, w8, w9, w10, w11, w12, w13, w14, w15]) k =
     (let t1 = add64 (add64 (add64 (add64 h (bsig1 e)) (Ch e f g)) k) w0;
          t2 = add64 (bsig0 a) (Maj a b c)
      in ((add64 t1 t2, a, b, c, add64 d t1, e, f, g),
          [w1, w2, w3, w4, w5, w6, w7, w8, w9, w10, w11, w12, w13, w14, w15,
           add64 (add64 (add64 (ssig1 w14) w9) (ssig0 w1)) w0]))"
| "step512 s k = s"

fun words64 :: "int list \<Rightarrow> int list" where
  "words64 (b0 # b1 # b2 # b3 # b4 # b5 # b6 # b7 # rest) =
     (((((((b0 * 256 + b1) * 256 + b2) * 256 + b3) * 256 + b4) * 256 + b5) * 256 + b6) * 256 + b7)
       # words64 rest"
| "words64 bs = []"

fun add_state :: "sha_state \<Rightarrow> sha_state \<Rightarrow> sha_state" where
  "add_state (a, b, c, d, e, f, g, h) (a', b', c', d', e', f', g', h') =
     (add64 a a', add64 b b', add64 c c', add64 d d', add64 e e', add64 f f', add64 g g',
      add64 h h')"

definition compress :: "sha_state \<Rightarrow> int list \<Rightarrow> sha_state" where
  "compress st block = add_state st (fst (foldl step512 (st, words64 block) K512))"

definition be_bytes8 :: "int \<Rightarrow> int list" where
  "be_bytes8 v = map (\<lambda>s. v div 2 ^ s mod 256) [56, 48, 40, 32, 24, 16, 8, 0]"

definition pad512 :: "int list \<Rightarrow> int list" where
  "pad512 m = m @ [128] @ replicate ((239 - length m mod 128) mod 128) 0
     @ be_bytes8 ((8 * int (length m)) div 2 ^ 64) @ be_bytes8 ((8 * int (length m)) mod 2 ^ 64)"

definition blocks128 :: "int list \<Rightarrow> int list list" where
  "blocks128 p = map (\<lambda>i. take 128 (drop (128 * i) p)) [0..<length p div 128]"

fun state_bytes :: "sha_state \<Rightarrow> int list" where
  "state_bytes (a, b, c, d, e, f, g, h) = concat (map be_bytes8 [a, b, c, d, e, f, g, h])"

definition sha512 :: "int list \<Rightarrow> int list" where
  "sha512 m = state_bytes (foldl compress IV512 (blocks128 (pad512 m)))"

definition hmac_sha512 :: "int list \<Rightarrow> int list \<Rightarrow> int list" where
  "hmac_sha512 k m =
     (let k0 = (if length k > 128 then sha512 k else k);
          kp = k0 @ replicate (128 - length k0) 0
      in sha512 (map (\<lambda>b. b XOR 0x5c) kp @ sha512 (map (\<lambda>b. b XOR 0x36) kp @ m)))"

definition hexdigit :: "int \<Rightarrow> char" where
  "hexdigit n = ''0123456789abcdef'' ! nat n"

definition hex :: "int list \<Rightarrow> string" where
  "hex bs = concat (map (\<lambda>b. [hexdigit (b div 16), hexdigit (b mod 16)]) bs)"

definition utf8 :: "string \<Rightarrow> int list" where
  "utf8 s = map of_char s"

text \<open>\<open>createHmac("sha512", key).update(msg).digest("hex")\<close>\<close>

definition createHmac_sha512_hex :: "string \<Rightarrow> string \<Rightarrow> string" where
  "createHmac_sha512_hex k msg = hex (hmac_sha512 (utf8 k) (utf8 msg))"


section \<open>Hash generation and verification\<close>

text \<open>
  The parameter objects of \<open>generatePayUHash\<close> and \<open>verifyPayUHash\<close>. TypeScript types them
  structurally, and the second has the fields of the first and \<open>status\<close>; the records follow
  that as a record and its extension.
\<close>

record PayUHashParams =
  key :: string
  txnid :: string
  amount :: string
  productinfo :: string
  firstname :: string
  email :: string
  udf1 :: "string option"
  udf2 :: "string option"
  udf3 :: "string option"
  udf4 :: "string option"
  udf5 :: "string option"
  udf6 :: "string option"
  udf7 :: "string option"
  udf8 :: "string option"
  udf9 :: "string option"
  udf10 :: "string option"

record PayUVerifyParams = PayUHashParams +
  status :: string

text \<open>The local \<open>hashString\<close> of \<open>generatePayUHash\<close>: seventeen fields joined with a pipe.\<close>

definition hashFields :: "'a PayUHashParams_scheme \<Rightarrow> string \<Rightarrow> string list" where
  "hashFields params salt =
     [key params, txnid params, amount params, productinfo params, firstname params,
      email params,
      or_else (udf1 params) [], or_else (udf2 params) [], or_else (udf3 params) [],
      or_else (udf4 params) [], or_else (udf5 params) [], or_else (udf6 params) [],
      or_else (udf7 params) [], or_else (udf8 params) [], or_else (udf9 params) [],
      or_else (udf10 params) [],
      salt]"

definition hashString :: "'a PayUHashParams_scheme \<Rightarrow> string \<Rightarrow> string" where
  "hashString params salt = join ''|'' (hashFields params salt)"

definition generatePayUHash :: "'a PayUHashParams_scheme \<Rightarrow> string \<Rightarrow> string" where
  "generatePayUHash params salt = createHmac_sha512_hex [] (hashString params salt)"

text \<open>
  The local \<open>reverseHashString\<close> of \<open>verifyPayUHash\<close>: the array literal of the source, with
  its nine empty strings between \<open>status\<close> and \<open>udf10\<close>.
\<close>

definition reverseHashString :: "'a PayUVerifyParams_scheme \<Rightarrow> string \<Rightarrow> string" where
  "reverseHashString params salt =
     join ''|''
       [salt, status params,
        [], [], [], [], [], [], [], [], [],
        or_else (udf10 params) [], or_else (udf9 params) [], or_else (udf8 params) [],
        or_else (udf7 params) [], or_else (udf6 params) [], or_else (udf5 params) [],
        or_else (udf4 params) [], or_else (udf3 params) [], or_else (udf2 params) [],
        or_else (udf1 params) [],
        email params, firstname params, productinfo params, amount params, txnid params,
        key params]"

definition verifyPayUHash :: "'a PayUVerifyParams_scheme \<Rightarrow> string \<Rightarrow> string \<Rightarrow> bool" where
  "verifyPayUHash params salt receivedHash =
     (let computedHash = createHmac_sha512_hex [] (reverseHashString params salt)
      in computedHash = receivedHash)"

text \<open>
  The reverse message as the specification words it, for comparison with the source's:
  merchant salt, status, five empty-string placeholders, udf10 down to udf1, email, first
  name, product description, amount, transaction id, merchant key.
\<close>

definition spec_reverseHashString :: "'a PayUVerifyParams_scheme \<Rightarrow> string \<Rightarrow> string" where
  "spec_reverseHashString params salt =
     join ''|''
       ([salt, status params] @ [[], [], [], [], []] @
        [or_else (udf10 params) [], or_else (udf9 params) [], or_else (udf8 params) [],
         or_else (udf7 params) [], or_else (udf6 params) [], or_else (udf5 params) [],
         or_else (udf4 params) [], or_else (udf3 params) [], or_else (udf2 params) [],
         or_else (udf1 params) [],
         email params, firstname params, productinfo params, amount params, txnid params,
         key params])"

text \<open>The parameters of the repository's own hash tests, with status \<open>success\<close>.\<close>

definition test_params :: PayUVerifyParams where
  "test_params =
     \<lparr>key = ''testKey'', txnid = ''txn123'', amount = ''100'', productinfo = ''TestProduct'',
      firstname = ''John'', email = ''john@test.com'',
      udf1 = None, udf2 = None, udf3 = None, udf4 = None, udf5 = None,
      udf6 = None, udf7 = None, udf8 = None, udf9 = None, udf10 = None,
      status = ''success''\<rparr>"


section \<open>Subscriptions, plans, events and options\<close>

text \<open>
  \<open>Date\<close> values are timestamps. The fields of \<open>Subscription\<close> keep their names, but
  \<open>id\<close>, \<open>plan\<close> and \<open>status\<close> carry the prefix \<open>sub_\<close>, and the two period dates carry the
  names of their columns in the schema (\<open>currentStart\<close>, \<open>currentEnd\<close>), which are the names
  the handlers write. Numbers are counters and are modelled as integers.
\<close>

type_synonym date = nat

datatype PayUSubscriptionStatus =
  Created | Authenticated | Active | Pending | Halted | Cancelled | Completed | Expired | Paused

record Subscription =
  sub_id :: string
  sub_plan :: string
  referenceId :: string
  payuCustomerId :: "string option"
  payuSubscriptionId :: string
  payuMandateType :: "string option"
  payuTransactionId :: "string option"
  payuMihpayid :: "string option"
  sub_status :: PayUSubscriptionStatus
  currentStart :: "date option"
  currentEnd :: "date option"
  cancelledAt :: "date option"
  endedAt :: "date option"
  pausedAt :: "date option"
  totalCount :: "int option"
  paidCount :: "int option"
  remainingCount :: "int option"
  quantity :: "int option"
  seats :: "int option"
  trialStart :: "date option"
  trialEnd :: "date option"
  createdAt :: date
  updatedAt :: date

record PayUPlan =
  planId :: string
  name :: string
  plan_amount :: string
  billingCycle :: string
  billingInterval :: int
  plan_totalCount :: int
  annualPlanId :: "string option"
  trialDays :: "int option"

text \<open>
  \<open>PayUWebhookEvent\<close> has the fields of the verification parameters and more, so it extends
  that record.
\<close>

record PayUWebhookEvent = PayUVerifyParams +
  mihpayid :: string
  phone :: string
  hash :: string
  mode :: string
  unmappedstatus :: string
  field9 :: string
  error :: string
  bank_ref_num :: string
  addedon :: string
  payment_source :: string
  notificationType :: "string option"

text \<open>
  A thrown value: an \<open>Error\<close> with its message, the \<open>APIError\<close> of \<open>createAPIError\<close> with its
  status and message, or any other thrown value with its string form.
\<close>

datatype exn = Error string | APIError string string | Thrown string

text \<open>\<open>err instanceof Error ? err.message : String(err)\<close>\<close>

fun exn_message :: "exn \<Rightarrow> string" where
  "exn_message (Error m) = m"
| "exn_message (APIError st m) = m"
| "exn_message (Thrown s) = s"

definition createAPIError :: "string \<Rightarrow> string \<Rightarrow> exn" where
  "createAPIError st message = APIError st message"

definition WEBHOOK_HASH_NOT_FOUND :: string where
  "WEBHOOK_HASH_NOT_FOUND = ''PayU webhook hash not found''"

definition FAILED_TO_VERIFY_WEBHOOK :: string where
  "FAILED_TO_VERIFY_WEBHOOK = ''Failed to verify PayU webhook hash''"

text \<open>
  The argument of a user-supplied callback: \<open>{ subscription, plan, event }\<close>, or
  \<open>{ event, error }\<close> for the payment-failure callback. A callback returns normally
  (\<open>None\<close>) or throws.
\<close>

datatype callback_data =
  SubscriptionCallbackData Subscription "PayUPlan option" PayUWebhookEvent
| PaymentFailureData PayUWebhookEvent string

type_synonym callback = "callback_data \<Rightarrow> exn option"

text \<open>\<open>plans\<close> is an array or a function that returns one (and may throw).\<close>

datatype plans_source = PlansArray "PayUPlan list" | PlansFunction "exn + PayUPlan list"

record SubscriptionOptions =
  enabled :: bool
  plans :: "plans_source option"
  cb_onSubscriptionActivated :: "callback option"
  cb_onSubscriptionCharged :: "callback option"
  cb_onSubscriptionPending :: "callback option"
  cb_onSubscriptionHalted :: "callback option"
  cb_onSubscriptionCompleted :: "callback option"
  cb_onSubscriptionCancelled :: "callback option"
  cb_onSubscriptionPaused :: "callback option"
  cb_onSubscriptionResumed :: "callback option"
  cb_onPaymentSuccess :: "callback option"
  cb_onPaymentFailure :: "callback option"
  cb_onMandateRevoked :: "callback option"
  cb_onMandateModified :: "callback option"

record PayUOptions =
  merchantKey :: string
  merchantSalt :: string
  subscription :: "SubscriptionOptions option"

section \<open>The persistence adapter, the logger and the effects of a handler\<close>

text \<open>
  The adapter is a collaborator: \<open>findOne\<close> and \<open>update\<close> act on a store of any type, return
  a result or throw, and may change the store. A handler runs in a world that holds the
  store, the clock read by \<open>new Date()\<close> and the trace of what the handler did: the adapter
  calls it issued, the messages it logged and the callbacks it invoked.
\<close>

datatype db_value =
  VString string | VNumber int | VDate date | VNull | VStatus PayUSubscriptionStatus

type_synonym where_clause = "(string \<times> string) list"
type_synonym update_fields = "(string \<times> db_value) list"

record 'db Adapter =
  findOne :: "string \<Rightarrow> where_clause \<Rightarrow> 'db \<Rightarrow> (exn + Subscription option) \<times> 'db"
  update :: "string \<Rightarrow> where_clause \<Rightarrow> update_fields \<Rightarrow> 'db \<Rightarrow> (exn + unit) \<times> 'db"

datatype effect =
  FindOne string where_clause
| Update string where_clause update_fields
| LoggerWarn string
| LoggerError string
| Callback string callback_data

record 'db world =
  store :: 'db
  now :: date
  trace :: "effect list"

type_synonym ('a, 'db) io = "'db world \<Rightarrow> (exn + 'a) \<times> 'db world"

definition io_return :: "'a \<Rightarrow> ('a, 'db) io" where
  "io_return x w = (Inr x, w)"

definition io_throw :: "exn \<Rightarrow> ('a, 'db) io" where
  "io_throw e w = (Inl e, w)"

definition io_bind :: "('a, 'db) io \<Rightarrow> ('a \<Rightarrow> ('b, 'db) io) \<Rightarrow> ('b, 'db) io" where
  "io_bind m f w = (case m w of (Inl e, w') \<Rightarrow> (Inl e, w') | (Inr x, w') \<Rightarrow> f x w')"

definition try_catch :: "('a, 'db) io \<Rightarrow> (exn \<Rightarrow> ('a, 'db) io) \<Rightarrow> ('a, 'db) io" where
  "try_catch m h w = (case m w of (Inl e, w') \<Rightarrow> h e w' | (Inr x, w') \<Rightarrow> (Inr x, w'))"

definition adapter_findOne ::
  "'db Adapter \<Rightarrow> string \<Rightarrow> where_clause \<Rightarrow> (Subscription option, 'db) io" where
  "adapter_findOne a model wh w =
     (case findOne a model wh (store w) of
        (r, s') \<Rightarrow> (r, w\<lparr>store := s', trace := trace w @ [FindOne model wh]\<rparr>))"

definition adapter_update ::
  "'db Adapter \<Rightarrow> string \<Rightarrow> where_clause \<Rightarrow> update_fields \<Rightarrow> (unit, 'db) io" where
  "adapter_update a model wh upd w =
     (case update a model wh upd (store w) of
        (r, s') \<Rightarrow> (r, w\<lparr>store := s', trace := trace w @ [Update model wh upd]\<rparr>))"

definition logger_warn :: "string \<Rightarrow> (unit, 'db) io" where
  "logger_warn msg w = (Inr (), w\<lparr>trace := trace w @ [LoggerWarn msg]\<rparr>)"

definition logger_error :: "string \<Rightarrow> (unit, 'db) io" where
  "logger_error msg w = (Inr (), w\<lparr>trace := trace w @ [LoggerError msg]\<rparr>)"

text \<open>\<open>options.subscription.onX?.(data)\<close>: nothing happens when the callback is not set.\<close>

definition invoke :: "string \<Rightarrow> callback option \<Rightarrow> callback_data \<Rightarrow> (unit, 'db) io" where
  "invoke cb_name cb data w =
     (case cb of
        None \<Rightarrow> (Inr (), w)
      | Some f \<Rightarrow>
          ((case f data of None \<Rightarrow> Inr () | Some e \<Rightarrow> Inl e),
           w\<lparr>trace := trace w @ [Callback cb_name data]\<rparr>))"

text \<open>\<open>n || 0\<close> on a nullable number.\<close>

definition num_or :: "int option \<Rightarrow> int \<Rightarrow> int" where
  "num_or x d = (case x of None \<Rightarrow> d | Some n \<Rightarrow> if n = 0 then d else n)"

section \<open>Metadata slots\<close>

type_synonym PayUUdf = "string \<Rightarrow> string option"

text \<open>
  \<open>paramsToUdf\<close>: the loop over \<open>udf1\<close> to \<open>udf10\<close> copies the truthy slots. One step of the
  loop is \<open>if (params[key]) udf[key] = params[key]\<close>.
\<close>

definition copy_truthy :: "PayUUdf \<Rightarrow> string \<times> string option \<Rightarrow> PayUUdf" where
  "copy_truthy udf kv =
     (case kv of (k, v) \<Rightarrow>
        case v of None \<Rightarrow> udf | Some s \<Rightarrow> if s = [] then udf else udf(k \<mapsto> s))"

definition paramsToUdf :: "'a PayUHashParams_scheme \<Rightarrow> PayUUdf" where
  "paramsToUdf params =
     foldl copy_truthy Map.empty
       [(''udf1'', udf1 params), (''udf2'', udf2 params), (''udf3'', udf3 params),
        (''udf4'', udf4 params), (''udf5'', udf5 params), (''udf6'', udf6 params),
        (''udf7'', udf7 params), (''udf8'', udf8 params), (''udf9'', udf9 params),
        (''udf10'', udf10 params)]"

record SubscriptionInternalUdf =
  udf_userId :: "string option"
  udf_subscriptionId :: "string option"
  udf_referenceId :: "string option"

text \<open>\<open>subscriptionUdf.get\<close>\<close>

definition subscriptionUdf_get :: "PayUUdf option \<Rightarrow> SubscriptionInternalUdf" where
  "subscriptionUdf_get udf =
     (case udf of
        None \<Rightarrow> \<lparr>udf_userId = None, udf_subscriptionId = None, udf_referenceId = None\<rparr>
      | Some u \<Rightarrow>
          \<lparr>udf_userId = u ''udf2'', udf_subscriptionId = u ''udf4'', udf_referenceId = u ''udf5''\<rparr>)"

section \<open>Finding the subscription of an event\<close>

definition findSubscriptionByTxnId ::
  "'db Adapter \<Rightarrow> string \<Rightarrow> (Subscription option, 'db) io" where
  "findSubscriptionByTxnId adapter tx =
     adapter_findOne adapter ''subscription'' [(''payuTransactionId'', tx)]"

definition findSubscriptionByUdf ::
  "'db Adapter \<Rightarrow> PayUWebhookEvent \<Rightarrow> (Subscription option, 'db) io" where
  "findSubscriptionByUdf adapter event =
     (let udf = paramsToUdf event;
          subUdf = subscriptionUdf_get (Some udf)
      in case udf_subscriptionId subUdf of
           None \<Rightarrow> io_return None
         | Some sid \<Rightarrow>
             if sid = [] then io_return None
             else adapter_findOne adapter ''subscription'' [(''id'', sid)])"

definition findSubscription ::
  "'db Adapter \<Rightarrow> PayUWebhookEvent \<Rightarrow> (Subscription option, 'db) io" where
  "findSubscription adapter event =
     io_bind (findSubscriptionByTxnId adapter (txnid event)) (\<lambda>byTxn.
       case byTxn of
         Some s \<Rightarrow> io_return (Some s)
       | None \<Rightarrow> findSubscriptionByUdf adapter event)"

text \<open>
  The plan lookup that every handler repeats after its update:
  \<open>plans ? (typeof plans === "function" ? await plans() : plans).find(p => p.name === sub.plan)
  : undefined\<close>.
\<close>

definition find_plan :: "SubscriptionOptions \<Rightarrow> Subscription \<Rightarrow> (PayUPlan option, 'db) io" where
  "find_plan so sub =
     (case plans so of
        None \<Rightarrow> io_return None
      | Some (PlansArray ps) \<Rightarrow> io_return (find (\<lambda>p. name p = sub_plan sub) ps)
      | Some (PlansFunction r) \<Rightarrow>
          (case r of
             Inl e \<Rightarrow> io_throw e
           | Inr ps \<Rightarrow> io_return (find (\<lambda>p. name p = sub_plan sub) ps)))"

section \<open>Webhook handlers\<close>

text \<open>
  Every handler takes the adapter of its context, the options and the event. The guard
  \<open>if (!options.subscription?.enabled) return\<close> is the first two cases of each definition;
  the \<open>try\<close> block and the \<open>catch\<close> clause are the two arguments of \<open>try_catch\<close>.
\<close>

text \<open>The update object of \<open>onPaymentSuccess\<close>.\<close>

definition payment_success_update :: "Subscription \<Rightarrow> PayUWebhookEvent \<Rightarrow> date \<Rightarrow> update_fields" where
  "payment_success_update sub event t =
     [(''status'', VStatus Active),
      (''payuMihpayid'', VString (mihpayid event)),
      (''paidCount'', VNumber (num_or (paidCount sub) 0 + 1)),
      (''remainingCount'',
         (case totalCount sub of
            Some n \<Rightarrow> VNumber (max (num_or (totalCount sub) 0 - (num_or (paidCount sub) 0 + 1)) 0)
          | None \<Rightarrow> VNull)),
      (''updatedAt'', VDate t)]"

definition onPaymentSuccess ::
  "'db Adapter \<Rightarrow> PayUOptions \<Rightarrow> PayUWebhookEvent \<Rightarrow> (unit, 'db) io" where
  "onPaymentSuccess ctx options event =
     (case subscription options of
        None \<Rightarrow> io_return ()
      | Some so \<Rightarrow>
          if \<not> enabled so then io_return ()
          else if txnid event = [] then io_return ()
          else try_catch
            (io_bind (findSubscription ctx event) (\<lambda>sub.
               case sub of
                 Some s \<Rightarrow>
                   io_bind (\<lambda>w. adapter_update ctx ''subscription'' [(''id'', sub_id s)]
                              (payment_success_update s event (now w)) w) (\<lambda>_.
                   io_bind (find_plan so s) (\<lambda>plan.
                   invoke ''onPaymentSuccess'' (cb_onPaymentSuccess so)
                     (SubscriptionCallbackData s plan event)))
               | None \<Rightarrow>
                   logger_warn (''PayU: payment success for txnid '' @ txnid event
                     @ '' but subscription not found'')))
            (\<lambda>err. logger_error (''PayU onPaymentSuccess error: '' @ exn_message err)))"

text \<open>\<open>event.error || event.field9 || "Payment failed"\<close>\<close>

definition failure_reason :: "PayUWebhookEvent \<Rightarrow> string" where
  "failure_reason event =
     (if error event \<noteq> [] then error event
      else if field9 event \<noteq> [] then field9 event
      else ''Payment failed'')"

definition onPaymentFailure ::
  "'db Adapter \<Rightarrow> PayUOptions \<Rightarrow> PayUWebhookEvent \<Rightarrow> (unit, 'db) io" where
  "onPaymentFailure ctx options event =
     (case subscription options of
        None \<Rightarrow> io_return ()
      | Some so \<Rightarrow>
          if \<not> enabled so then io_return ()
          else try_catch
            (io_bind (findSubscription ctx event) (\<lambda>sub.
               io_bind
                 (case sub of
                    Some s \<Rightarrow>
                      (\<lambda>w. adapter_update ctx ''subscription'' [(''id'', sub_id s)]
                         [(''status'', VStatus Pending), (''updatedAt'', VDate (now w))] w)
                  | None \<Rightarrow> io_return ()) (\<lambda>_.
               invoke ''onPaymentFailure'' (cb_onPaymentFailure so)
                 (PaymentFailureData event (failure_reason event)))))
            (\<lambda>err. logger_error (''PayU onPaymentFailure error: '' @ exn_message err)))"

definition onSubscriptionActivated ::
  "'db Adapter \<Rightarrow> PayUOptions \<Rightarrow> PayUWebhookEvent \<Rightarrow> (unit, 'db) io" where
  "onSubscriptionActivated ctx options event =
     (case subscription options of
        None \<Rightarrow> io_return ()
      | Some so \<Rightarrow>
          if \<not> enabled so then io_return ()
          else if txnid event = [] then io_return ()
          else try_catch
            (io_bind (findSubscription ctx event) (\<lambda>sub.
               case sub of
                 Some s \<Rightarrow>
                   io_bind (\<lambda>w. adapter_update ctx ''subscription'' [(''id'', sub_id s)]
                              [(''status'', VStatus Active),
                               (''payuMihpayid'', VString (mihpayid event)),
                               (''currentStart'', VDate (now w)),
                               (''updatedAt'', VDate (now w))] w) (\<lambda>_.
                   io_bind (find_plan so s) (\<lambda>plan.
                   invoke ''onSubscriptionActivated'' (cb_onSubscriptionActivated so)
                     (SubscriptionCallbackData s plan event)))
               | None \<Rightarrow>
                   logger_warn (''PayU: subscription activated for txnid '' @ txnid event
                     @ '' but subscription not found'')))
            (\<lambda>err. logger_error (''PayU onSubscriptionActivated error: '' @ exn_message err)))"

text \<open>
  The update object of \<open>onSubscriptionCharged\<close>, with its locals \<open>newPaidCount\<close> and
  \<open>newRemainingCount\<close>.
\<close>

definition subscription_charged_update ::
  "Subscription \<Rightarrow> PayUWebhookEvent \<Rightarrow> date \<Rightarrow> update_fields" where
  "subscription_charged_update sub event t =
     (let newPaidCount = num_or (paidCount sub) 0 + 1;
          newRemainingCount =
            (case totalCount sub of
               Some n \<Rightarrow> VNumber (max (num_or (totalCount sub) 0 - newPaidCount) 0)
             | None \<Rightarrow> VNull)
      in [(''status'', VStatus Active),
          (''paidCount'', VNumber newPaidCount),
          (''remainingCount'', newRemainingCount),
          (''payuMihpayid'', VString (mihpayid event)),
          (''updatedAt'', VDate t)])"

definition onSubscriptionCharged ::
  "'db Adapter \<Rightarrow> PayUOptions \<Rightarrow> PayUWebhookEvent \<Rightarrow> (unit, 'db) io" where
  "onSubscriptionCharged ctx options event =
     (case subscription options of
        None \<Rightarrow> io_return ()
      | Some so \<Rightarrow>
          if \<not> enabled so then io_return ()
          else if txnid event = [] then io_return ()
          else try_catch
            (io_bind (findSubscription ctx event) (\<lambda>sub.
               case sub of
                 Some s \<Rightarrow>
                   io_bind (\<lambda>w. adapter_update ctx ''subscription'' [(''id'', sub_id s)]
                              (subscription_charged_update s event (now w)) w) (\<lambda>_.
                   io_bind (find_plan so s) (\<lambda>plan.
                   invoke ''onSubscriptionCharged'' (cb_onSubscriptionCharged so)
                     (SubscriptionCallbackData s plan event)))
               | None \<Rightarrow>
                   logger_warn (''PayU: subscription charged for txnid '' @ txnid event
                     @ '' but subscription not found'')))
            (\<lambda>err. logger_error (''PayU onSubscriptionCharged error: '' @ exn_message err)))"

definition onSubscriptionPending ::
  "'db Adapter \<Rightarrow> PayUOptions \<Rightarrow> PayUWebhookEvent \<Rightarrow> (unit, 'db) io" where
  "onSubscriptionPending ctx options event =
     (case subscription options of
        None \<Rightarrow> io_return ()
      | Some so \<Rightarrow>
          if \<not> enabled so then io_return ()
          else try_catch
            (io_bind (findSubscription ctx event) (\<lambda>sub.
               case sub of
                 Some s \<Rightarrow>
                   io_bind (\<lambda>w. adapter_update ctx ''subscription'' [(''id'', sub_id s)]
                              [(''status'', VStatus Pending), (''updatedAt'', VDate (now w))] w) (\<lambda>_.
                   io_bind (find_plan so s) (\<lambda>plan.
                   invoke ''onSubscriptionPending'' (cb_onSubscriptionPending so)
                     (SubscriptionCallbackData s plan event)))
               | None \<Rightarrow> io_return ()))
            (\<lambda>err. logger_error (''PayU onSubscriptionPending error: '' @ exn_message err)))"

definition onSubscriptionHalted ::
  "'db Adapter \<Rightarrow> PayUOptions \<Rightarrow> PayUWebhookEvent \<Rightarrow> (unit, 'db) io" where
  "onSubscriptionHalted ctx options event =
     (case subscription options of
        None \<Rightarrow> io_return ()
      | Some so \<Rightarrow>
          if \<not> enabled so then io_return ()
          else try_catch
            (io_bind (findSubscription ctx event) (\<lambda>sub.
               case sub of
                 Some s \<Rightarrow>
                   io_bind (\<lambda>w. adapter_update ctx ''subscription'' [(''id'', sub_id s)]
                              [(''status'', VStatus Halted), (''updatedAt'', VDate (now w))] w) (\<lambda>_.
                   io_bind (find_plan so s) (\<lambda>plan.
                   invoke ''onSubscriptionHalted'' (cb_onSubscriptionHalted so)
                     (SubscriptionCallbackData s plan event)))
               | None \<Rightarrow> io_return ()))
            (\<lambda>err. logger_error (''PayU onSubscriptionHalted error: '' @ exn_message err)))"

definition onSubscriptionCompleted ::
  "'db Adapter \<Rightarrow> PayUOptions \<Rightarrow> PayUWebhookEvent \<Rightarrow> (unit, 'db) io" where
  "onSubscriptionCompleted ctx options event =
     (case subscription options of
        None \<Rightarrow> io_return ()
      | Some so \<Rightarrow>
          if \<not> enabled so then io_return ()
          else try_catch
            (io_bind (findSubscription ctx event) (\<lambda>sub.
               case sub of
                 Some s \<Rightarrow>
                   io_bind (\<lambda>w. adapter_update ctx ''subscription'' [(''id'', sub_id s)]
                              [(''status'', VStatus Completed),
                               (''endedAt'', VDate (now w)),
                               (''remainingCount'', VNumber 0),
                               (''updatedAt'', VDate (now w))] w) (\<lambda>_.
                   io_bind (find_plan so s) (\<lambda>plan.
                   invoke ''onSubscriptionCompleted'' (cb_onSubscriptionCompleted so)
                     (SubscriptionCallbackData s plan event)))
               | None \<Rightarrow> io_return ()))
            (\<lambda>err. logger_error (''PayU onSubscriptionCompleted error: '' @ exn_message err)))"

text \<open>The update object of \<open>onSubscriptionCancelled\<close> and of \<open>onMandateRevoked\<close>.\<close>

definition cancelled_update :: "date \<Rightarrow> update_fields" where
  "cancelled_update t =
     [(''status'', VStatus Cancelled),
      (''cancelledAt'', VDate t),
      (''endedAt'', VDate t),
      (''updatedAt'', VDate t)]"

definition onSubscriptionCancelled ::
  "'db Adapter \<Rightarrow> PayUOptions \<Rightarrow> PayUWebhookEvent \<Rightarrow> (unit, 'db) io" where
  "onSubscriptionCancelled ctx options event =
     (case subscription options of
        None \<Rightarrow> io_return ()
      | Some so \<Rightarrow>
          if \<not> enabled so then io_return ()
          else try_catch
            (io_bind (findSubscription ctx event) (\<lambda>sub.
               case sub of
                 Some s \<Rightarrow>
                   io_bind (\<lambda>w. adapter_update ctx ''subscription'' [(''id'', sub_id s)]
                              (cancelled_update (now w)) w) (\<lambda>_.
                   io_bind (find_plan so s) (\<lambda>plan.
                   invoke ''onSubscriptionCancelled'' (cb_onSubscriptionCancelled so)
                     (SubscriptionCallbackData s plan event)))
               | None \<Rightarrow>
                   logger_warn (''PayU: subscription cancelled for txnid '' @ txnid event
                     @ '' but subscription not found'')))
            (\<lambda>err. logger_error (''PayU onSubscriptionCancelled error: '' @ exn_message err)))"

definition onSubscriptionPaused ::
  "'db Adapter \<Rightarrow> PayUOptions \<Rightarrow> PayUWebhookEvent \<Rightarrow> (unit, 'db) io" where
  "onSubscriptionPaused ctx options event =
     (case subscription options of
        None \<Rightarrow> io_return ()
      | Some so \<Rightarrow>
          if \<not> enabled so then io_return ()
          else try_catch
            (io_bind (findSubscription ctx event) (\<lambda>sub.
               case sub of
                 Some s \<Rightarrow>
                   io_bind (\<lambda>w. adapter_update ctx ''subscription'' [(''id'', sub_id s)]
                              [(''status'', VStatus Paused),
                               (''pausedAt'', VDate (now w)),
                               (''updatedAt'', VDate (now w))] w) (\<lambda>_.
                   io_bind (find_plan so s) (\<lambda>plan.
                   invoke ''onSubscriptionPaused'' (cb_onSubscriptionPaused so)
                     (SubscriptionCallbackData s plan event)))
               | None \<Rightarrow> io_return ()))
            (\<lambda>err. logger_error (''PayU onSubscriptionPaused error: '' @ exn_message err)))"

definition onSubscriptionResumed ::
  "'db Adapter \<Rightarrow> PayUOptions \<Rightarrow> PayUWebhookEvent \<Rightarrow> (unit, 'db) io" where
  "onSubscriptionResumed ctx options event =
     (case subscription options of
        None \<Rightarrow> io_return ()
      | Some so \<Rightarrow>
          if \<not> enabled so then io_return ()
          else try_catch
            (io_bind (findSubscription ctx event) (\<lambda>sub.
               case sub of
                 Some s \<Rightarrow>
                   io_bind (\<lambda>w. adapter_update ctx ''subscription'' [(''id'', sub_id s)]
                              [(''status'', VStatus Active),
                               (''pausedAt'', VNull),
                               (''updatedAt'', VDate (now w))] w) (\<lambda>_.
                   io_bind (find_plan so s) (\<lambda>plan.
                   invoke ''onSubscriptionResumed'' (cb_onSubscriptionResumed so)
                     (SubscriptionCallbackData s plan event)))
               | None \<Rightarrow> io_return ()))
            (\<lambda>err. logger_error (''PayU onSubscriptionResumed error: '' @ exn_message err)))"

definition onMandateRevoked ::
  "'db Adapter \<Rightarrow> PayUOptions \<Rightarrow> PayUWebhookEvent \<Rightarrow> (unit, 'db) io" where
  "onMandateRevoked ctx options event =
     (case subscription options of
        None \<Rightarrow> io_return ()
      | Some so \<Rightarrow>
          if \<not> enabled so then io_return ()
          else try_catch
            (io_bind (findSubscription ctx event) (\<lambda>sub.
               case sub of
                 Some s \<Rightarrow>
                   io_bind (\<lambda>w. adapter_update ctx ''subscription'' [(''id'', sub_id s)]
                              (cancelled_update (now w)) w) (\<lambda>_.
                   io_bind (find_plan so s) (\<lambda>plan.
                   invoke ''onMandateRevoked'' (cb_onMandateRevoked so)
                     (SubscriptionCallbackData s plan event)))
               | None \<Rightarrow> io_return ()))
            (\<lambda>err. logger_error (''PayU onMandateRevoked error: '' @ exn_message err)))"

definition onMandateModified ::
  "'db Adapter \<Rightarrow> PayUOptions \<Rightarrow> PayUWebhookEvent \<Rightarrow> (unit, 'db) io" where
  "onMandateModified ctx options event =
     (case subscription options of
        None \<Rightarrow> io_return ()
      | Some so \<Rightarrow>
          if \<not> enabled so then io_return ()
          else try_catch
            (io_bind (findSubscription ctx event) (\<lambda>sub.
               case sub of
                 Some s \<Rightarrow>
                   io_bind (\<lambda>w. adapter_update ctx ''subscription'' [(''id'', sub_id s)]
                              [(''updatedAt'', VDate (now w))] w) (\<lambda>_.
                   io_bind (find_plan so s) (\<lambda>plan.
                   invoke ''onMandateModified'' (cb_onMandateModified so)
                     (SubscriptionCallbackData s plan event)))
               | None \<Rightarrow> io_return ()))
            (\<lambda>err. logger_error (''PayU onMandateModified error: '' @ exn_message err)))"

section \<open>The webhook endpoint\<close>

text \<open>
  The request body is a \<open>Record<string, string>\<close>, or missing. The endpoint answers with
  \<open>ctx.json({ success: true })\<close> or throws an \<open>APIError\<close>.
\<close>

type_synonym request_body = "string \<Rightarrow> string option"

record webhook_response =
  success :: bool

text \<open>The object literal passed to \<open>verifyPayUHash\<close>.\<close>

definition webhook_verify_params :: "PayUOptions \<Rightarrow> request_body \<Rightarrow> PayUVerifyParams" where
  "webhook_verify_params options body =
     \<lparr>key = or_else (body ''key'') (merchantKey options),
      txnid = or_else (body ''txnid'') [],
      amount = or_else (body ''amount'') [],
      productinfo = or_else (body ''productinfo'') [],
      firstname = or_else (body ''firstname'') [],
      email = or_else (body ''email'') [],
      udf1 = body ''udf1'', udf2 = body ''udf2'', udf3 = body ''udf3'', udf4 = body ''udf4'',
      udf5 = body ''udf5'', udf6 = body ''udf6'', udf7 = body ''udf7'', udf8 = body ''udf8'',
      udf9 = body ''udf9'', udf10 = body ''udf10'',
      status = or_else (body ''status'') []\<rparr>"

text \<open>The \<open>event\<close> object literal. \<open>body.hash\<close> is known to be non-empty where it is built.\<close>

definition webhook_event :: "request_body \<Rightarrow> PayUWebhookEvent" where
  "webhook_event body =
     \<lparr>key = or_else (body ''key'') [],
      txnid = or_else (body ''txnid'') [],
      amount = or_else (body ''amount'') [],
      productinfo = or_else (body ''productinfo'') [],
      firstname = or_else (body ''firstname'') [],
      email = or_else (body ''email'') [],
      udf1 = body ''udf1'', udf2 = body ''udf2'', udf3 = body ''udf3'', udf4 = body ''udf4'',
      udf5 = body ''udf5'', udf6 = body ''udf6'', udf7 = body ''udf7'', udf8 = body ''udf8'',
      udf9 = body ''udf9'', udf10 = body ''udf10'',
      status = or_else (body ''status'') [],
      mihpayid = or_else (body ''mihpayid'') [],
      phone = or_else (body ''phone'') [],
      hash = or_else (body ''hash'') [],
      mode = or_else (body ''mode'') [],
      unmappedstatus = or_else (body ''unmappedstatus'') [],
      field9 = or_else (body ''field9'') [],
      error = or_else (body ''error_Message'') (or_else (body ''error'') []),
      bank_ref_num = or_else (body ''bank_ref_num'') [],
      addedon = or_else (body ''addedon'') [],
      payment_source = or_else (body ''payment_source'') [],
      notificationType = body ''notificationType''\<rparr>"

text \<open>
  The routing chain of the endpoint, on \<open>body.status?.toLowerCase()\<close> and
  \<open>body.notificationType?.toLowerCase()\<close>.
\<close>

definition webhook_route ::
  "'db Adapter \<Rightarrow> PayUOptions \<Rightarrow> request_body \<Rightarrow> PayUWebhookEvent \<Rightarrow> (unit, 'db) io" where
  "webhook_route ctx options body event =
     (let st = map_option toLowerCase (body ''status'');
          notifType = map_option toLowerCase (body ''notificationType'')
      in if notifType = Some ''mandate_revoked'' \<or> notifType = Some ''si_cancelled''
           then onMandateRevoked ctx options event
         else if notifType = Some ''mandate_modified'' \<or> notifType = Some ''si_modified''
           then onMandateModified ctx options event
         else if st = Some ''success'' \<or> st = Some ''captured''
           then io_bind (onPaymentSuccess ctx options event)
                  (\<lambda>_. onSubscriptionActivated ctx options event)
         else if st = Some ''failure'' \<or> st = Some ''failed''
           then onPaymentFailure ctx options event
         else if st = Some ''pending'' then onSubscriptionPending ctx options event
         else if st = Some ''cancelled'' then onSubscriptionCancelled ctx options event
         else if st = Some ''halted'' then onSubscriptionHalted ctx options event
         else if st = Some ''completed'' then onSubscriptionCompleted ctx options event
         else if st = Some ''paused'' then onSubscriptionPaused ctx options event
         else if st = Some ''resumed'' \<or> st = Some ''active''
           then onSubscriptionResumed ctx options event
         else io_return ())"

definition webhook ::
  "'db Adapter \<Rightarrow> PayUOptions \<Rightarrow> request_body option \<Rightarrow> (webhook_response, 'db) io" where
  "webhook ctx options ctx_body =
     (case ctx_body of
        None \<Rightarrow> io_throw (createAPIError ''BAD_REQUEST'' WEBHOOK_HASH_NOT_FOUND)
      | Some body \<Rightarrow>
          if or_else (body ''hash'') [] = []
            then io_throw (createAPIError ''BAD_REQUEST'' WEBHOOK_HASH_NOT_FOUND)
          else
            let isValid =
                  verifyPayUHash (webhook_verify_params options body) (merchantSalt options)
                    (or_else (body ''hash'') [])
            in if \<not> isValid
                 then io_throw (createAPIError ''UNAUTHORIZED'' FAILED_TO_VERIFY_WEBHOOK)
               else io_bind (webhook_route ctx options body (webhook_event body))
                      (\<lambda>_. io_return \<lparr>success = True\<rparr>))"

section \<open>The dispatch as the specification words it\<close>

text \<open>
  The specification classifies a verified event first by notification type and then by the
  lower-cased status, in a fixed order, and names the transition of each class. This is
  that classification, to be compared with the routing chain of the source.
\<close>

datatype classification =
  MandateRevoked | MandateModified | PaymentSuccess | PaymentFailure | SubscriptionPending
| SubscriptionCancelled | SubscriptionHalted | SubscriptionCompleted | SubscriptionPaused
| SubscriptionResumed | Unrecognized

definition spec_classify :: "string option \<Rightarrow> string option \<Rightarrow> classification" where
  "spec_classify notifType st =
     (if map_option toLowerCase notifType \<in> {Some ''mandate_revoked'', Some ''si_cancelled''}
        then MandateRevoked
      else if map_option toLowerCase notifType \<in> {Some ''mandate_modified'', Some ''si_modified''}
        then MandateModified
      else if map_option toLowerCase st \<in> {Some ''success'', Some ''captured''} then PaymentSuccess
      else if map_option toLowerCase st \<in> {Some ''failure'', Some ''failed''} then PaymentFailure
      else if map_option toLowerCase st = Some ''pending'' then SubscriptionPending
      else if map_option toLowerCase st = Some ''cancelled'' then SubscriptionCancelled
      else if map_option toLowerCase st = Some ''halted'' then SubscriptionHalted
      else if map_option toLowerCase st = Some ''completed'' then SubscriptionCompleted
      else if map_option toLowerCase st = Some ''paused'' then SubscriptionPaused
      else if map_option toLowerCase st \<in> {Some ''resumed'', Some ''active''} then SubscriptionResumed
      else Unrecognized)"

fun spec_transition ::
  "classification \<Rightarrow> 'db Adapter \<Rightarrow> PayUOptions \<Rightarrow> PayUWebhookEvent \<Rightarrow> (unit, 'db) io" where
  "spec_transition MandateRevoked ctx options event = onMandateRevoked ctx options event"
| "spec_transition MandateModified ctx options event = onMandateModified ctx options event"
| "spec_transition PaymentSuccess ctx options event =
     io_bind (onPaymentSuccess ctx options event) (\<lambda>_. onSubscriptionActivated ctx options event)"
| "spec_transition PaymentFailure ctx options event = onPaymentFailure ctx options event"
| "spec_transition SubscriptionPending ctx options event = onSubscriptionPending ctx options event"
| "spec_transition SubscriptionCancelled ctx options event =
     onSubscriptionCancelled ctx options event"
| "spec_transition SubscriptionHalted ctx options event = onSubscriptionHalted ctx options event"
| "spec_transition SubscriptionCompleted ctx options event =
     onSubscriptionCompleted ctx options event"
| "spec_transition SubscriptionPaused ctx options event = onSubscriptionPaused ctx options event"
| "spec_transition SubscriptionResumed ctx options event = onSubscriptionResumed ctx options event"
| "spec_transition Unrecognized ctx options event = io_return ()"

section \<open>Reading a trace\<close>

text \<open>The update calls, the read calls and the callbacks recorded in a trace.\<close>

fun updates_of :: "effect list \<Rightarrow> (where_clause \<times> update_fields) list" where
  "updates_of [] = []"
| "updates_of (Update model wh upd # es) = (wh, upd) # updates_of es"
| "updates_of (e # es) = updates_of es"

fun reads_of :: "effect list \<Rightarrow> where_clause list" where
  "reads_of [] = []"
| "reads_of (FindOne model wh # es) = wh # reads_of es"
| "reads_of (e # es) = reads_of es"

fun callbacks_of :: "effect list \<Rightarrow> (string \<times> callback_data) list" where
  "callbacks_of [] = []"
| "callbacks_of (Callback cb_name data # es) = (cb_name, data) # callbacks_of es"
| "callbacks_of (e # es) = callbacks_of es"

fun errors_of :: "effect list \<Rightarrow> string list" where
  "errors_of [] = []"
| "errors_of (LoggerError msg # es) = msg # errors_of es"
| "errors_of (e # es) = errors_of es"

section \<open>An in-memory adapter and the fixtures of the handler tests\<close>

text \<open>
  A reference adapter over a list of subscription rows: \<open>findOne\<close> returns the first row
  that meets every condition of the where clause, \<open>update\<close> rewrites the first such row
  with the fields of the update. It stands for the persistence collaborator in concrete
  scenarios; the claims that hold for every adapter are proved for every adapter.
\<close>

definition row_matches :: "Subscription \<Rightarrow> where_clause \<Rightarrow> bool" where
  "row_matches s wh =
     list_all (\<lambda>(f, v). if f = ''id'' then sub_id s = v
                         else if f = ''payuTransactionId'' then payuTransactionId s = Some v
                         else False) wh"

definition date_of :: "db_value \<Rightarrow> date option" where
  "date_of v = (case v of VDate d \<Rightarrow> Some d | _ \<Rightarrow> None)"

definition number_of :: "db_value \<Rightarrow> int option" where
  "number_of v = (case v of VNumber n \<Rightarrow> Some n | _ \<Rightarrow> None)"

definition set_field :: "Subscription \<Rightarrow> string \<times> db_value \<Rightarrow> Subscription" where
  "set_field s fv =
     (case fv of (f, v) \<Rightarrow>
        if f = ''status'' then (case v of VStatus st \<Rightarrow> s\<lparr>sub_status := st\<rparr> | _ \<Rightarrow> s)
        else if f = ''payuMihpayid''
          then (case v of VString m \<Rightarrow> s\<lparr>payuMihpayid := Some m\<rparr> | _ \<Rightarrow> s\<lparr>payuMihpayid := None\<rparr>)
        else if f = ''paidCount'' then s\<lparr>paidCount := number_of v\<rparr>
        else if f = ''remainingCount'' then s\<lparr>remainingCount := number_of v\<rparr>
        else if f = ''currentStart'' then s\<lparr>currentStart := date_of v\<rparr>
        else if f = ''cancelledAt'' then s\<lparr>cancelledAt := date_of v\<rparr>
        else if f = ''endedAt'' then s\<lparr>endedAt := date_of v\<rparr>
        else if f = ''pausedAt'' then s\<lparr>pausedAt := date_of v\<rparr>
        else if f = ''updatedAt'' then (case v of VDate d \<Rightarrow> s\<lparr>updatedAt := d\<rparr> | _ \<Rightarrow> s)
        else s)"

definition apply_update :: "update_fields \<Rightarrow> Subscription \<Rightarrow> Subscription" where
  "apply_update upd s = foldl set_field s upd"

fun update_first ::
  "(Subscription \<Rightarrow> bool) \<Rightarrow> (Subscription \<Rightarrow> Subscription) \<Rightarrow> Subscription list \<Rightarrow> Subscription list" where
  "update_first P f [] = []"
| "update_first P f (s # ss) = (if P s then f s # ss else s # update_first P f ss)"

definition memory_adapter :: "(Subscription list) Adapter" where
  "memory_adapter =
     \<lparr>findOne = (\<lambda>model wh db.
        (Inr (if model = ''subscription'' then find (\<lambda>s. row_matches s wh) db else None), db)),
      update = (\<lambda>model wh upd db.
        (Inr (), if model = ''subscription''
                   then update_first (\<lambda>s. row_matches s wh) (apply_update upd) db
                 else db))\<rparr>"

text \<open>An adapter whose every call rejects, as in the test that mocks a database error.\<close>

definition failing_adapter :: "(Subscription list) Adapter" where
  "failing_adapter =
     \<lparr>findOne = (\<lambda>model wh db. (Inl (Error ''DB error''), db)),
      update = (\<lambda>model wh upd db. (Inl (Error ''DB error''), db))\<rparr>"

text \<open>\<open>mockSubscription\<close>, \<open>mockEvent\<close> and \<open>baseOptions\<close> of the handler tests.\<close>

definition mockSubscription :: Subscription where
  "mockSubscription =
     \<lparr>sub_id = ''sub_123'', sub_plan = ''Monthly'', referenceId = ''user_123'',
      payuCustomerId = Some ''cust_123'', payuSubscriptionId = ''payu_sub_123'',
      payuMandateType = Some ''card'', payuTransactionId = Some ''txn_123'',
      payuMihpayid = None, sub_status = Active, currentStart = Some 1000, currentEnd = None,
      cancelledAt = None, endedAt = None, pausedAt = None,
      totalCount = Some 12, paidCount = Some 3, remainingCount = Some 9,
      quantity = Some 1, seats = None, trialStart = None, trialEnd = None,
      createdAt = 1000, updatedAt = 1000\<rparr>"

definition mockEvent :: PayUWebhookEvent where
  "mockEvent =
     \<lparr>key = ''testKey'', txnid = ''txn_123'', amount = ''499'', productinfo = ''Monthly'',
      firstname = ''user_123'', email = ''test@test.com'',
      udf1 = None, udf2 = None, udf3 = None, udf4 = None, udf5 = None,
      udf6 = None, udf7 = None, udf8 = None, udf9 = None, udf10 = None,
      status = ''success'', mihpayid = ''mih_123'', phone = ''9999999999'',
      hash = ''test_hash'', mode = ''CC'', unmappedstatus = ''captured'', field9 = [],
      error = [], bank_ref_num = ''ref123'', addedon = ''2024-01-15'',
      payment_source = ''payu'', notificationType = None\<rparr>"

definition monthly_plan :: PayUPlan where
  "monthly_plan =
     \<lparr>planId = ''plan_monthly'', name = ''Monthly'', plan_amount = ''499'',
      billingCycle = ''MONTHLY'', billingInterval = 1, plan_totalCount = 12,
      annualPlanId = None, trialDays = None\<rparr>"

definition noted :: callback where
  "noted data = None"

definition throwing :: callback where
  "throwing data = Some (Error ''callback failed'')"

definition baseSubscriptionOptions :: SubscriptionOptions where
  "baseSubscriptionOptions =
     \<lparr>enabled = True, plans = Some (PlansArray [monthly_plan]),
      cb_onSubscriptionActivated = None, cb_onSubscriptionCharged = None,
      cb_onSubscriptionPending = None, cb_onSubscriptionHalted = None,
      cb_onSubscriptionCompleted = None, cb_onSubscriptionCancelled = None,
      cb_onSubscriptionPaused = None, cb_onSubscriptionResumed = None,
      cb_onPaymentSuccess = None, cb_onPaymentFailure = None,
      cb_onMandateRevoked = None, cb_onMandateModified = None\<rparr>"

definition baseOptions :: PayUOptions where
  "baseOptions =
     \<lparr>merchantKey = ''testKey'', merchantSalt = ''testSalt'',
      subscription = Some baseSubscriptionOptions\<rparr>"

definition world0 :: "Subscription list \<Rightarrow> date \<Rightarrow> (Subscription list) world" where
  "world0 db t = \<lparr>store = db, now = t, trace = []\<rparr>"

text \<open>
  A request body with the hashed fields of the hash tests, a status, a digest and a
  notification type (which is not hashed).
\<close>

definition test_body :: "string \<Rightarrow> string \<Rightarrow> string option \<Rightarrow> request_body" where
  "test_body st h notif =
     (map_of
        [(''key'', ''testKey''), (''txnid'', ''txn123''), (''amount'', ''100''),
         (''productinfo'', ''TestProduct''), (''firstname'', ''John''),
         (''email'', ''john@test.com''), (''status'', st),
         (''mihpayid'', ''mih_123''), (''hash'', h)])
     (''notificationType'' := notif)"

text \<open>The digests of the reverse messages with status \<open>success\<close> and \<open>active\<close>.\<close>

definition success_digest :: string where
  "success_digest =
     ''bd8b23bb90ddf88f75a8204e7038d8abbb67c8891cfcbd7e931c9c54e93bf6b2a05c6aed728e8ad23e9a629e5913dee7021ddf03efd09d127c5fb175bcc85034''"

definition active_digest :: string where
  "active_digest =
     ''6bc2e74ff780a8280045ffad6838c6f96238298e3f1493b79da9e49e5af719dc37eb01e0dc9015b2c9b0fe361564c6ef1ebfe0b6b25bb4992c5f025f94197f2d''"

text \<open>The stored row of the scenarios: \<open>mockSubscription\<close> under the transaction id of the body.\<close>

definition stored_subscription :: Subscription where
  "stored_subscription = mockSubscription\<lparr>payuTransactionId := Some ''txn123''\<rparr>"

text \<open>The stored row once cancelled at time 100, and once all twelve charges are paid.\<close>

definition cancelled_subscription :: Subscription where
  "cancelled_subscription =
     stored_subscription\<lparr>sub_status := Cancelled, cancelledAt := Some 100, endedAt := Some 100\<rparr>"

definition exhausted_subscription :: Subscription where
  "exhausted_subscription = stored_subscription\<lparr>paidCount := Some 12, remainingCount := Some 0\<rparr>"

text \<open>The options of the tests with three callbacks set.\<close>

definition callbackOptions :: PayUOptions where
  "callbackOptions =
     baseOptions\<lparr>subscription := Some (baseSubscriptionOptions
       \<lparr>cb_onSubscriptionCancelled := Some noted,
        cb_onPaymentSuccess := Some throwing,
        cb_onPaymentFailure := Some noted\<rparr>)\<rparr>"

section \<open>Status checkers and the counter invariant\<close>

text \<open>\<open>isTerminal\<close> of the utilities.\<close>

definition isTerminal :: "Subscription \<Rightarrow> bool" where
  "isTerminal sub =
     (sub_status sub = Cancelled \<or> sub_status sub = Completed \<or> sub_status sub = Expired)"

text \<open>
  The invariant of the data model as the specification words it: when \<open>totalCount\<close> is not
  null and the subscription is not terminal, \<open>paidCount + remainingCount == totalCount\<close>
  (a null counter adds as 0).
\<close>

definition spec_counter_invariant :: "Subscription \<Rightarrow> bool" where
  "spec_counter_invariant sub =
     (case totalCount sub of
        None \<Rightarrow> True
      | Some n \<Rightarrow>
          if isTerminal sub then True
          else num_or (paidCount sub) 0 + num_or (remainingCount sub) 0 = n)"

text \<open>
  Fixtures for the lookup order: a second row with another id and transaction id, an event
  whose transaction id names the stored row and whose slot 4 names the second row, and an
  adapter that reads from memory and rejects every update.
\<close>

definition other_subscription :: Subscription where
  "other_subscription =
     stored_subscription\<lparr>sub_id := ''sub_456'', payuTransactionId := Some ''txn_other''\<rparr>"

definition two_way_event :: PayUWebhookEvent where
  "two_way_event = mockEvent\<lparr>txnid := ''txn123'', udf4 := Some ''sub_456''\<rparr>"

definition readonly_adapter :: "(Subscription list) Adapter" where
  "readonly_adapter =
     memory_adapter\<lparr>update := (\<lambda>model wh upd db. (Inl (Error ''DB error''), db))\<rparr>"

section \<open>Facts about the digest and the joined messages\<close>

lemma hexdigit_in: "0 \<le> n \<Longrightarrow> n < 16 \<Longrightarrow> hexdigit n \<in> set ''0123456789abcdef''"
proof -
  assume "0 \<le> n" "n < 16"
  then have "nat n < length ''0123456789abcdef''" by simp
  then show ?thesis unfolding hexdigit_def by (rule nth_mem)
qed

lemma be_bytes8_range: "b \<in> set (be_bytes8 v) \<Longrightarrow> 0 \<le> b \<and> b < 256"
  by (auto simp: be_bytes8_def)

lemma length_be_bytes8: "length (be_bytes8 v) = 8"
  by (simp add: be_bytes8_def)

lemma state_bytes_range: "b \<in> set (state_bytes st) \<Longrightarrow> 0 \<le> b \<and> b < 256"
  by (cases st rule: state_bytes.cases) (auto dest: be_bytes8_range)

lemma length_state_bytes: "length (state_bytes st) = 64"
  by (cases st rule: state_bytes.cases) (simp add: length_be_bytes8)

lemma length_hex: "length (hex bs) = 2 * length bs"
  by (induction bs) (simp_all add: hex_def)

lemma hex_chars:
  "(\<And>b. b \<in> set bs \<Longrightarrow> 0 \<le> b \<and> b < 256) \<Longrightarrow> c \<in> set (hex bs) \<Longrightarrow> c \<in> set ''0123456789abcdef''"
proof -
  assume r: "\<And>b. b \<in> set bs \<Longrightarrow> 0 \<le> b \<and> b < 256" and c: "c \<in> set (hex bs)"
  from c obtain b where b: "b \<in> set bs" and "c = hexdigit (b div 16) \<or> c = hexdigit (b mod 16)"
    by (auto simp: hex_def)
  moreover from r [OF b] have "0 \<le> b div 16" "b div 16 < 16" "0 \<le> b mod 16" "b mod 16 < 16"
    by auto
  ultimately show ?thesis using hexdigit_in by blast
qed

lemma sha512_range: "b \<in> set (sha512 m) \<Longrightarrow> 0 \<le> b \<and> b < 256"
  unfolding sha512_def by (rule state_bytes_range)

lemma length_sha512: "length (sha512 m) = 64"
  unfolding sha512_def by (rule length_state_bytes)

lemma length_createHmac: "length (createHmac_sha512_hex k m) = 128"
  by (simp add: createHmac_sha512_hex_def hmac_sha512_def Let_def length_hex length_sha512)

lemma createHmac_chars: "c \<in> set (createHmac_sha512_hex k m) \<Longrightarrow> c \<in> set ''0123456789abcdef''"
  unfolding createHmac_sha512_hex_def hmac_sha512_def Let_def
  by (erule hex_chars [rotated]) (rule sha512_range)









text \<open>
  The model of the digest agrees with the published values: SHA-512 of \<open>abc\<close> (FIPS 180-4)
  and HMAC-SHA-512 with the empty key over the empty message.
\<close>

lemma sha512_abc:
  "hex (sha512 (utf8 ''abc'')) =
   ''ddaf35a193617abacc417349ae20413112e6fa4e89a97ea20a9eeee64b55d39a2192992a274fc1a836ba3c23a3feebbd454d4423643ce80e2a9ac94fa54ca49f''"
  by code_simp

lemma hmac_sha512_empty:
  "createHmac_sha512_hex [] [] =
   ''b936cee86c9f87aa5d3c6f2e84cb5a4239a5fe50480a6ec66b70ab5b1f4ac6730c6c515421b327ec1d69402e53dfb49ad7381eb067b338fd7b0cb22247225d47''"
  by code_simp

text \<open>
  The messages and digests of the test parameters. The three digests are evaluated by the
  kernel from the definitions above.
\<close>

lemma test_hashString:
  "hashString test_params ''testSalt'' =
     ''testKey|txn123|100|TestProduct|John|john@test.com|||||||||||testSalt''"
  by (simp add: hashString_def hashFields_def test_params_def or_else_def)

lemma test_reverseHashString:
  "reverseHashString test_params ''testSalt'' =
     ''testSalt|success||||||||||||||||||||john@test.com|John|TestProduct|100|txn123|testKey''"
  by (simp add: reverseHashString_def test_params_def or_else_def)

lemma test_spec_reverseHashString:
  "spec_reverseHashString test_params ''testSalt'' =
     ''testSalt|success||||||||||||||||john@test.com|John|TestProduct|100|txn123|testKey''"
  by (simp add: spec_reverseHashString_def test_params_def or_else_def)

lemma digest_outbound:
  "createHmac_sha512_hex []
     ''testKey|txn123|100|TestProduct|John|john@test.com|||||||||||testSalt'' =
   ''e1fecf48b949235d60d9f8051105213addede121597973e9c748019eb5e35dafd8566458819348bd8b3c9b4080bd57a139bb1d790d64987d8f0b1aff813ca5fa''"
  by code_simp

lemma digest_reverse:
  "createHmac_sha512_hex []
     ''testSalt|success||||||||||||||||||||john@test.com|John|TestProduct|100|txn123|testKey'' =
   ''bd8b23bb90ddf88f75a8204e7038d8abbb67c8891cfcbd7e931c9c54e93bf6b2a05c6aed728e8ad23e9a629e5913dee7021ddf03efd09d127c5fb175bcc85034''"
  by code_simp

lemma digest_spec_reverse:
  "createHmac_sha512_hex []
     ''testSalt|success||||||||||||||||john@test.com|John|TestProduct|100|txn123|testKey'' =
   ''4cb49a68d936b7c784fd39df296ee86916351ce0c02339e8552793f251bba6bd7acbc09b6bc5ba7448a03ac513760383db1004747ec563104588694fa2bfcbb2''"
  by code_simp

section \<open>Claims about the hash engine\<close>

text \<open>
  C1 (as amended). Reverse-hash verification computes the empty-key HMAC-SHA-512 digest,
  128 lowercase hexadecimal characters, over the pipe-joined message of merchant salt,
  status, nine empty-string placeholders, udf10 down to udf1 with the empty string for an
  absent slot, email, first name, product description, amount, transaction id and merchant
  key; it succeeds exactly when that digest equals the received one as a string.
\<close>

theorem verifyPayUHash_reverse_message:
  "(verifyPayUHash params salt receivedHash \<longleftrightarrow>
      createHmac_sha512_hex []
        (join ''|''
          ([salt, status params] @ [[], [], [], [], [], [], [], [], []] @
           [or_else (udf10 params) [], or_else (udf9 params) [], or_else (udf8 params) [],
            or_else (udf7 params) [], or_else (udf6 params) [], or_else (udf5 params) [],
            or_else (udf4 params) [], or_else (udf3 params) [], or_else (udf2 params) [],
            or_else (udf1 params) []] @
           [email params, firstname params, productinfo params, amount params, txnid params,
            key params])) = receivedHash)
   \<and> length (createHmac_sha512_hex [] (reverseHashString params salt)) = 128
   \<and> set (createHmac_sha512_hex [] (reverseHashString params salt)) \<subseteq> set ''0123456789abcdef''"
proof -
  have "set (createHmac_sha512_hex [] (reverseHashString params salt)) \<subseteq> set ''0123456789abcdef''"
    using createHmac_chars by blast
  then show ?thesis
    by (simp add: verifyPayUHash_def reverseHashString_def length_createHmac)
qed

theorem verifyPayUHash_reverse_message_witness:
  "verifyPayUHash test_params ''testSalt''
     ''bd8b23bb90ddf88f75a8204e7038d8abbb67c8891cfcbd7e931c9c54e93bf6b2a05c6aed728e8ad23e9a629e5913dee7021ddf03efd09d127c5fb175bcc85034''"
  using verifyPayUHash_reverse_message [of test_params "''testSalt''"] digest_reverse
  by (simp add: test_params_def or_else_def)

text \<open>
  C1 as stated fails: the digest of the message with five placeholders is not accepted for
  the test parameters.
\<close>

theorem verifyPayUHash_five_placeholders_counterexample:
  "\<not> verifyPayUHash test_params ''testSalt''
       (createHmac_sha512_hex [] (spec_reverseHashString test_params ''testSalt''))"
  by (simp add: verifyPayUHash_def test_reverseHashString test_spec_reverseHashString
      digest_reverse digest_spec_reverse)

text \<open>
  C6 (as amended). \<open>verifyPayUHash\<close> accepts exactly the digest of the reverse message, so it
  accepts that digest for every parameter set and salt; \<open>generatePayUHash\<close> produces the
  digest of the outbound message, and verifying its output succeeds exactly when the two
  messages have the same digest.
\<close>

theorem verify_generate_round_trip:
  "verifyPayUHash params salt (createHmac_sha512_hex [] (reverseHashString params salt))
   \<and> (verifyPayUHash params salt (generatePayUHash params salt) \<longleftrightarrow>
        createHmac_sha512_hex [] (reverseHashString params salt) =
        createHmac_sha512_hex [] (hashString params salt))"
  by (simp add: verifyPayUHash_def generatePayUHash_def)

theorem verify_generate_round_trip_witness:
  "verifyPayUHash test_params ''testSalt''
     (createHmac_sha512_hex [] (reverseHashString test_params ''testSalt''))
   \<and> generatePayUHash test_params ''testSalt'' \<noteq>
       createHmac_sha512_hex [] (reverseHashString test_params ''testSalt'')"
  using verify_generate_round_trip [of test_params "''testSalt''"]
  by (simp add: generatePayUHash_def test_hashString test_reverseHashString
      digest_outbound digest_reverse)

text \<open>
  C6 as stated fails: the digest that \<open>generatePayUHash\<close> produces for the test parameters
  is rejected by \<open>verifyPayUHash\<close> for the same parameters and salt.
\<close>

theorem verify_generate_counterexample:
  "\<not> verifyPayUHash test_params ''testSalt'' (generatePayUHash test_params ''testSalt'')"
  by (simp add: verifyPayUHash_def generatePayUHash_def test_hashString test_reverseHashString
      digest_outbound digest_reverse)





section \<open>Facts about the handlers\<close>

lemma updates_of_append: "updates_of (xs @ ys) = updates_of xs @ updates_of ys"
  by (induction xs rule: updates_of.induct) simp_all

lemma reads_of_append: "reads_of (xs @ ys) = reads_of xs @ reads_of ys"
  by (induction xs rule: reads_of.induct) simp_all

lemma callbacks_of_append: "callbacks_of (xs @ ys) = callbacks_of xs @ callbacks_of ys"
  by (induction xs rule: callbacks_of.induct) simp_all

lemma errors_of_append: "errors_of (xs @ ys) = errors_of xs @ errors_of ys"
  by (induction xs rule: errors_of.induct) simp_all

lemma num_or_zero: "num_or x 0 = (case x of None \<Rightarrow> 0 | Some n \<Rightarrow> n)"
  by (simp add: num_or_def split: option.splits)

text \<open>A \<open>try\<close> block whose \<open>catch\<close> clause only logs returns normally.\<close>

lemma try_catch_logs:
  "try_catch m (\<lambda>err. logger_error (msg err)) w =
     (case m w of
        (Inl e, w') \<Rightarrow> (Inr (), w'\<lparr>trace := trace w' @ [LoggerError (msg e)]\<rparr>)
      | (Inr x, w') \<Rightarrow> (Inr (), w'))"
  by (simp add: try_catch_def logger_error_def split: prod.splits sum.splits)

lemma try_catch_returns: "fst (try_catch m (\<lambda>err. logger_error (msg err)) w) = Inr ()"
  by (simp add: try_catch_logs split: prod.splits sum.splits)

lemma onPaymentSuccess_returns: "fst (onPaymentSuccess ctx options event w) = Inr ()"
  by (simp add: onPaymentSuccess_def io_return_def try_catch_returns split: option.splits)

lemma onPaymentFailure_returns: "fst (onPaymentFailure ctx options event w) = Inr ()"
  by (simp add: onPaymentFailure_def io_return_def try_catch_returns split: option.splits)

lemma onSubscriptionActivated_returns: "fst (onSubscriptionActivated ctx options event w) = Inr ()"
  by (simp add: onSubscriptionActivated_def io_return_def try_catch_returns split: option.splits)

lemma onSubscriptionCharged_returns: "fst (onSubscriptionCharged ctx options event w) = Inr ()"
  by (simp add: onSubscriptionCharged_def io_return_def try_catch_returns split: option.splits)

lemma onSubscriptionPending_returns: "fst (onSubscriptionPending ctx options event w) = Inr ()"
  by (simp add: onSubscriptionPending_def io_return_def try_catch_returns split: option.splits)

lemma onSubscriptionHalted_returns: "fst (onSubscriptionHalted ctx options event w) = Inr ()"
  by (simp add: onSubscriptionHalted_def io_return_def try_catch_returns split: option.splits)

lemma onSubscriptionCompleted_returns: "fst (onSubscriptionCompleted ctx options event w) = Inr ()"
  by (simp add: onSubscriptionCompleted_def io_return_def try_catch_returns split: option.splits)

lemma onSubscriptionCancelled_returns: "fst (onSubscriptionCancelled ctx options event w) = Inr ()"
  by (simp add: onSubscriptionCancelled_def io_return_def try_catch_returns split: option.splits)

lemma onSubscriptionPaused_returns: "fst (onSubscriptionPaused ctx options event w) = Inr ()"
  by (simp add: onSubscriptionPaused_def io_return_def try_catch_returns split: option.splits)

lemma onSubscriptionResumed_returns: "fst (onSubscriptionResumed ctx options event w) = Inr ()"
  by (simp add: onSubscriptionResumed_def io_return_def try_catch_returns split: option.splits)

lemma onMandateRevoked_returns: "fst (onMandateRevoked ctx options event w) = Inr ()"
  by (simp add: onMandateRevoked_def io_return_def try_catch_returns split: option.splits)

lemma onMandateModified_returns: "fst (onMandateModified ctx options event w) = Inr ()"
  by (simp add: onMandateModified_def io_return_def try_catch_returns split: option.splits)

lemmas handlers_return =
  onPaymentSuccess_returns onPaymentFailure_returns onSubscriptionActivated_returns
  onSubscriptionCharged_returns onSubscriptionPending_returns onSubscriptionHalted_returns
  onSubscriptionCompleted_returns onSubscriptionCancelled_returns onSubscriptionPaused_returns
  onSubscriptionResumed_returns onMandateRevoked_returns onMandateModified_returns

lemma io_bind_returns:
  "(\<And>w. fst (m w) = Inr ()) \<Longrightarrow> (\<And>w. fst (f () w) = Inr ()) \<Longrightarrow> fst (io_bind m f w) = Inr ()"
proof -
  assume m: "\<And>w. fst (m w) = Inr ()" and f: "\<And>w. fst (f () w) = Inr ()"
  obtain r w' where mw: "m w = (r, w')" by (cases "m w")
  with m [of w] have "r = Inr ()" by simp
  with mw show ?thesis by (simp add: io_bind_def f)
qed

lemma spec_transition_returns: "fst (spec_transition c ctx options event w) = Inr ()"
  by (cases c) (simp_all add: handlers_return io_return_def io_bind_returns)


lemma spec_transition_if:
  "spec_transition (if c then x else y) ctx options event =
     (if c then spec_transition x ctx options event else spec_transition y ctx options event)"
  by (rule if_distrib [where f = "\<lambda>c. spec_transition c ctx options event"])

lemma webhook_route_spec:
  "webhook_route ctx options body event =
     spec_transition (spec_classify (body ''notificationType'') (body ''status'')) ctx options event"
  unfolding webhook_route_def spec_classify_def Let_def spec_transition_if spec_transition.simps
    insert_iff empty_iff simp_thms
  by simp

lemma webhook_route_returns: "fst (webhook_route ctx options body event w) = Inr ()"
  by (simp add: webhook_route_spec spec_transition_returns)

lemma webhook_returns:
  "or_else (body ''hash'') [] \<noteq> [] \<Longrightarrow>
   verifyPayUHash (webhook_verify_params options body) (merchantSalt options) (or_else (body ''hash'') []) \<Longrightarrow>
   fst (webhook ctx options (Some body) w) = Inr \<lparr>success = True\<rparr>"
proof -
  assume h: "or_else (body ''hash'') [] \<noteq> []"
    and v: "verifyPayUHash (webhook_verify_params options body) (merchantSalt options) (or_else (body ''hash'') [])"
  obtain r w' where rw: "webhook_route ctx options body (webhook_event body) w = (r, w')"
    by (cases "webhook_route ctx options body (webhook_event body) w")
  with webhook_route_returns [of ctx options body "webhook_event body" w] have "r = Inr ()" by simp
  with rw h v show ?thesis
    by (simp add: webhook_def io_bind_def io_return_def)
qed


lemma copy_truthy_other: "k \<noteq> k' \<Longrightarrow> copy_truthy udf (k, v) k' = udf k'"
  by (simp add: copy_truthy_def split: option.splits)

lemma copy_truthy_same:
  "copy_truthy udf (k, v) k = (case v of None \<Rightarrow> udf k | Some s \<Rightarrow> if s = [] then udf k else Some s)"
  by (simp add: copy_truthy_def split: option.splits)

lemma udf_slot4: "udf_subscriptionId (subscriptionUdf_get (Some (paramsToUdf event))) =
    (case udf4 event of None \<Rightarrow> None | Some s \<Rightarrow> if s = [] then None else Some s)"
  by (simp add: subscriptionUdf_get_def paramsToUdf_def copy_truthy_other copy_truthy_same
      split: option.splits)

lemma findSubscription_cases:
  "findSubscription ctx event w =
     (case findOne ctx ''subscription'' [(''payuTransactionId'', txnid event)] (store w) of
        (Inl e, db1) \<Rightarrow>
          (Inl e, w\<lparr>store := db1,
                     trace := trace w @ [FindOne ''subscription'' [(''payuTransactionId'', txnid event)]]\<rparr>)
      | (Inr (Some s), db1) \<Rightarrow>
          (Inr (Some s), w\<lparr>store := db1,
                     trace := trace w @ [FindOne ''subscription'' [(''payuTransactionId'', txnid event)]]\<rparr>)
      | (Inr None, db1) \<Rightarrow>
          (case udf4 event of
             None \<Rightarrow>
               (Inr None, w\<lparr>store := db1,
                     trace := trace w @ [FindOne ''subscription'' [(''payuTransactionId'', txnid event)]]\<rparr>)
           | Some sid \<Rightarrow>
               if sid = [] then
                 (Inr None, w\<lparr>store := db1,
                     trace := trace w @ [FindOne ''subscription'' [(''payuTransactionId'', txnid event)]]\<rparr>)
               else
                 (case findOne ctx ''subscription'' [(''id'', sid)] db1 of
                    (r, db2) \<Rightarrow>
                      (r, w\<lparr>store := db2,
                            trace := trace w @ [FindOne ''subscription'' [(''payuTransactionId'', txnid event)],
                                                FindOne ''subscription'' [(''id'', sid)]]\<rparr>))))"
  by (simp add: findSubscription_def findSubscriptionByTxnId_def findSubscriptionByUdf_def
      udf_slot4 Let_def io_bind_def io_return_def adapter_findOne_def
      split: prod.splits sum.splits option.splits)


lemma findSubscription_nothing:
  assumes "\<forall>wh. findOne ctx ''subscription'' wh (store w) = (Inr None, store w)"
  shows "\<exists>rs. findSubscription ctx event w = (Inr None, w\<lparr>trace := trace w @ rs\<rparr>)
            \<and> updates_of rs = [] \<and> callbacks_of rs = [] \<and> errors_of rs = []"
proof (cases "case udf4 event of None \<Rightarrow> True | Some sid \<Rightarrow> sid = []")
  case True
  with assms have "findSubscription ctx event w =
      (Inr None, w\<lparr>trace := trace w @ [FindOne ''subscription'' [(''payuTransactionId'', txnid event)]]\<rparr>)"
    by (simp add: findSubscription_cases split: option.splits)
  then show ?thesis
    by (intro exI [of _ "[FindOne ''subscription'' [(''payuTransactionId'', txnid event)]]"]) simp
next
  case False
  then obtain sid where sid: "udf4 event = Some sid" "sid \<noteq> []"
    by (cases "udf4 event") auto
  with assms have "findSubscription ctx event w =
      (Inr None, w\<lparr>trace := trace w @ [FindOne ''subscription'' [(''payuTransactionId'', txnid event)],
                                         FindOne ''subscription'' [(''id'', sid)]]\<rparr>)"
    by (simp add: findSubscription_cases)
  then show ?thesis
    by (intro exI [of _ "[FindOne ''subscription'' [(''payuTransactionId'', txnid event)],
                         FindOne ''subscription'' [(''id'', sid)]]"]) simp
qed

lemma onPaymentSuccess_nothing:
  assumes "\<forall>wh. findOne ctx ''subscription'' wh (store w) = (Inr None, store w)"
  shows "store (snd (onPaymentSuccess ctx options event w)) = store w
       \<and> updates_of (trace (snd (onPaymentSuccess ctx options event w))) = updates_of (trace w)"
proof -
  from findSubscription_nothing [OF assms] obtain rs where
    "findSubscription ctx event w = (Inr None, w\<lparr>trace := trace w @ rs\<rparr>)" "updates_of rs = []"
    by blast
  then show ?thesis
    by (auto simp: onPaymentSuccess_def try_catch_logs io_bind_def io_return_def logger_warn_def
        invoke_def updates_of_append split: option.splits sum.splits prod.splits)
qed

lemma onPaymentFailure_nothing:
  assumes "\<forall>wh. findOne ctx ''subscription'' wh (store w) = (Inr None, store w)"
  shows "store (snd (onPaymentFailure ctx options event w)) = store w
       \<and> updates_of (trace (snd (onPaymentFailure ctx options event w))) = updates_of (trace w)"
proof -
  from findSubscription_nothing [OF assms] obtain rs where
    "findSubscription ctx event w = (Inr None, w\<lparr>trace := trace w @ rs\<rparr>)" "updates_of rs = []"
    by blast
  then show ?thesis
    by (auto simp: onPaymentFailure_def try_catch_logs io_bind_def io_return_def logger_warn_def
        invoke_def updates_of_append split: option.splits sum.splits prod.splits)
qed

lemma onSubscriptionActivated_nothing:
  assumes "\<forall>wh. findOne ctx ''subscription'' wh (store w) = (Inr None, store w)"
  shows "store (snd (onSubscriptionActivated ctx options event w)) = store w
       \<and> updates_of (trace (snd (onSubscriptionActivated ctx options event w))) = updates_of (trace w)"
proof -
  from findSubscription_nothing [OF assms] obtain rs where
    "findSubscription ctx event w = (Inr None, w\<lparr>trace := trace w @ rs\<rparr>)" "updates_of rs = []"
    by blast
  then show ?thesis
    by (auto simp: onSubscriptionActivated_def try_catch_logs io_bind_def io_return_def logger_warn_def
        invoke_def updates_of_append split: option.splits sum.splits prod.splits)
qed

lemma onSubscriptionCharged_nothing:
  assumes "\<forall>wh. findOne ctx ''subscription'' wh (store w) = (Inr None, store w)"
  shows "store (snd (onSubscriptionCharged ctx options event w)) = store w
       \<and> updates_of (trace (snd (onSubscriptionCharged ctx options event w))) = updates_of (trace w)"
proof -
  from findSubscription_nothing [OF assms] obtain rs where
    "findSubscription ctx event w = (Inr None, w\<lparr>trace := trace w @ rs\<rparr>)" "updates_of rs = []"
    by blast
  then show ?thesis
    by (auto simp: onSubscriptionCharged_def try_catch_logs io_bind_def io_return_def logger_warn_def
        invoke_def updates_of_append split: option.splits sum.splits prod.splits)
qed

lemma onSubscriptionPending_nothing:
  assumes "\<forall>wh. findOne ctx ''subscription'' wh (store w) = (Inr None, store w)"
  shows "store (snd (onSubscriptionPending ctx options event w)) = store w
       \<and> updates_of (trace (snd (onSubscriptionPending ctx options event w))) = updates_of (trace w)"
proof -
  from findSubscription_nothing [OF assms] obtain rs where
    "findSubscription ctx event w = (Inr None, w\<lparr>trace := trace w @ rs\<rparr>)" "updates_of rs = []"
    by blast
  then show ?thesis
    by (auto simp: onSubscriptionPending_def try_catch_logs io_bind_def io_return_def logger_warn_def
        invoke_def updates_of_append split: option.splits sum.splits prod.splits)
qed

lemma onSubscriptionHalted_nothing:
  assumes "\<forall>wh. findOne ctx ''subscription'' wh (store w) = (Inr None, store w)"
  shows "store (snd (onSubscriptionHalted ctx options event w)) = store w
       \<and> updates_of (trace (snd (onSubscriptionHalted ctx options event w))) = updates_of (trace w)"
proof -
  from findSubscription_nothing [OF assms] obtain rs where
    "findSubscription ctx event w = (Inr None, w\<lparr>trace := trace w @ rs\<rparr>)" "updates_of rs = []"
    by blast
  then show ?thesis
    by (auto simp: onSubscriptionHalted_def try_catch_logs io_bind_def io_return_def logger_warn_def
        invoke_def updates_of_append split: option.splits sum.splits prod.splits)
qed

lemma onSubscriptionCompleted_nothing:
  assumes "\<forall>wh. findOne ctx ''subscription'' wh (store w) = (Inr None, store w)"
  shows "store (snd (onSubscriptionCompleted ctx options event w)) = store w
       \<and> updates_of (trace (snd (onSubscriptionCompleted ctx options event w))) = updates_of (trace w)"
proof -
  from findSubscription_nothing [OF assms] obtain rs where
    "findSubscription ctx event w = (Inr None, w\<lparr>trace := trace w @ rs\<rparr>)" "updates_of rs = []"
    by blast
  then show ?thesis
    by (auto simp: onSubscriptionCompleted_def try_catch_logs io_bind_def io_return_def logger_warn_def
        invoke_def updates_of_append split: option.splits sum.splits prod.splits)
qed

lemma onSubscriptionCancelled_nothing:
  assumes "\<forall>wh. findOne ctx ''subscription'' wh (store w) = (Inr None, store w)"
  shows "store (snd (onSubscriptionCancelled ctx options event w)) = store w
       \<and> updates_of (trace (snd (onSubscriptionCancelled ctx options event w))) = updates_of (trace w)"
proof -
  from findSubscription_nothing [OF assms] obtain rs where
    "findSubscription ctx event w = (Inr None, w\<lparr>trace := trace w @ rs\<rparr>)" "updates_of rs = []"
    by blast
  then show ?thesis
    by (auto simp: onSubscriptionCancelled_def try_catch_logs io_bind_def io_return_def logger_warn_def
        invoke_def updates_of_append split: option.splits sum.splits prod.splits)
qed

lemma onSubscriptionPaused_nothing:
  assumes "\<forall>wh. findOne ctx ''subscription'' wh (store w) = (Inr None, store w)"
  shows "store (snd (onSubscriptionPaused ctx options event w)) = store w
       \<and> updates_of (trace (snd (onSubscriptionPaused ctx options event w))) = updates_of (trace w)"
proof -
  from findSubscription_nothing [OF assms] obtain rs where
    "findSubscription ctx event w = (Inr None, w\<lparr>trace := trace w @ rs\<rparr>)" "updates_of rs = []"
    by blast
  then show ?thesis
    by (auto simp: onSubscriptionPaused_def try_catch_logs io_bind_def io_return_def logger_warn_def
        invoke_def updates_of_append split: option.splits sum.splits prod.splits)
qed

lemma onSubscriptionResumed_nothing:
  assumes "\<forall>wh. findOne ctx ''subscription'' wh (store w) = (Inr None, store w)"
  shows "store (snd (onSubscriptionResumed ctx options event w)) = store w
       \<and> updates_of (trace (snd (onSubscriptionResumed ctx options event w))) = updates_of (trace w)"
proof -
  from findSubscription_nothing [OF assms] obtain rs where
    "findSubscription ctx event w = (Inr None, w\<lparr>trace := trace w @ rs\<rparr>)" "updates_of rs = []"
    by blast
  then show ?thesis
    by (auto simp: onSubscriptionResumed_def try_catch_logs io_bind_def io_return_def logger_warn_def
        invoke_def updates_of_append split: option.splits sum.splits prod.splits)
qed

lemma onMandateRevoked_nothing:
  assumes "\<forall>wh. findOne ctx ''subscription'' wh (store w) = (Inr None, store w)"
  shows "store (snd (onMandateRevoked ctx options event w)) = store w
       \<and> updates_of (trace (snd (onMandateRevoked ctx options event w))) = updates_of (trace w)"
proof -
  from findSubscription_nothing [OF assms] obtain rs where
    "findSubscription ctx event w = (Inr None, w\<lparr>trace := trace w @ rs\<rparr>)" "updates_of rs = []"
    by blast
  then show ?thesis
    by (auto simp: onMandateRevoked_def try_catch_logs io_bind_def io_return_def logger_warn_def
        invoke_def updates_of_append split: option.splits sum.splits prod.splits)
qed

lemma onMandateModified_nothing:
  assumes "\<forall>wh. findOne ctx ''subscription'' wh (store w) = (Inr None, store w)"
  shows "store (snd (onMandateModified ctx options event w)) = store w
       \<and> updates_of (trace (snd (onMandateModified ctx options event w))) = updates_of (trace w)"
proof -
  from findSubscription_nothing [OF assms] obtain rs where
    "findSubscription ctx event w = (Inr None, w\<lparr>trace := trace w @ rs\<rparr>)" "updates_of rs = []"
    by blast
  then show ?thesis
    by (auto simp: onMandateModified_def try_catch_logs io_bind_def io_return_def logger_warn_def
        invoke_def updates_of_append split: option.splits sum.splits prod.splits)
qed

lemmas handlers_nothing =
  onPaymentSuccess_nothing onPaymentFailure_nothing onSubscriptionActivated_nothing onSubscriptionPending_nothing onSubscriptionHalted_nothing onSubscriptionCompleted_nothing onSubscriptionCancelled_nothing onSubscriptionPaused_nothing onSubscriptionResumed_nothing onMandateRevoked_nothing onMandateModified_nothing

lemma spec_transition_nothing:
  assumes "\<forall>wh. findOne ctx ''subscription'' wh (store w) = (Inr None, store w)"
  shows "store (snd (spec_transition c ctx options event w)) = store w
       \<and> updates_of (trace (snd (spec_transition c ctx options event w))) = updates_of (trace w)"
proof (cases c)
  case PaymentSuccess
  obtain r w' where first: "onPaymentSuccess ctx options event w = (r, w')"
    by (cases "onPaymentSuccess ctx options event w")
  with onPaymentSuccess_returns [of ctx options event w] have r: "r = Inr ()" by simp
  from first onPaymentSuccess_nothing [OF assms, of options event]
  have w': "store w' = store w" "updates_of (trace w') = updates_of (trace w)" by simp_all
  with assms have "\<forall>wh. findOne ctx ''subscription'' wh (store w') = (Inr None, store w')" by simp
  from onSubscriptionActivated_nothing [OF this, of options event] w' first r PaymentSuccess
  show ?thesis by (simp add: io_bind_def)
qed (simp_all add: handlers_nothing [OF assms] io_return_def)

text \<open>What a handler does once the lookup has found a subscription.\<close>

lemma onPaymentSuccess_found:
  assumes "subscription options = Some so" "enabled so" "txnid event \<noteq> []"
    and "findSubscription ctx event w = (Inr (Some s), w1)"
  shows "updates_of (trace (snd (onPaymentSuccess ctx options event w))) =
           updates_of (trace w1) @ [([(''id'', sub_id s)], payment_success_update s event (now w1))]"
  using assms
  by (auto simp: onPaymentSuccess_def try_catch_logs io_bind_def adapter_update_def find_plan_def
      invoke_def io_return_def io_throw_def updates_of_append
      split: prod.splits sum.splits option.splits plans_source.splits)

lemma onSubscriptionCharged_found:
  assumes "subscription options = Some so" "enabled so" "txnid event \<noteq> []"
    and "findSubscription ctx event w = (Inr (Some s), w1)"
  shows "updates_of (trace (snd (onSubscriptionCharged ctx options event w))) =
           updates_of (trace w1) @ [([(''id'', sub_id s)], subscription_charged_update s event (now w1))]"
  using assms
  by (auto simp: onSubscriptionCharged_def try_catch_logs io_bind_def adapter_update_def find_plan_def
      invoke_def io_return_def io_throw_def updates_of_append
      split: prod.splits sum.splits option.splits plans_source.splits)

lemma onSubscriptionCancelled_found:
  assumes "subscription options = Some so" "enabled so"
    and "findSubscription ctx event w = (Inr (Some s), w1)"
  shows "updates_of (trace (snd (onSubscriptionCancelled ctx options event w))) =
           updates_of (trace w1) @ [([(''id'', sub_id s)], cancelled_update (now w1))]"
  using assms
  by (auto simp: onSubscriptionCancelled_def try_catch_logs io_bind_def adapter_update_def find_plan_def
      invoke_def io_return_def io_throw_def updates_of_append
      split: prod.splits sum.splits option.splits plans_source.splits)

lemma onMandateRevoked_found:
  assumes "subscription options = Some so" "enabled so"
    and "findSubscription ctx event w = (Inr (Some s), w1)"
  shows "updates_of (trace (snd (onMandateRevoked ctx options event w))) =
           updates_of (trace w1) @ [([(''id'', sub_id s)], cancelled_update (now w1))]"
  using assms
  by (auto simp: onMandateRevoked_def try_catch_logs io_bind_def adapter_update_def find_plan_def
      invoke_def io_return_def io_throw_def updates_of_append
      split: prod.splits sum.splits option.splits plans_source.splits)


text \<open>
  An exception raised in the \<open>try\<close> block of a handler: while locating the subscription, while
  updating it, by the plan function, or by the callback. Each time the handler returns
  normally, and the world is the one at the throw with the error logged.
\<close>

lemma onPaymentSuccess_logs_locate:
  fixes ctx :: "'db Adapter"
  shows
  "subscription options = Some so \<and> enabled so \<and> txnid event \<noteq> []
    \<and> findSubscription ctx event w = (Inl e, wa)
    \<longrightarrow> onPaymentSuccess ctx options event w =
          (Inr (), wa\<lparr>trace := trace wa @ [LoggerError (''PayU onPaymentSuccess error: '' @ exn_message e)]\<rparr>)"
  by (simp add: onPaymentSuccess_def try_catch_logs io_bind_def adapter_update_def find_plan_def invoke_def
      io_return_def io_throw_def)

lemma onPaymentSuccess_logs_update:
  fixes ctx :: "'db Adapter"
  shows
  "subscription options = Some so \<and> enabled so \<and> txnid event \<noteq> []
    \<and> findSubscription ctx event w = (Inr (Some s), wa)
    \<and> update ctx ''subscription'' [(''id'', sub_id s)]
            (payment_success_update s event (now wa)) (store wa) = (Inl e, dbb)
    \<longrightarrow> onPaymentSuccess ctx options event w =
          (Inr (), wa\<lparr>store := dbb, trace := trace wa @
            [Update ''subscription'' [(''id'', sub_id s)]
             (payment_success_update s event (now wa)),
             LoggerError (''PayU onPaymentSuccess error: '' @ exn_message e)]\<rparr>)"
  by (simp add: onPaymentSuccess_def try_catch_logs io_bind_def adapter_update_def find_plan_def invoke_def
      io_return_def io_throw_def)

lemma onPaymentSuccess_logs_plans:
  fixes ctx :: "'db Adapter"
  shows
  "subscription options = Some so \<and> enabled so \<and> txnid event \<noteq> []
    \<and> findSubscription ctx event w = (Inr (Some s), wa)
    \<and> update ctx ''subscription'' [(''id'', sub_id s)]
            (payment_success_update s event (now wa)) (store wa) = (Inr (), dbb)
    \<and> plans so = Some (PlansFunction (Inl e))
    \<longrightarrow> onPaymentSuccess ctx options event w =
          (Inr (), wa\<lparr>store := dbb, trace := trace wa @
            [Update ''subscription'' [(''id'', sub_id s)]
             (payment_success_update s event (now wa)),
             LoggerError (''PayU onPaymentSuccess error: '' @ exn_message e)]\<rparr>)"
  by (simp add: onPaymentSuccess_def try_catch_logs io_bind_def adapter_update_def find_plan_def invoke_def
      io_return_def io_throw_def)

lemma onPaymentSuccess_logs_callback:
  fixes ctx :: "'db Adapter"
  shows
  "subscription options = Some so \<and> enabled so \<and> txnid event \<noteq> []
    \<and> findSubscription ctx event w = (Inr (Some s), wa)
    \<and> update ctx ''subscription'' [(''id'', sub_id s)]
            (payment_success_update s event (now wa)) (store wa) = (Inr (), dbb)
    \<and> (find_plan so s :: (PayUPlan option, 'db) io) = io_return p
    \<and> cb_onPaymentSuccess so = Some f \<and> f (SubscriptionCallbackData s p event) = Some e
    \<longrightarrow> onPaymentSuccess ctx options event w =
          (Inr (), wa\<lparr>store := dbb, trace := trace wa @
            [Update ''subscription'' [(''id'', sub_id s)]
             (payment_success_update s event (now wa)),
             Callback ''onPaymentSuccess'' (SubscriptionCallbackData s p event),
             LoggerError (''PayU onPaymentSuccess error: '' @ exn_message e)]\<rparr>)"
  by (simp add: onPaymentSuccess_def try_catch_logs io_bind_def adapter_update_def find_plan_def invoke_def
      io_return_def io_throw_def)

lemma onPaymentFailure_logs_locate:
  fixes ctx :: "'db Adapter"
  shows
  "subscription options = Some so \<and> enabled so
    \<and> findSubscription ctx event w = (Inl e, wa)
    \<longrightarrow> onPaymentFailure ctx options event w =
          (Inr (), wa\<lparr>trace := trace wa @ [LoggerError (''PayU onPaymentFailure error: '' @ exn_message e)]\<rparr>)"
  by (simp add: onPaymentFailure_def try_catch_logs io_bind_def adapter_update_def find_plan_def invoke_def
      io_return_def io_throw_def)

lemma onPaymentFailure_logs_update:
  fixes ctx :: "'db Adapter"
  shows
  "subscription options = Some so \<and> enabled so
    \<and> findSubscription ctx event w = (Inr (Some s), wa)
    \<and> update ctx ''subscription'' [(''id'', sub_id s)]
            ([(''status'', VStatus Pending), (''updatedAt'', VDate (now wa))]) (store wa) = (Inl e, dbb)
    \<longrightarrow> onPaymentFailure ctx options event w =
          (Inr (), wa\<lparr>store := dbb, trace := trace wa @
            [Update ''subscription'' [(''id'', sub_id s)]
             ([(''status'', VStatus Pending), (''updatedAt'', VDate (now wa))]),
             LoggerError (''PayU onPaymentFailure error: '' @ exn_message e)]\<rparr>)"
  by (simp add: onPaymentFailure_def try_catch_logs io_bind_def adapter_update_def find_plan_def invoke_def
      io_return_def io_throw_def)

lemma onPaymentFailure_logs_callback:
  fixes ctx :: "'db Adapter"
  shows
  "subscription options = Some so \<and> enabled so
    \<and> findSubscription ctx event w = (Inr (Some s), wa)
    \<and> update ctx ''subscription'' [(''id'', sub_id s)]
            ([(''status'', VStatus Pending), (''updatedAt'', VDate (now wa))]) (store wa) = (Inr (), dbb)
    \<and> cb_onPaymentFailure so = Some f \<and> f (PaymentFailureData event (failure_reason event)) = Some e
    \<longrightarrow> onPaymentFailure ctx options event w =
          (Inr (), wa\<lparr>store := dbb, trace := trace wa @
            [Update ''subscription'' [(''id'', sub_id s)]
             ([(''status'', VStatus Pending), (''updatedAt'', VDate (now wa))]),
             Callback ''onPaymentFailure'' (PaymentFailureData event (failure_reason event)),
             LoggerError (''PayU onPaymentFailure error: '' @ exn_message e)]\<rparr>)"
  by (simp add: onPaymentFailure_def try_catch_logs io_bind_def adapter_update_def find_plan_def invoke_def
      io_return_def io_throw_def)

lemma onPaymentFailure_logs_callback_unmatched:
  fixes ctx :: "'db Adapter"
  shows
  "subscription options = Some so \<and> enabled so
    \<and> findSubscription ctx event w = (Inr None, wa)
    \<and> cb_onPaymentFailure so = Some f \<and> f (PaymentFailureData event (failure_reason event)) = Some e
    \<longrightarrow> onPaymentFailure ctx options event w =
          (Inr (), wa\<lparr>trace := trace wa @
            [Callback ''onPaymentFailure'' (PaymentFailureData event (failure_reason event)),
             LoggerError (''PayU onPaymentFailure error: '' @ exn_message e)]\<rparr>)"
  by (simp add: onPaymentFailure_def try_catch_logs io_bind_def adapter_update_def find_plan_def invoke_def
      io_return_def io_throw_def)

lemma onSubscriptionActivated_logs_locate:
  fixes ctx :: "'db Adapter"
  shows
  "subscription options = Some so \<and> enabled so \<and> txnid event \<noteq> []
    \<and> findSubscription ctx event w = (Inl e, wa)
    \<longrightarrow> onSubscriptionActivated ctx options event w =
          (Inr (), wa\<lparr>trace := trace wa @ [LoggerError (''PayU onSubscriptionActivated error: '' @ exn_message e)]\<rparr>)"
  by (simp add: onSubscriptionActivated_def try_catch_logs io_bind_def adapter_update_def find_plan_def invoke_def
      io_return_def io_throw_def)

lemma onSubscriptionActivated_logs_update:
  fixes ctx :: "'db Adapter"
  shows
  "subscription options = Some so \<and> enabled so \<and> txnid event \<noteq> []
    \<and> findSubscription ctx event w = (Inr (Some s), wa)
    \<and> update ctx ''subscription'' [(''id'', sub_id s)]
            ([(''status'', VStatus Active), (''payuMihpayid'', VString (mihpayid event)),
              (''currentStart'', VDate (now wa)), (''updatedAt'', VDate (now wa))]) (store wa) = (Inl e, dbb)
    \<longrightarrow> onSubscriptionActivated ctx options event w =
          (Inr (), wa\<lparr>store := dbb, trace := trace wa @
            [Update ''subscription'' [(''id'', sub_id s)]
             ([(''status'', VStatus Active), (''payuMihpayid'', VString (mihpayid event)),
              (''currentStart'', VDate (now wa)), (''updatedAt'', VDate (now wa))]),
             LoggerError (''PayU onSubscriptionActivated error: '' @ exn_message e)]\<rparr>)"
  by (simp add: onSubscriptionActivated_def try_catch_logs io_bind_def adapter_update_def find_plan_def invoke_def
      io_return_def io_throw_def)

lemma onSubscriptionActivated_logs_plans:
  fixes ctx :: "'db Adapter"
  shows
  "subscription options = Some so \<and> enabled so \<and> txnid event \<noteq> []
    \<and> findSubscription ctx event w = (Inr (Some s), wa)
    \<and> update ctx ''subscription'' [(''id'', sub_id s)]
            ([(''status'', VStatus Active), (''payuMihpayid'', VString (mihpayid event)),
              (''currentStart'', VDate (now wa)), (''updatedAt'', VDate (now wa))]) (store wa) = (Inr (), dbb)
    \<and> plans so = Some (PlansFunction (Inl e))
    \<longrightarrow> onSubscriptionActivated ctx options event w =
          (Inr (), wa\<lparr>store := dbb, trace := trace wa @
            [Update ''subscription'' [(''id'', sub_id s)]
             ([(''status'', VStatus Active), (''payuMihpayid'', VString (mihpayid event)),
              (''currentStart'', VDate (now wa)), (''updatedAt'', VDate (now wa))]),
             LoggerError (''PayU onSubscriptionActivated error: '' @ exn_message e)]\<rparr>)"
  by (simp add: onSubscriptionActivated_def try_catch_logs io_bind_def adapter_update_def find_plan_def invoke_def
      io_return_def io_throw_def)

lemma onSubscriptionActivated_logs_callback:
  fixes ctx :: "'db Adapter"
  shows
  "subscription options = Some so \<and> enabled so \<and> txnid event \<noteq> []
    \<and> findSubscription ctx event w = (Inr (Some s), wa)
    \<and> update ctx ''subscription'' [(''id'', sub_id s)]
            ([(''status'', VStatus Active), (''payuMihpayid'', VString (mihpayid event)),
              (''currentStart'', VDate (now wa)), (''updatedAt'', VDate (now wa))]) (store wa) = (Inr (), dbb)
    \<and> (find_plan so s :: (PayUPlan option, 'db) io) = io_return p
    \<and> cb_onSubscriptionActivated so = Some f \<and> f (SubscriptionCallbackData s p event) = Some e
    \<longrightarrow> onSubscriptionActivated ctx options event w =
          (Inr (), wa\<lparr>store := dbb, trace := trace wa @
            [Update ''subscription'' [(''id'', sub_id s)]
             ([(''status'', VStatus Active), (''payuMihpayid'', VString (mihpayid event)),
              (''currentStart'', VDate (now wa)), (''updatedAt'', VDate (now wa))]),
             Callback ''onSubscriptionActivated'' (SubscriptionCallbackData s p event),
             LoggerError (''PayU onSubscriptionActivated error: '' @ exn_message e)]\<rparr>)"
  by (simp add: onSubscriptionActivated_def try_catch_logs io_bind_def adapter_update_def find_plan_def invoke_def
      io_return_def io_throw_def)

lemma onSubscriptionCharged_logs_locate:
  fixes ctx :: "'db Adapter"
  shows
  "subscription options = Some so \<and> enabled so \<and> txnid event \<noteq> []
    \<and> findSubscription ctx event w = (Inl e, wa)
    \<longrightarrow> onSubscriptionCharged ctx options event w =
          (Inr (), wa\<lparr>trace := trace wa @ [LoggerError (''PayU onSubscriptionCharged error: '' @ exn_message e)]\<rparr>)"
  by (simp add: onSubscriptionCharged_def try_catch_logs io_bind_def adapter_update_def find_plan_def invoke_def
      io_return_def io_throw_def)

lemma onSubscriptionCharged_logs_update:
  fixes ctx :: "'db Adapter"
  shows
  "subscription options = Some so \<and> enabled so \<and> txnid event \<noteq> []
    \<and> findSubscription ctx event w = (Inr (Some s), wa)
    \<and> update ctx ''subscription'' [(''id'', sub_id s)]
            (subscription_charged_update s event (now wa)) (store wa) = (Inl e, dbb)
    \<longrightarrow> onSubscriptionCharged ctx options event w =
          (Inr (), wa\<lparr>store := dbb, trace := trace wa @
            [Update ''subscription'' [(''id'', sub_id s)]
             (subscription_charged_update s event (now wa)),
             LoggerError (''PayU onSubscriptionCharged error: '' @ exn_message e)]\<rparr>)"
  by (simp add: onSubscriptionCharged_def try_catch_logs io_bind_def adapter_update_def find_plan_def invoke_def
      io_return_def io_throw_def)

lemma onSubscriptionCharged_logs_plans:
  fixes ctx :: "'db Adapter"
  shows
  "subscription options = Some so \<and> enabled so \<and> txnid event \<noteq> []
    \<and> findSubscription ctx event w = (Inr (Some s), wa)
    \<and> update ctx ''subscription'' [(''id'', sub_id s)]
            (subscription_charged_update s event (now wa)) (store wa) = (Inr (), dbb)
    \<and> plans so = Some (PlansFunction (Inl e))
    \<longrightarrow> onSubscriptionCharged ctx options event w =
          (Inr (), wa\<lparr>store := dbb, trace := trace wa @
            [Update ''subscription'' [(''id'', sub_id s)]
             (subscription_charged_update s event (now wa)),
             LoggerError (''PayU onSubscriptionCharged error: '' @ exn_message e)]\<rparr>)"
  by (simp add: onSubscriptionCharged_def try_catch_logs io_bind_def adapter_update_def find_plan_def invoke_def
      io_return_def io_throw_def)

lemma onSubscriptionCharged_logs_callback:
  fixes ctx :: "'db Adapter"
  shows
  "subscription options = Some so \<and> enabled so \<and> txnid event \<noteq> []
    \<and> findSubscription ctx event w = (Inr (Some s), wa)
    \<and> update ctx ''subscription'' [(''id'', sub_id s)]
            (subscription_charged_update s event (now wa)) (store wa) = (Inr (), dbb)
    \<and> (find_plan so s :: (PayUPlan option, 'db) io) = io_return p
    \<and> cb_onSubscriptionCharged so = Some f \<and> f (SubscriptionCallbackData s p event) = Some e
    \<longrightarrow> onSubscriptionCharged ctx options event w =
          (Inr (), wa\<lparr>store := dbb, trace := trace wa @
            [Update ''subscription'' [(''id'', sub_id s)]
             (subscription_charged_update s event (now wa)),
             Callback ''onSubscriptionCharged'' (SubscriptionCallbackData s p event),
             LoggerError (''PayU onSubscriptionCharged error: '' @ exn_message e)]\<rparr>)"
  by (simp add: onSubscriptionCharged_def try_catch_logs io_bind_def adapter_update_def find_plan_def invoke_def
      io_return_def io_throw_def)

lemma onSubscriptionPending_logs_locate:
  fixes ctx :: "'db Adapter"
  shows
  "subscription options = Some so \<and> enabled so
    \<and> findSubscription ctx event w = (Inl e, wa)
    \<longrightarrow> onSubscriptionPending ctx options event w =
          (Inr (), wa\<lparr>trace := trace wa @ [LoggerError (''PayU onSubscriptionPending error: '' @ exn_message e)]\<rparr>)"
  by (simp add: onSubscriptionPending_def try_catch_logs io_bind_def adapter_update_def find_plan_def invoke_def
      io_return_def io_throw_def)

lemma onSubscriptionPending_logs_update:
  fixes ctx :: "'db Adapter"
  shows
  "subscription options = Some so \<and> enabled so
    \<and> findSubscription ctx event w = (Inr (Some s), wa)
    \<and> update ctx ''subscription'' [(''id'', sub_id s)]
            ([(''status'', VStatus Pending), (''updatedAt'', VDate (now wa))]) (store wa) = (Inl e, dbb)
    \<longrightarrow> onSubscriptionPending ctx options event w =
          (Inr (), wa\<lparr>store := dbb, trace := trace wa @
            [Update ''subscription'' [(''id'', sub_id s)]
             ([(''status'', VStatus Pending), (''updatedAt'', VDate (now wa))]),
             LoggerError (''PayU onSubscriptionPending error: '' @ exn_message e)]\<rparr>)"
  by (simp add: onSubscriptionPending_def try_catch_logs io_bind_def adapter_update_def find_plan_def invoke_def
      io_return_def io_throw_def)

lemma onSubscriptionPending_logs_plans:
  fixes ctx :: "'db Adapter"
  shows
  "subscription options = Some so \<and> enabled so
    \<and> findSubscription ctx event w = (Inr (Some s), wa)
    \<and> update ctx ''subscription'' [(''id'', sub_id s)]
            ([(''status'', VStatus Pending), (''updatedAt'', VDate (now wa))]) (store wa) = (Inr (), dbb)
    \<and> plans so = Some (PlansFunction (Inl e))
    \<longrightarrow> onSubscriptionPending ctx options event w =
          (Inr (), wa\<lparr>store := dbb, trace := trace wa @
            [Update ''subscription'' [(''id'', sub_id s)]
             ([(''status'', VStatus Pending), (''updatedAt'', VDate (now wa))]),
             LoggerError (''PayU onSubscriptionPending error: '' @ exn_message e)]\<rparr>)"
  by (simp add: onSubscriptionPending_def try_catch_logs io_bind_def adapter_update_def find_plan_def invoke_def
      io_return_def io_throw_def)

lemma onSubscriptionPending_logs_callback:
  fixes ctx :: "'db Adapter"
  shows
  "subscription options = Some so \<and> enabled so
    \<and> findSubscription ctx event w = (Inr (Some s), wa)
    \<and> update ctx ''subscription'' [(''id'', sub_id s)]
            ([(''status'', VStatus Pending), (''updatedAt'', VDate (now wa))]) (store wa) = (Inr (), dbb)
    \<and> (find_plan so s :: (PayUPlan option, 'db) io) = io_return p
    \<and> cb_onSubscriptionPending so = Some f \<and> f (SubscriptionCallbackData s p event) = Some e
    \<longrightarrow> onSubscriptionPending ctx options event w =
          (Inr (), wa\<lparr>store := dbb, trace := trace wa @
            [Update ''subscription'' [(''id'', sub_id s)]
             ([(''status'', VStatus Pending), (''updatedAt'', VDate (now wa))]),
             Callback ''onSubscriptionPending'' (SubscriptionCallbackData s p event),
             LoggerError (''PayU onSubscriptionPending error: '' @ exn_message e)]\<rparr>)"
  by (simp add: onSubscriptionPending_def try_catch_logs io_bind_def adapter_update_def find_plan_def invoke_def
      io_return_def io_throw_def)

lemma onSubscriptionHalted_logs_locate:
  fixes ctx :: "'db Adapter"
  shows
  "subscription options = Some so \<and> enabled so
    \<and> findSubscription ctx event w = (Inl e, wa)
    \<longrightarrow> onSubscriptionHalted ctx options event w =
          (Inr (), wa\<lparr>trace := trace wa @ [LoggerError (''PayU onSubscriptionHalted error: '' @ exn_message e)]\<rparr>)"
  by (simp add: onSubscriptionHalted_def try_catch_logs io_bind_def adapter_update_def find_plan_def invoke_def
      io_return_def io_throw_def)

lemma onSubscriptionHalted_logs_update:
  fixes ctx :: "'db Adapter"
  shows
  "subscription options = Some so \<and> enabled so
    \<and> findSubscription ctx event w = (Inr (Some s), wa)
    \<and> update ctx ''subscription'' [(''id'', sub_id s)]
            ([(''status'', VStatus Halted), (''updatedAt'', VDate (now wa))]) (store wa) = (Inl e, dbb)
    \<longrightarrow> onSubscriptionHalted ctx options event w =
          (Inr (), wa\<lparr>store := dbb, trace := trace wa @
            [Update ''subscription'' [(''id'', sub_id s)]
             ([(''status'', VStatus Halted), (''updatedAt'', VDate (now wa))]),
             LoggerError (''PayU onSubscriptionHalted error: '' @ exn_message e)]\<rparr>)"
  by (simp add: onSubscriptionHalted_def try_catch_logs io_bind_def adapter_update_def find_plan_def invoke_def
      io_return_def io_throw_def)

lemma onSubscriptionHalted_logs_plans:
  fixes ctx :: "'db Adapter"
  shows
  "subscription options = Some so \<and> enabled so
    \<and> findSubscription ctx event w = (Inr (Some s), wa)
    \<and> update ctx ''subscription'' [(''id'', sub_id s)]
            ([(''status'', VStatus Halted), (''updatedAt'', VDate (now wa))]) (store wa) = (Inr (), dbb)
    \<and> plans so = Some (PlansFunction (Inl e))
    \<longrightarrow> onSubscriptionHalted ctx options event w =
          (Inr (), wa\<lparr>store := dbb, trace := trace wa @
            [Update ''subscription'' [(''id'', sub_id s)]
             ([(''status'', VStatus Halted), (''updatedAt'', VDate (now wa))]),
             LoggerError (''PayU onSubscriptionHalted error: '' @ exn_message e)]\<rparr>)"
  by (simp add: onSubscriptionHalted_def try_catch_logs io_bind_def adapter_update_def find_plan_def invoke_def
      io_return_def io_throw_def)

lemma onSubscriptionHalted_logs_callback:
  fixes ctx :: "'db Adapter"
  shows
  "subscription options = Some so \<and> enabled so
    \<and> findSubscription ctx event w = (Inr (Some s), wa)
    \<and> update ctx ''subscription'' [(''id'', sub_id s)]
            ([(''status'', VStatus Halted), (''updatedAt'', VDate (now wa))]) (store wa) = (Inr (), dbb)
    \<and> (find_plan so s :: (PayUPlan option, 'db) io) = io_return p
    \<and> cb_onSubscriptionHalted so = Some f \<and> f (SubscriptionCallbackData s p event) = Some e
    \<longrightarrow> onSubscriptionHalted ctx options event w =
          (Inr (), wa\<lparr>store := dbb, trace := trace wa @
            [Update ''subscription'' [(''id'', sub_id s)]
             ([(''status'', VStatus Halted), (''updatedAt'', VDate (now wa))]),
             Callback ''onSubscriptionHalted'' (SubscriptionCallbackData s p event),
             LoggerError (''PayU onSubscriptionHalted error: '' @ exn_message e)]\<rparr>)"
  by (simp add: onSubscriptionHalted_def try_catch_logs io_bind_def adapter_update_def find_plan_def invoke_def
      io_return_def io_throw_def)

lemma onSubscriptionCompleted_logs_locate:
  fixes ctx :: "'db Adapter"
  shows
  "subscription options = Some so \<and> enabled so
    \<and> findSubscription ctx event w = (Inl e, wa)
    \<longrightarrow> onSubscriptionCompleted ctx options event w =
          (Inr (), wa\<lparr>trace := trace wa @ [LoggerError (''PayU onSubscriptionCompleted error: '' @ exn_message e)]\<rparr>)"
  by (simp add: onSubscriptionCompleted_def try_catch_logs io_bind_def adapter_update_def find_plan_def invoke_def
      io_return_def io_throw_def)

lemma onSubscriptionCompleted_logs_update:
  fixes ctx :: "'db Adapter"
  shows
  "subscription options = Some so \<and> enabled so
    \<and> findSubscription ctx event w = (Inr (Some s), wa)
    \<and> update ctx ''subscription'' [(''id'', sub_id s)]
            ([(''status'', VStatus Completed), (''endedAt'', VDate (now wa)),
              (''remainingCount'', VNumber 0), (''updatedAt'', VDate (now wa))]) (store wa) = (Inl e, dbb)
    \<longrightarrow> onSubscriptionCompleted ctx options event w =
          (Inr (), wa\<lparr>store := dbb, trace := trace wa @
            [Update ''subscription'' [(''id'', sub_id s)]
             ([(''status'', VStatus Completed), (''endedAt'', VDate (now wa)),
              (''remainingCount'', VNumber 0), (''updatedAt'', VDate (now wa))]),
             LoggerError (''PayU onSubscriptionCompleted error: '' @ exn_message e)]\<rparr>)"
  by (simp add: onSubscriptionCompleted_def try_catch_logs io_bind_def adapter_update_def find_plan_def invoke_def
      io_return_def io_throw_def)

lemma onSubscriptionCompleted_logs_plans:
  fixes ctx :: "'db Adapter"
  shows
  "subscription options = Some so \<and> enabled so
    \<and> findSubscription ctx event w = (Inr (Some s), wa)
    \<and> update ctx ''subscription'' [(''id'', sub_id s)]
            ([(''status'', VStatus Completed), (''endedAt'', VDate (now wa)),
              (''remainingCount'', VNumber 0), (''updatedAt'', VDate (now wa))]) (store wa) = (Inr (), dbb)
    \<and> plans so = Some (PlansFunction (Inl e))
    \<longrightarrow> onSubscriptionCompleted ctx options event w =
          (Inr (), wa\<lparr>store := dbb, trace := trace wa @
            [Update ''subscription'' [(''id'', sub_id s)]
             ([(''status'', VStatus Completed), (''endedAt'', VDate (now wa)),
              (''remainingCount'', VNumber 0), (''updatedAt'', VDate (now wa))]),
             LoggerError (''PayU onSubscriptionCompleted error: '' @ exn_message e)]\<rparr>)"
  by (simp add: onSubscriptionCompleted_def try_catch_logs io_bind_def adapter_update_def find_plan_def invoke_def
      io_return_def io_throw_def)

lemma onSubscriptionCompleted_logs_callback:
  fixes ctx :: "'db Adapter"
  shows
  "subscription options = Some so \<and> enabled so
    \<and> findSubscription ctx event w = (Inr (Some s), wa)
    \<and> update ctx ''subscription'' [(''id'', sub_id s)]
            ([(''status'', VStatus Completed), (''endedAt'', VDate (now wa)),
              (''remainingCount'', VNumber 0), (''updatedAt'', VDate (now wa))]) (store wa) = (Inr (), dbb)
    \<and> (find_plan so s :: (PayUPlan option, 'db) io) = io_return p
    \<and> cb_onSubscriptionCompleted so = Some f \<and> f (SubscriptionCallbackData s p event) = Some e
    \<longrightarrow> onSubscriptionCompleted ctx options event w =
          (Inr (), wa\<lparr>store := dbb, trace := trace wa @
            [Update ''subscription'' [(''id'', sub_id s)]
             ([(''status'', VStatus Completed), (''endedAt'', VDate (now wa)),
              (''remainingCount'', VNumber 0), (''updatedAt'', VDate (now wa))]),
             Callback ''onSubscriptionCompleted'' (SubscriptionCallbackData s p event),
             LoggerError (''PayU onSubscriptionCompleted error: '' @ exn_message e)]\<rparr>)"
  by (simp add: onSubscriptionCompleted_def try_catch_logs io_bind_def adapter_update_def find_plan_def invoke_def
      io_return_def io_throw_def)

lemma onSubscriptionCancelled_logs_locate:
  fixes ctx :: "'db Adapter"
  shows
  "subscription options = Some so \<and> enabled so
    \<and> findSubscription ctx event w = (Inl e, wa)
    \<longrightarrow> onSubscriptionCancelled ctx options event w =
          (Inr (), wa\<lparr>trace := trace wa @ [LoggerError (''PayU onSubscriptionCancelled error: '' @ exn_message e)]\<rparr>)"
  by (simp add: onSubscriptionCancelled_def try_catch_logs io_bind_def adapter_update_def find_plan_def invoke_def
      io_return_def io_throw_def)

lemma onSubscriptionCancelled_logs_update:
  fixes ctx :: "'db Adapter"
  shows
  "subscription options = Some so \<and> enabled so
    \<and> findSubscription ctx event w = (Inr (Some s), wa)
    \<and> update ctx ''subscription'' [(''id'', sub_id s)]
            (cancelled_update (now wa)) (store wa) = (Inl e, dbb)
    \<longrightarrow> onSubscriptionCancelled ctx options event w =
          (Inr (), wa\<lparr>store := dbb, trace := trace wa @
            [Update ''subscription'' [(''id'', sub_id s)]
             (cancelled_update (now wa)),
             LoggerError (''PayU onSubscriptionCancelled error: '' @ exn_message e)]\<rparr>)"
  by (simp add: onSubscriptionCancelled_def try_catch_logs io_bind_def adapter_update_def find_plan_def invoke_def
      io_return_def io_throw_def)

lemma onSubscriptionCancelled_logs_plans:
  fixes ctx :: "'db Adapter"
  shows
  "subscription options = Some so \<and> enabled so
    \<and> findSubscription ctx event w = (Inr (Some s), wa)
    \<and> update ctx ''subscription'' [(''id'', sub_id s)]
            (cancelled_update (now wa)) (store wa) = (Inr (), dbb)
    \<and> plans so = Some (PlansFunction (Inl e))
    \<longrightarrow> onSubscriptionCancelled ctx options event w =
          (Inr (), wa\<lparr>store := dbb, trace := trace wa @
            [Update ''subscription'' [(''id'', sub_id s)]
             (cancelled_update (now wa)),
             LoggerError (''PayU onSubscriptionCancelled error: '' @ exn_message e)]\<rparr>)"
  by (simp add: onSubscriptionCancelled_def try_catch_logs io_bind_def adapter_update_def find_plan_def invoke_def
      io_return_def io_throw_def)

lemma onSubscriptionCancelled_logs_callback:
  fixes ctx :: "'db Adapter"
  shows
  "subscription options = Some so \<and> enabled so
    \<and> findSubscription ctx event w = (Inr (Some s), wa)
    \<and> update ctx ''subscription'' [(''id'', sub_id s)]
            (cancelled_update (now wa)) (store wa) = (Inr (), dbb)
    \<and> (find_plan so s :: (PayUPlan option, 'db) io) = io_return p
    \<and> cb_onSubscriptionCancelled so = Some f \<and> f (SubscriptionCallbackData s p event) = Some e
    \<longrightarrow> onSubscriptionCancelled ctx options event w =
          (Inr (), wa\<lparr>store := dbb, trace := trace wa @
            [Update ''subscription'' [(''id'', sub_id s)]
             (cancelled_update (now wa)),
             Callback ''onSubscriptionCancelled'' (SubscriptionCallbackData s p event),
             LoggerError (''PayU onSubscriptionCancelled error: '' @ exn_message e)]\<rparr>)"
  by (simp add: onSubscriptionCancelled_def try_catch_logs io_bind_def adapter_update_def find_plan_def invoke_def
      io_return_def io_throw_def)

lemma onSubscriptionPaused_logs_locate:
  fixes ctx :: "'db Adapter"
  shows
  "subscription options = Some so \<and> enabled so
    \<and> findSubscription ctx event w = (Inl e, wa)
    \<longrightarrow> onSubscriptionPaused ctx options event w =
          (Inr (), wa\<lparr>trace := trace wa @ [LoggerError (''PayU onSubscriptionPaused error: '' @ exn_message e)]\<rparr>)"
  by (simp add: onSubscriptionPaused_def try_catch_logs io_bind_def adapter_update_def find_plan_def invoke_def
      io_return_def io_throw_def)

lemma onSubscriptionPaused_logs_update:
  fixes ctx :: "'db Adapter"
  shows
  "subscription options = Some so \<and> enabled so
    \<and> findSubscription ctx event w = (Inr (Some s), wa)
    \<and> update ctx ''subscription'' [(''id'', sub_id s)]
            ([(''status'', VStatus Paused), (''pausedAt'', VDate (now wa)),
              (''updatedAt'', VDate (now wa))]) (store wa) = (Inl e, dbb)
    \<longrightarrow> onSubscriptionPaused ctx options event w =
          (Inr (), wa\<lparr>store := dbb, trace := trace wa @
            [Update ''subscription'' [(''id'', sub_id s)]
             ([(''status'', VStatus Paused), (''pausedAt'', VDate (now wa)),
              (''updatedAt'', VDate (now wa))]),
             LoggerError (''PayU onSubscriptionPaused error: '' @ exn_message e)]\<rparr>)"
  by (simp add: onSubscriptionPaused_def try_catch_logs io_bind_def adapter_update_def find_plan_def invoke_def
      io_return_def io_throw_def)

lemma onSubscriptionPaused_logs_plans:
  fixes ctx :: "'db Adapter"
  shows
  "subscription options = Some so \<and> enabled so
    \<and> findSubscription ctx event w = (Inr (Some s), wa)
    \<and> update ctx ''subscription'' [(''id'', sub_id s)]
            ([(''status'', VStatus Paused), (''pausedAt'', VDate (now wa)),
              (''updatedAt'', VDate (now wa))]) (store wa) = (Inr (), dbb)
    \<and> plans so = Some (PlansFunction (Inl e))
    \<longrightarrow> onSubscriptionPaused ctx options event w =
          (Inr (), wa\<lparr>store := dbb, trace := trace wa @
            [Update ''subscription'' [(''id'', sub_id s)]
             ([(''status'', VStatus Paused), (''pausedAt'', VDate (now wa)),
              (''updatedAt'', VDate (now wa))]),
             LoggerError (''PayU onSubscriptionPaused error: '' @ exn_message e)]\<rparr>)"
  by (simp add: onSubscriptionPaused_def try_catch_logs io_bind_def adapter_update_def find_plan_def invoke_def
      io_return_def io_throw_def)

lemma onSubscriptionPaused_logs_callback:
  fixes ctx :: "'db Adapter"
  shows
  "subscription options = Some so \<and> enabled so
    \<and> findSubscription ctx event w = (Inr (Some s), wa)
    \<and> update ctx ''subscription'' [(''id'', sub_id s)]
            ([(''status'', VStatus Paused), (''pausedAt'', VDate (now wa)),
              (''updatedAt'', VDate (now wa))]) (store wa) = (Inr (), dbb)
    \<and> (find_plan so s :: (PayUPlan option, 'db) io) = io_return p
    \<and> cb_onSubscriptionPaused so = Some f \<and> f (SubscriptionCallbackData s p event) = Some e
    \<longrightarrow> onSubscriptionPaused ctx options event w =
          (Inr (), wa\<lparr>store := dbb, trace := trace wa @
            [Update ''subscription'' [(''id'', sub_id s)]
             ([(''status'', VStatus Paused), (''pausedAt'', VDate (now wa)),
              (''updatedAt'', VDate (now wa))]),
             Callback ''onSubscriptionPaused'' (SubscriptionCallbackData s p event),
             LoggerError (''PayU onSubscriptionPaused error: '' @ exn_message e)]\<rparr>)"
  by (simp add: onSubscriptionPaused_def try_catch_logs io_bind_def adapter_update_def find_plan_def invoke_def
      io_return_def io_throw_def)

lemma onSubscriptionResumed_logs_locate:
  fixes ctx :: "'db Adapter"
  shows
  "subscription options = Some so \<and> enabled so
    \<and> findSubscription ctx event w = (Inl e, wa)
    \<longrightarrow> onSubscriptionResumed ctx options event w =
          (Inr (), wa\<lparr>trace := trace wa @ [LoggerError (''PayU onSubscriptionResumed error: '' @ exn_message e)]\<rparr>)"
  by (simp add: onSubscriptionResumed_def try_catch_logs io_bind_def adapter_update_def find_plan_def invoke_def
      io_return_def io_throw_def)

lemma onSubscriptionResumed_logs_update:
  fixes ctx :: "'db Adapter"
  shows
  "subscription options = Some so \<and> enabled so
    \<and> findSubscription ctx event w = (Inr (Some s), wa)
    \<and> update ctx ''subscription'' [(''id'', sub_id s)]
            ([(''status'', VStatus Active), (''pausedAt'', VNull),
              (''updatedAt'', VDate (now wa))]) (store wa) = (Inl e, dbb)
    \<longrightarrow> onSubscriptionResumed ctx options event w =
          (Inr (), wa\<lparr>store := dbb, trace := trace wa @
            [Update ''subscription'' [(''id'', sub_id s)]
             ([(''status'', VStatus Active), (''pausedAt'', VNull),
              (''updatedAt'', VDate (now wa))]),
             LoggerError (''PayU onSubscriptionResumed error: '' @ exn_message e)]\<rparr>)"
  by (simp add: onSubscriptionResumed_def try_catch_logs io_bind_def adapter_update_def find_plan_def invoke_def
      io_return_def io_throw_def)

lemma onSubscriptionResumed_logs_plans:
  fixes ctx :: "'db Adapter"
  shows
  "subscription options = Some so \<and> enabled so
    \<and> findSubscription ctx event w = (Inr (Some s), wa)
    \<and> update ctx ''subscription'' [(''id'', sub_id s)]
            ([(''status'', VStatus Active), (''pausedAt'', VNull),
              (''updatedAt'', VDate (now wa))]) (store wa) = (Inr (), dbb)
    \<and> plans so = Some (PlansFunction (Inl e))
    \<longrightarrow> onSubscriptionResumed ctx options event w =
          (Inr (), wa\<lparr>store := dbb, trace := trace wa @
            [Update ''subscription'' [(''id'', sub_id s)]
             ([(''status'', VStatus Active), (''pausedAt'', VNull),
              (''updatedAt'', VDate (now wa))]),
             LoggerError (''PayU onSubscriptionResumed error: '' @ exn_message e)]\<rparr>)"
  by (simp add: onSubscriptionResumed_def try_catch_logs io_bind_def adapter_update_def find_plan_def invoke_def
      io_return_def io_throw_def)

lemma onSubscriptionResumed_logs_callback:
  fixes ctx :: "'db Adapter"
  shows
  "subscription options = Some so \<and> enabled so
    \<and> findSubscription ctx event w = (Inr (Some s), wa)
    \<and> update ctx ''subscription'' [(''id'', sub_id s)]
            ([(''status'', VStatus Active), (''pausedAt'', VNull),
              (''updatedAt'', VDate (now wa))]) (store wa) = (Inr (), dbb)
    \<and> (find_plan so s :: (PayUPlan option, 'db) io) = io_return p
    \<and> cb_onSubscriptionResumed so = Some f \<and> f (SubscriptionCallbackData s p event) = Some e
    \<longrightarrow> onSubscriptionResumed ctx options event w =
          (Inr (), wa\<lparr>store := dbb, trace := trace wa @
            [Update ''subscription'' [(''id'', sub_id s)]
             ([(''status'', VStatus Active), (''pausedAt'', VNull),
              (''updatedAt'', VDate (now wa))]),
             Callback ''onSubscriptionResumed'' (SubscriptionCallbackData s p event),
             LoggerError (''PayU onSubscriptionResumed error: '' @ exn_message e)]\<rparr>)"
  by (simp add: onSubscriptionResumed_def try_catch_logs io_bind_def adapter_update_def find_plan_def invoke_def
      io_return_def io_throw_def)

lemma onMandateRevoked_logs_locate:
  fixes ctx :: "'db Adapter"
  shows
  "subscription options = Some so \<and> enabled so
    \<and> findSubscription ctx event w = (Inl e, wa)
    \<longrightarrow> onMandateRevoked ctx options event w =
          (Inr (), wa\<lparr>trace := trace wa @ [LoggerError (''PayU onMandateRevoked error: '' @ exn_message e)]\<rparr>)"
  by (simp add: onMandateRevoked_def try_catch_logs io_bind_def adapter_update_def find_plan_def invoke_def
      io_return_def io_throw_def)

lemma onMandateRevoked_logs_update:
  fixes ctx :: "'db Adapter"
  shows
  "subscription options = Some so \<and> enabled so
    \<and> findSubscription ctx event w = (Inr (Some s), wa)
    \<and> update ctx ''subscription'' [(''id'', sub_id s)]
            (cancelled_update (now wa)) (store wa) = (Inl e, dbb)
    \<longrightarrow> onMandateRevoked ctx options event w =
          (Inr (), wa\<lparr>store := dbb, trace := trace wa @
            [Update ''subscription'' [(''id'', sub_id s)]
             (cancelled_update (now wa)),
             LoggerError (''PayU onMandateRevoked error: '' @ exn_message e)]\<rparr>)"
  by (simp add: onMandateRevoked_def try_catch_logs io_bind_def adapter_update_def find_plan_def invoke_def
      io_return_def io_throw_def)

lemma onMandateRevoked_logs_plans:
  fixes ctx :: "'db Adapter"
  shows
  "subscription options = Some so \<and> enabled so
    \<and> findSubscription ctx event w = (Inr (Some s), wa)
    \<and> update ctx ''subscription'' [(''id'', sub_id s)]
            (cancelled_update (now wa)) (store wa) = (Inr (), dbb)
    \<and> plans so = Some (PlansFunction (Inl e))
    \<longrightarrow> onMandateRevoked ctx options event w =
          (Inr (), wa\<lparr>store := dbb, trace := trace wa @
            [Update ''subscription'' [(''id'', sub_id s)]
             (cancelled_update (now wa)),
             LoggerError (''PayU onMandateRevoked error: '' @ exn_message e)]\<rparr>)"
  by (simp add: onMandateRevoked_def try_catch_logs io_bind_def adapter_update_def find_plan_def invoke_def
      io_return_def io_throw_def)

lemma onMandateRevoked_logs_callback:
  fixes ctx :: "'db Adapter"
  shows
  "subscription options = Some so \<and> enabled so
    \<and> findSubscription ctx event w = (Inr (Some s), wa)
    \<and> update ctx ''subscription'' [(''id'', sub_id s)]
            (cancelled_update (now wa)) (store wa) = (Inr (), dbb)
    \<and> (find_plan so s :: (PayUPlan option, 'db) io) = io_return p
    \<and> cb_onMandateRevoked so = Some f \<and> f (SubscriptionCallbackData s p event) = Some e
    \<longrightarrow> onMandateRevoked ctx options event w =
          (Inr (), wa\<lparr>store := dbb, trace := trace wa @
            [Update ''subscription'' [(''id'', sub_id s)]
             (cancelled_update (now wa)),
             Callback ''onMandateRevoked'' (SubscriptionCallbackData s p event),
             LoggerError (''PayU onMandateRevoked error: '' @ exn_message e)]\<rparr>)"
  by (simp add: onMandateRevoked_def try_catch_logs io_bind_def adapter_update_def find_plan_def invoke_def
      io_return_def io_throw_def)

lemma onMandateModified_logs_locate:
  fixes ctx :: "'db Adapter"
  shows
  "subscription options = Some so \<and> enabled so
    \<and> findSubscription ctx event w = (Inl e, wa)
    \<longrightarrow> onMandateModified ctx options event w =
          (Inr (), wa\<lparr>trace := trace wa @ [LoggerError (''PayU onMandateModified error: '' @ exn_message e)]\<rparr>)"
  by (simp add: onMandateModified_def try_catch_logs io_bind_def adapter_update_def find_plan_def invoke_def
      io_return_def io_throw_def)

lemma onMandateModified_logs_update:
  fixes ctx :: "'db Adapter"
  shows
  "subscription options = Some so \<and> enabled so
    \<and> findSubscription ctx event w = (Inr (Some s), wa)
    \<and> update ctx ''subscription'' [(''id'', sub_id s)]
            ([(''updatedAt'', VDate (now wa))]) (store wa) = (Inl e, dbb)
    \<longrightarrow> onMandateModified ctx options event w =
          (Inr (), wa\<lparr>store := dbb, trace := trace wa @
            [Update ''subscription'' [(''id'', sub_id s)]
             ([(''updatedAt'', VDate (now wa))]),
             LoggerError (''PayU onMandateModified error: '' @ exn_message e)]\<rparr>)"
  by (simp add: onMandateModified_def try_catch_logs io_bind_def adapter_update_def find_plan_def invoke_def
      io_return_def io_throw_def)

lemma onMandateModified_logs_plans:
  fixes ctx :: "'db Adapter"
  shows
  "subscription options = Some so \<and> enabled so
    \<and> findSubscription ctx event w = (Inr (Some s), wa)
    \<and> update ctx ''subscription'' [(''id'', sub_id s)]
            ([(''updatedAt'', VDate (now wa))]) (store wa) = (Inr (), dbb)
    \<and> plans so = Some (PlansFunction (Inl e))
    \<longrightarrow> onMandateModified ctx options event w =
          (Inr (), wa\<lparr>store := dbb, trace := trace wa @
            [Update ''subscription'' [(''id'', sub_id s)]
             ([(''updatedAt'', VDate (now wa))]),
             LoggerError (''PayU onMandateModified error: '' @ exn_message e)]\<rparr>)"
  by (simp add: onMandateModified_def try_catch_logs io_bind_def adapter_update_def find_plan_def invoke_def
      io_return_def io_throw_def)

lemma onMandateModified_logs_callback:
  fixes ctx :: "'db Adapter"
  shows
  "subscription options = Some so \<and> enabled so
    \<and> findSubscription ctx event w = (Inr (Some s), wa)
    \<and> update ctx ''subscription'' [(''id'', sub_id s)]
            ([(''updatedAt'', VDate (now wa))]) (store wa) = (Inr (), dbb)
    \<and> (find_plan so s :: (PayUPlan option, 'db) io) = io_return p
    \<and> cb_onMandateModified so = Some f \<and> f (SubscriptionCallbackData s p event) = Some e
    \<longrightarrow> onMandateModified ctx options event w =
          (Inr (), wa\<lparr>store := dbb, trace := trace wa @
            [Update ''subscription'' [(''id'', sub_id s)]
             ([(''updatedAt'', VDate (now wa))]),
             Callback ''onMandateModified'' (SubscriptionCallbackData s p event),
             LoggerError (''PayU onMandateModified error: '' @ exn_message e)]\<rparr>)"
  by (simp add: onMandateModified_def try_catch_logs io_bind_def adapter_update_def find_plan_def invoke_def
      io_return_def io_throw_def)

lemmas handlers_log =
  onPaymentSuccess_logs_locate
  onPaymentSuccess_logs_update
  onPaymentSuccess_logs_plans
  onPaymentSuccess_logs_callback
  onPaymentFailure_logs_locate
  onPaymentFailure_logs_update
  onPaymentFailure_logs_callback
  onPaymentFailure_logs_callback_unmatched
  onSubscriptionActivated_logs_locate
  onSubscriptionActivated_logs_update
  onSubscriptionActivated_logs_plans
  onSubscriptionActivated_logs_callback
  onSubscriptionCharged_logs_locate
  onSubscriptionCharged_logs_update
  onSubscriptionCharged_logs_plans
  onSubscriptionCharged_logs_callback
  onSubscriptionPending_logs_locate
  onSubscriptionPending_logs_update
  onSubscriptionPending_logs_plans
  onSubscriptionPending_logs_callback
  onSubscriptionHalted_logs_locate
  onSubscriptionHalted_logs_update
  onSubscriptionHalted_logs_plans
  onSubscriptionHalted_logs_callback
  onSubscriptionCompleted_logs_locate
  onSubscriptionCompleted_logs_update
  onSubscriptionCompleted_logs_plans
  onSubscriptionCompleted_logs_callback
  onSubscriptionCancelled_logs_locate
  onSubscriptionCancelled_logs_update
  onSubscriptionCancelled_logs_plans
  onSubscriptionCancelled_logs_callback
  onSubscriptionPaused_logs_locate
  onSubscriptionPaused_logs_update
  onSubscriptionPaused_logs_plans
  onSubscriptionPaused_logs_callback
  onSubscriptionResumed_logs_locate
  onSubscriptionResumed_logs_update
  onSubscriptionResumed_logs_plans
  onSubscriptionResumed_logs_callback
  onMandateRevoked_logs_locate
  onMandateRevoked_logs_update
  onMandateRevoked_logs_plans
  onMandateRevoked_logs_callback
  onMandateModified_logs_locate
  onMandateModified_logs_update
  onMandateModified_logs_plans
  onMandateModified_logs_callback

section \<open>Concrete runs\<close>

text \<open>The digest of the reverse message with status \<open>active\<close>, evaluated by the kernel.\<close>

lemma digest_reverse_active:
  "createHmac_sha512_hex []
     ''testSalt|active||||||||||||||||||||john@test.com|John|TestProduct|100|txn123|testKey'' =
   ''6bc2e74ff780a8280045ffad6838c6f96238298e3f1493b79da9e49e5af719dc37eb01e0dc9015b2c9b0fe361564c6ef1ebfe0b6b25bb4992c5f025f94197f2d''"
  by code_simp

lemma test_body_simps:
  "test_body st h notif ''key'' = Some ''testKey''"
  "test_body st h notif ''txnid'' = Some ''txn123''"
  "test_body st h notif ''amount'' = Some ''100''"
  "test_body st h notif ''productinfo'' = Some ''TestProduct''"
  "test_body st h notif ''firstname'' = Some ''John''"
  "test_body st h notif ''email'' = Some ''john@test.com''"
  "test_body st h notif ''status'' = Some st"
  "test_body st h notif ''mihpayid'' = Some ''mih_123''"
  "test_body st h notif ''hash'' = Some h"
  "test_body st h notif ''notificationType'' = notif"
  "test_body st h notif ''udf1'' = None" "test_body st h notif ''udf2'' = None"
  "test_body st h notif ''udf3'' = None" "test_body st h notif ''udf4'' = None"
  "test_body st h notif ''udf5'' = None" "test_body st h notif ''udf6'' = None"
  "test_body st h notif ''udf7'' = None" "test_body st h notif ''udf8'' = None"
  "test_body st h notif ''udf9'' = None" "test_body st h notif ''udf10'' = None"
  "test_body st h notif ''phone'' = None" "test_body st h notif ''mode'' = None"
  "test_body st h notif ''unmappedstatus'' = None" "test_body st h notif ''field9'' = None"
  "test_body st h notif ''error_Message'' = None" "test_body st h notif ''error'' = None"
  "test_body st h notif ''bank_ref_num'' = None" "test_body st h notif ''addedon'' = None"
  "test_body st h notif ''payment_source'' = None"
  by (simp_all add: test_body_def)

lemma success_body_verified:
  "or_else (test_body ''success'' success_digest notif ''hash'') [] \<noteq> []
   \<and> verifyPayUHash (webhook_verify_params baseOptions (test_body ''success'' success_digest notif))
        (merchantSalt baseOptions) (or_else (test_body ''success'' success_digest notif ''hash'') [])"
  by (simp add: test_body_simps or_else_def success_digest_def webhook_verify_params_def
      baseOptions_def verifyPayUHash_def reverseHashString_def digest_reverse)

lemma active_body_verified:
  "or_else (test_body ''active'' active_digest notif ''hash'') [] \<noteq> []
   \<and> verifyPayUHash (webhook_verify_params baseOptions (test_body ''active'' active_digest notif))
        (merchantSalt baseOptions) (or_else (test_body ''active'' active_digest notif ''hash'') [])"
  by (simp add: test_body_simps or_else_def active_digest_def webhook_verify_params_def
      baseOptions_def verifyPayUHash_def reverseHashString_def digest_reverse_active)

lemmas run_defs =
  findSubscription_cases io_bind_def io_return_def io_throw_def try_catch_logs
  adapter_findOne_def adapter_update_def logger_warn_def logger_error_def invoke_def
  find_plan_def memory_adapter_def failing_adapter_def readonly_adapter_def row_matches_def
  apply_update_def set_field_def date_of_def number_of_def world0_def Let_def
  baseOptions_def baseSubscriptionOptions_def callbackOptions_def mockEvent_def
  mockSubscription_def stored_subscription_def cancelled_subscription_def
  exhausted_subscription_def other_subscription_def two_way_event_def monthly_plan_def
  noted_def throwing_def payment_success_update_def subscription_charged_update_def
  cancelled_update_def num_or_def failure_reason_def

section \<open>Claims about the reconciliation state machine\<close>

text \<open>
  C2. For a verified event the endpoint acknowledges with success after running the
  transition of the event's class, where the class is found first by the lower-cased
  notification type (mandate_revoked or si_cancelled, then mandate_modified or si_modified,
  whatever the status says) and otherwise by the lower-cased status in the order
  success/captured, failure/failed, pending, cancelled, halted, completed, paused,
  resumed/active. An event of no class leaves the world as it was. With notification type
  mandate_revoked the update issued for the found subscription is the cancellation,
  whatever the status field holds.
\<close>

theorem webhook_dispatch:
  "(or_else (body ''hash'') [] \<noteq> []
    \<and> verifyPayUHash (webhook_verify_params options body) (merchantSalt options)
         (or_else (body ''hash'') [])
    \<longrightarrow>
      webhook ctx options (Some body) w =
        (Inr \<lparr>success = True\<rparr>,
         snd (spec_transition (spec_classify (body ''notificationType'') (body ''status''))
                ctx options (webhook_event body) w))
      \<and> (spec_classify (body ''notificationType'') (body ''status'') = Unrecognized \<longrightarrow>
            webhook ctx options (Some body) w = (Inr \<lparr>success = True\<rparr>, w))
      \<and> (map_option toLowerCase (body ''notificationType'')
             \<in> {Some ''mandate_revoked'', Some ''si_cancelled''}
           \<and> subscription options = Some so \<and> enabled so
           \<and> findSubscription ctx (webhook_event body) w = (Inr (Some s), wa)
          \<longrightarrow> updates_of (trace (snd (webhook ctx options (Some body) w))) =
                 updates_of (trace wa) @ [([(''id'', sub_id s)], cancelled_update (now wa))]))
   \<and> (map_option toLowerCase notif \<in> {Some ''mandate_revoked'', Some ''si_cancelled''}
        \<longrightarrow> spec_classify notif st = MandateRevoked)
   \<and> (map_option toLowerCase notif \<notin> {Some ''mandate_revoked'', Some ''si_cancelled''}
        \<and> map_option toLowerCase notif \<in> {Some ''mandate_modified'', Some ''si_modified''}
        \<longrightarrow> spec_classify notif st = MandateModified)"
proof (intro conjI impI)
  assume v: "or_else (body ''hash'') [] \<noteq> []
    \<and> verifyPayUHash (webhook_verify_params options body) (merchantSalt options)
         (or_else (body ''hash'') [])"
  let ?c = "spec_classify (body ''notificationType'') (body ''status'')"
  obtain r w' where rw: "spec_transition ?c ctx options (webhook_event body) w = (r, w')"
    by (cases "spec_transition ?c ctx options (webhook_event body) w")
  with spec_transition_returns [of ?c ctx options "webhook_event body" w] have "r = Inr ()"
    by simp
  with rw v show main: "webhook ctx options (Some body) w =
      (Inr \<lparr>success = True\<rparr>, snd (spec_transition ?c ctx options (webhook_event body) w))"
    by (simp add: webhook_def webhook_route_spec io_bind_def io_return_def)
  {
    assume "?c = Unrecognized"
    with main show "webhook ctx options (Some body) w = (Inr \<lparr>success = True\<rparr>, w)"
      by (simp add: io_return_def)
  }
  {
    assume a: "map_option toLowerCase (body ''notificationType'')
         \<in> {Some ''mandate_revoked'', Some ''si_cancelled''}
       \<and> subscription options = Some so \<and> enabled so
       \<and> findSubscription ctx (webhook_event body) w = (Inr (Some s), wa)"
    then have "?c = MandateRevoked" by (simp add: spec_classify_def)
    with main a show "updates_of (trace (snd (webhook ctx options (Some body) w))) =
        updates_of (trace wa) @ [([(''id'', sub_id s)], cancelled_update (now wa))]"
      by (simp add: onMandateRevoked_found)
  }
next
  assume "map_option toLowerCase notif \<in> {Some ''mandate_revoked'', Some ''si_cancelled''}"
  then show "spec_classify notif st = MandateRevoked" by (simp add: spec_classify_def)
next
  assume "map_option toLowerCase notif \<notin> {Some ''mandate_revoked'', Some ''si_cancelled''}
        \<and> map_option toLowerCase notif \<in> {Some ''mandate_modified'', Some ''si_modified''}"
  then show "spec_classify notif st = MandateModified" by (simp add: spec_classify_def)
qed

text \<open>
  A verified body with notification type \<open>Mandate_Revoked\<close> and status \<open>active\<close>: the stored
  subscription ends cancelled, and the answer is the success acknowledgement.
\<close>

theorem webhook_dispatch_witness:
  "fst (webhook memory_adapter baseOptions
          (Some (test_body ''active'' active_digest (Some ''Mandate_Revoked'')))
          (world0 [stored_subscription] 2000)) = Inr \<lparr>success = True\<rparr>
   \<and> map sub_status (store (snd (webhook memory_adapter baseOptions
          (Some (test_body ''active'' active_digest (Some ''Mandate_Revoked'')))
          (world0 [stored_subscription] 2000)))) = [Cancelled]"
  using webhook_dispatch [where body = "test_body ''active'' active_digest (Some ''Mandate_Revoked'')"
      and options = baseOptions and ctx = memory_adapter and w = "world0 [stored_subscription] 2000"]
    active_body_verified [of "Some ''Mandate_Revoked''"]
  by (simp add: test_body_simps spec_classify_def toLowerCase_def lower_char_def
      onMandateRevoked_def webhook_event_def or_else_def run_defs)

text \<open>
  C3. Once the lookup of a success or charged event has found a subscription, the handler
  issues one update of that subscription, by id: status active, payuMihpayid the event's
  payment id, paidCount the old paidCount (null counting as 0) plus one, remainingCount
  max(totalCount - new paidCount, 0) when totalCount is not null and null when it is. With
  paidCount 3 and totalCount 12 the update carries 4 and 8.
\<close>

theorem success_update_fields:
  "(subscription options = Some so \<and> enabled so \<and> txnid event \<noteq> []
    \<and> findSubscription ctx event w = (Inr (Some s), wa)
    \<longrightarrow>
      updates_of (trace (snd (onPaymentSuccess ctx options event w))) =
        updates_of (trace wa) @ [([(''id'', sub_id s)], payment_success_update s event (now wa))]
      \<and> updates_of (trace (snd (onSubscriptionCharged ctx options event w))) =
        updates_of (trace wa) @ [([(''id'', sub_id s)], subscription_charged_update s event (now wa))])
   \<and> map_of (payment_success_update s event t) ''status'' = Some (VStatus Active)
   \<and> map_of (payment_success_update s event t) ''payuMihpayid'' = Some (VString (mihpayid event))
   \<and> map_of (payment_success_update s event t) ''paidCount'' =
        Some (VNumber ((case paidCount s of None \<Rightarrow> 0 | Some p \<Rightarrow> p) + 1))
   \<and> map_of (payment_success_update s event t) ''remainingCount'' =
        Some (case totalCount s of
                None \<Rightarrow> VNull
              | Some n \<Rightarrow> VNumber (max (n - ((case paidCount s of None \<Rightarrow> 0 | Some p \<Rightarrow> p) + 1)) 0))
   \<and> map_of (subscription_charged_update s event t) ''status'' = Some (VStatus Active)
   \<and> map_of (subscription_charged_update s event t) ''payuMihpayid'' = Some (VString (mihpayid event))
   \<and> map_of (subscription_charged_update s event t) ''paidCount'' =
        Some (VNumber ((case paidCount s of None \<Rightarrow> 0 | Some p \<Rightarrow> p) + 1))
   \<and> map_of (subscription_charged_update s event t) ''remainingCount'' =
        Some (case totalCount s of
                None \<Rightarrow> VNull
              | Some n \<Rightarrow> VNumber (max (n - ((case paidCount s of None \<Rightarrow> 0 | Some p \<Rightarrow> p) + 1)) 0))
   \<and> (paidCount s = Some 3 \<and> totalCount s = Some 12 \<longrightarrow>
        map_of (payment_success_update s event t) ''paidCount'' = Some (VNumber 4)
        \<and> map_of (payment_success_update s event t) ''remainingCount'' = Some (VNumber 8)
        \<and> map_of (subscription_charged_update s event t) ''paidCount'' = Some (VNumber 4)
        \<and> map_of (subscription_charged_update s event t) ''remainingCount'' = Some (VNumber 8))
   \<and> (totalCount s = None \<longrightarrow>
        map_of (payment_success_update s event t) ''remainingCount'' = Some VNull
        \<and> map_of (subscription_charged_update s event t) ''remainingCount'' = Some VNull)"
proof -
  have found: "subscription options = Some so \<and> enabled so \<and> txnid event \<noteq> []
      \<and> findSubscription ctx event w = (Inr (Some s), wa)
    \<longrightarrow>
      updates_of (trace (snd (onPaymentSuccess ctx options event w))) =
        updates_of (trace wa) @ [([(''id'', sub_id s)], payment_success_update s event (now wa))]
      \<and> updates_of (trace (snd (onSubscriptionCharged ctx options event w))) =
        updates_of (trace wa) @ [([(''id'', sub_id s)], subscription_charged_update s event (now wa))]"
    using onPaymentSuccess_found onSubscriptionCharged_found by blast
  show ?thesis
    by (intro conjI found)
      (simp_all add: payment_success_update_def subscription_charged_update_def num_or_zero
        Let_def split: option.splits)
qed

theorem success_update_fields_witness:
  "updates_of (trace (snd (onPaymentSuccess memory_adapter baseOptions mockEvent
       (world0 [mockSubscription] 2000)))) =
     [([(''id'', ''sub_123'')],
       [(''status'', VStatus Active), (''payuMihpayid'', VString ''mih_123''),
        (''paidCount'', VNumber 4), (''remainingCount'', VNumber 8),
        (''updatedAt'', VDate 2000)])]
   \<and> map_of (payment_success_update (mockSubscription\<lparr>totalCount := None\<rparr>) mockEvent 2000)
        ''remainingCount'' = Some VNull"
  using success_update_fields [where ctx = memory_adapter and options = baseOptions
      and so = baseSubscriptionOptions and event = mockEvent
      and w = "world0 [mockSubscription] 2000" and s = mockSubscription
      and wa = "\<lparr>store = [mockSubscription], now = 2000,
                 trace = [FindOne ''subscription'' [(''payuTransactionId'', ''txn_123'')]]\<rparr>"
      and t = 2000]
    success_update_fields [where s = "mockSubscription\<lparr>totalCount := None\<rparr>"
      and event = mockEvent and t = 2000]
  by (simp add: run_defs)

text \<open>
  C4. The lookup first asks for the row whose payuTransactionId is the event's txnid. A
  row found there is the result and nothing else is asked; only when there is none, and
  slot 4 holds a non-empty id, the lookup asks for the row with that id. When no lookup
  finds a row, a verified event is acknowledged with success, no update is issued and the
  store is as it was.
\<close>

theorem findSubscription_order:
  "(findOne ctx ''subscription'' [(''payuTransactionId'', txnid event)] (store w) = (Inr (Some s), dba)
    \<longrightarrow> findSubscription ctx event w =
          (Inr (Some s),
           w\<lparr>store := dba,
             trace := trace w @ [FindOne ''subscription'' [(''payuTransactionId'', txnid event)]]\<rparr>))
   \<and> (findOne ctx ''subscription'' [(''payuTransactionId'', txnid event)] (store w) = (Inr None, dba)
       \<and> udf4 event = Some sid \<and> sid \<noteq> []
       \<and> findOne ctx ''subscription'' [(''id'', sid)] dba = (r, dbb)
    \<longrightarrow> findSubscription ctx event w =
          (r, w\<lparr>store := dbb,
                trace := trace w @ [FindOne ''subscription'' [(''payuTransactionId'', txnid event)],
                                    FindOne ''subscription'' [(''id'', sid)]]\<rparr>))
   \<and> (findOne ctx ''subscription'' [(''payuTransactionId'', txnid event)] (store w) = (Inr None, dba)
       \<and> (udf4 event = None \<or> udf4 event = Some [])
    \<longrightarrow> findSubscription ctx event w =
          (Inr None,
           w\<lparr>store := dba,
             trace := trace w @ [FindOne ''subscription'' [(''payuTransactionId'', txnid event)]]\<rparr>))
   \<and> ((\<forall>wh. findOne ctx ''subscription'' wh (store w) = (Inr None, store w))
       \<and> or_else (body ''hash'') [] \<noteq> []
       \<and> verifyPayUHash (webhook_verify_params options body) (merchantSalt options)
            (or_else (body ''hash'') [])
    \<longrightarrow> fst (webhook ctx options (Some body) w) = Inr \<lparr>success = True\<rparr>
        \<and> store (snd (webhook ctx options (Some body) w)) = store w
        \<and> updates_of (trace (snd (webhook ctx options (Some body) w))) = updates_of (trace w))"
proof (intro conjI impI)
  assume "findOne ctx ''subscription'' [(''payuTransactionId'', txnid event)] (store w) = (Inr (Some s), dba)"
  then show "findSubscription ctx event w =
      (Inr (Some s),
       w\<lparr>store := dba,
         trace := trace w @ [FindOne ''subscription'' [(''payuTransactionId'', txnid event)]]\<rparr>)"
    by (simp add: findSubscription_cases)
next
  assume "findOne ctx ''subscription'' [(''payuTransactionId'', txnid event)] (store w) = (Inr None, dba)
       \<and> udf4 event = Some sid \<and> sid \<noteq> []
       \<and> findOne ctx ''subscription'' [(''id'', sid)] dba = (r, dbb)"
  then show "findSubscription ctx event w =
      (r, w\<lparr>store := dbb,
            trace := trace w @ [FindOne ''subscription'' [(''payuTransactionId'', txnid event)],
                                FindOne ''subscription'' [(''id'', sid)]]\<rparr>)"
    by (simp add: findSubscription_cases)
next
  assume "findOne ctx ''subscription'' [(''payuTransactionId'', txnid event)] (store w) = (Inr None, dba)
       \<and> (udf4 event = None \<or> udf4 event = Some [])"
  then show "findSubscription ctx event w =
      (Inr None,
       w\<lparr>store := dba,
         trace := trace w @ [FindOne ''subscription'' [(''payuTransactionId'', txnid event)]]\<rparr>)"
    by (auto simp: findSubscription_cases)
next
  assume a: "(\<forall>wh. findOne ctx ''subscription'' wh (store w) = (Inr None, store w))
       \<and> or_else (body ''hash'') [] \<noteq> []
       \<and> verifyPayUHash (webhook_verify_params options body) (merchantSalt options)
            (or_else (body ''hash'') [])"
  then have none: "\<forall>wh. findOne ctx ''subscription'' wh (store w) = (Inr None, store w)"
    by simp
  let ?c = "spec_classify (body ''notificationType'') (body ''status'')"
  obtain r' w' where rw: "spec_transition ?c ctx options (webhook_event body) w = (r', w')"
    by (cases "spec_transition ?c ctx options (webhook_event body) w")
  with spec_transition_returns [of ?c ctx options "webhook_event body" w] have "r' = Inr ()"
    by simp
  with rw a have wh: "webhook ctx options (Some body) w = (Inr \<lparr>success = True\<rparr>, w')"
    by (simp add: webhook_def webhook_route_spec io_bind_def io_return_def)
  from spec_transition_nothing [OF none, of ?c options "webhook_event body"] rw
  have "store w' = store w" "updates_of (trace w') = updates_of (trace w)" by simp_all
  with wh show "fst (webhook ctx options (Some body) w) = Inr \<lparr>success = True\<rparr>"
    and "store (snd (webhook ctx options (Some body) w)) = store w"
    and "updates_of (trace (snd (webhook ctx options (Some body) w))) = updates_of (trace w)"
    by simp_all
qed

text \<open>
  Two rows, one matched by the transaction id and the other by slot 4: the transaction id
  wins, with a single read. Without a transaction-id match the row of slot 4 is found. On
  an empty store a verified event is acknowledged and nothing is written.
\<close>

theorem findSubscription_order_witness:
  "findSubscription memory_adapter two_way_event
       (world0 [other_subscription, stored_subscription] 2000) =
     (Inr (Some stored_subscription),
      \<lparr>store = [other_subscription, stored_subscription], now = 2000,
       trace = [FindOne ''subscription'' [(''payuTransactionId'', ''txn123'')]]\<rparr>)
   \<and> findSubscription memory_adapter two_way_event (world0 [other_subscription] 2000) =
     (Inr (Some other_subscription),
      \<lparr>store = [other_subscription], now = 2000,
       trace = [FindOne ''subscription'' [(''payuTransactionId'', ''txn123'')],
                FindOne ''subscription'' [(''id'', ''sub_456'')]]\<rparr>)
   \<and> findSubscription memory_adapter mockEvent (world0 [] 2000) =
     (Inr None,
      \<lparr>store = [], now = 2000,
       trace = [FindOne ''subscription'' [(''payuTransactionId'', ''txn_123'')]]\<rparr>)
   \<and> fst (webhook memory_adapter baseOptions (Some (test_body ''success'' success_digest None))
            (world0 [] 2000)) = Inr \<lparr>success = True\<rparr>
   \<and> updates_of (trace (snd (webhook memory_adapter baseOptions
            (Some (test_body ''success'' success_digest None)) (world0 [] 2000)))) = []"
  using
    findSubscription_order [where ctx = memory_adapter and event = two_way_event
      and w = "world0 [other_subscription, stored_subscription] 2000"
      and s = stored_subscription and dba = "[other_subscription, stored_subscription]"]
    findSubscription_order [where ctx = memory_adapter and event = two_way_event
      and w = "world0 [other_subscription] 2000" and sid = "''sub_456''"
      and dba = "[other_subscription]" and dbb = "[other_subscription]"
      and r = "Inr (Some other_subscription)"]
    findSubscription_order [where ctx = memory_adapter and event = mockEvent
      and w = "world0 [] 2000" and dba = "[] :: Subscription list" and options = baseOptions
      and body = "test_body ''success'' success_digest None"]
    success_body_verified [of None]
  by (simp add: memory_adapter_def row_matches_def world0_def two_way_event_def mockEvent_def
      other_subscription_def stored_subscription_def mockSubscription_def)

text \<open>
  C5 (as amended). A cancelled event has no guard on the status of the subscription it
  finds: for every found subscription, terminal or not, the handler issues the update that
  sets status cancelled and cancelledAt and endedAt to the current time, and, when the
  update and the plan lookup succeed, invokes the cancellation callback if one is set. On
  the stored row the update overwrites cancelledAt and endedAt whatever they were.
\<close>

theorem cancelled_not_idempotent:
  fixes ctx :: "'db Adapter"
  shows
  "(subscription options = Some so \<and> enabled so
    \<and> findSubscription ctx event w = (Inr (Some s), wa)
    \<longrightarrow> updates_of (trace (snd (onSubscriptionCancelled ctx options event w))) =
          updates_of (trace wa) @ [([(''id'', sub_id s)], cancelled_update (now wa))])
   \<and> (subscription options = Some so \<and> enabled so
       \<and> findSubscription ctx event w = (Inr (Some s), wa)
       \<and> update ctx ''subscription'' [(''id'', sub_id s)] (cancelled_update (now wa)) (store wa)
            = (Inr (), dbb)
       \<and> (find_plan so s :: (PayUPlan option, 'db) io) = io_return p
       \<and> cb_onSubscriptionCancelled so = Some f
       \<and> f (SubscriptionCallbackData s p event) = None
    \<longrightarrow> onSubscriptionCancelled ctx options event w =
          (Inr (),
           wa\<lparr>store := dbb,
              trace := trace wa @
                [Update ''subscription'' [(''id'', sub_id s)] (cancelled_update (now wa)),
                 Callback ''onSubscriptionCancelled'' (SubscriptionCallbackData s p event)]\<rparr>))
   \<and> sub_status (apply_update (cancelled_update t) s) = Cancelled
   \<and> cancelledAt (apply_update (cancelled_update t) s) = Some t
   \<and> endedAt (apply_update (cancelled_update t) s) = Some t"
proof (intro conjI impI)
  assume "subscription options = Some so \<and> enabled so
    \<and> findSubscription ctx event w = (Inr (Some s), wa)"
  then show "updates_of (trace (snd (onSubscriptionCancelled ctx options event w))) =
      updates_of (trace wa) @ [([(''id'', sub_id s)], cancelled_update (now wa))]"
    by (simp add: onSubscriptionCancelled_found)
next
  assume "subscription options = Some so \<and> enabled so
       \<and> findSubscription ctx event w = (Inr (Some s), wa)
       \<and> update ctx ''subscription'' [(''id'', sub_id s)] (cancelled_update (now wa)) (store wa)
            = (Inr (), dbb)
       \<and> (find_plan so s :: (PayUPlan option, 'db) io) = io_return p
       \<and> cb_onSubscriptionCancelled so = Some f
       \<and> f (SubscriptionCallbackData s p event) = None"
  then show "onSubscriptionCancelled ctx options event w =
      (Inr (),
       wa\<lparr>store := dbb,
          trace := trace wa @
            [Update ''subscription'' [(''id'', sub_id s)] (cancelled_update (now wa)),
             Callback ''onSubscriptionCancelled'' (SubscriptionCallbackData s p event)]\<rparr>)"
    by (simp add: onSubscriptionCancelled_def try_catch_logs io_bind_def adapter_update_def
        invoke_def io_return_def)
qed (simp_all add: apply_update_def cancelled_update_def set_field_def date_of_def)

text \<open>
  A subscription cancelled at time 100 receives a cancelled event at time 200: the update
  is issued, the callback is invoked and the row now reads 200.
\<close>

theorem cancelled_not_idempotent_witness:
  "onSubscriptionCancelled memory_adapter callbackOptions (mockEvent\<lparr>txnid := ''txn123''\<rparr>)
       (world0 [cancelled_subscription] 200) =
     (Inr (),
      \<lparr>store = [apply_update (cancelled_update 200) cancelled_subscription], now = 200,
       trace =
         [FindOne ''subscription'' [(''payuTransactionId'', ''txn123'')],
          Update ''subscription'' [(''id'', ''sub_123'')] (cancelled_update 200),
          Callback ''onSubscriptionCancelled''
            (SubscriptionCallbackData cancelled_subscription (Some monthly_plan)
               (mockEvent\<lparr>txnid := ''txn123''\<rparr>))]\<rparr>)
   \<and> cancelledAt (apply_update (cancelled_update 200) cancelled_subscription) = Some 200"
  using cancelled_not_idempotent [where ctx = memory_adapter and options = callbackOptions
      and so = "baseSubscriptionOptions
        \<lparr>cb_onSubscriptionCancelled := Some noted, cb_onPaymentSuccess := Some throwing,
         cb_onPaymentFailure := Some noted\<rparr>"
      and event = "mockEvent\<lparr>txnid := ''txn123''\<rparr>"
      and w = "world0 [cancelled_subscription] 200" and s = cancelled_subscription
      and wa = "\<lparr>store = [cancelled_subscription], now = 200,
                 trace = [FindOne ''subscription'' [(''payuTransactionId'', ''txn123'')]]\<rparr>"
      and dbb = "[apply_update (cancelled_update 200) cancelled_subscription]"
      and p = "Some monthly_plan" and f = noted and t = 200]
  by (simp add: run_defs fun_eq_iff)

text \<open>
  C5 as stated fails: a subscription already cancelled at time 100 is given the same
  cancelled event twice in succession, at times 200 and 201. The callback fires on both,
  and cancelledAt and endedAt are overwritten each time.
\<close>

theorem cancelled_twice_counterexample:
  "isTerminal cancelled_subscription
   \<and> map cancelledAt [cancelled_subscription] = [Some 100]
   \<and> map cancelledAt (store (snd (onSubscriptionCancelled memory_adapter callbackOptions
          (mockEvent\<lparr>txnid := ''txn123''\<rparr>) (world0 [cancelled_subscription] 200)))) = [Some 200]
   \<and> map cancelledAt (store (snd (onSubscriptionCancelled memory_adapter callbackOptions
          (mockEvent\<lparr>txnid := ''txn123''\<rparr>)
          ((snd (onSubscriptionCancelled memory_adapter callbackOptions
                   (mockEvent\<lparr>txnid := ''txn123''\<rparr>) (world0 [cancelled_subscription] 200)))
             \<lparr>now := 201\<rparr>)))) = [Some 201]
   \<and> map endedAt (store (snd (onSubscriptionCancelled memory_adapter callbackOptions
          (mockEvent\<lparr>txnid := ''txn123''\<rparr>)
          ((snd (onSubscriptionCancelled memory_adapter callbackOptions
                   (mockEvent\<lparr>txnid := ''txn123''\<rparr>) (world0 [cancelled_subscription] 200)))
             \<lparr>now := 201\<rparr>)))) = [Some 201]
   \<and> map fst (callbacks_of (trace (snd (onSubscriptionCancelled memory_adapter callbackOptions
          (mockEvent\<lparr>txnid := ''txn123''\<rparr>)
          ((snd (onSubscriptionCancelled memory_adapter callbackOptions
                   (mockEvent\<lparr>txnid := ''txn123''\<rparr>) (world0 [cancelled_subscription] 200)))
             \<lparr>now := 201\<rparr>))))) = [''onSubscriptionCancelled'', ''onSubscriptionCancelled'']"
  by (simp add: onSubscriptionCancelled_def isTerminal_def run_defs)

text \<open>
  C8 (as amended). On the row it is applied to, the update of a success or charged event
  sets status active, paidCount to the old paidCount plus one and, when totalCount is not
  null, remainingCount to max(totalCount - new paidCount, 0). The written row satisfies
  paidCount + remainingCount = totalCount exactly when the new paidCount does not exceed
  totalCount; beyond that the clamp keeps remainingCount at 0 and the sum exceeds
  totalCount.
\<close>

theorem counter_invariant_after_charge:
  "(totalCount s = Some n \<longrightarrow>
      sub_status (apply_update (payment_success_update s event t) s) = Active
      \<and> totalCount (apply_update (payment_success_update s event t) s) = Some n
      \<and> paidCount (apply_update (payment_success_update s event t) s)
          = Some (num_or (paidCount s) 0 + 1)
      \<and> remainingCount (apply_update (payment_success_update s event t) s)
          = Some (max (n - (num_or (paidCount s) 0 + 1)) 0)
      \<and> (spec_counter_invariant (apply_update (payment_success_update s event t) s)
           \<longleftrightarrow> num_or (paidCount s) 0 + 1 \<le> n)
      \<and> apply_update (subscription_charged_update s event t) s
          = apply_update (payment_success_update s event t) s)
   \<and> (totalCount s = Some n \<and> n < num_or (paidCount s) 0 + 1 \<longrightarrow>
        remainingCount (apply_update (payment_success_update s event t) s) = Some 0
        \<and> n < num_or (paidCount (apply_update (payment_success_update s event t) s)) 0
               + num_or (remainingCount (apply_update (payment_success_update s event t) s)) 0)"
  by (auto simp: apply_update_def payment_success_update_def subscription_charged_update_def
      set_field_def number_of_def date_of_def num_or_zero spec_counter_invariant_def
      isTerminal_def Let_def split: option.splits)

theorem counter_invariant_after_charge_witness:
  "spec_counter_invariant (apply_update (payment_success_update mockSubscription mockEvent 2000)
     mockSubscription)
   \<and> paidCount (apply_update (payment_success_update mockSubscription mockEvent 2000)
        mockSubscription) = Some 4
   \<and> remainingCount (apply_update (payment_success_update mockSubscription mockEvent 2000)
        mockSubscription) = Some 8
   \<and> remainingCount (apply_update (payment_success_update exhausted_subscription mockEvent 2000)
        exhausted_subscription) = Some 0"
  using counter_invariant_after_charge [where s = mockSubscription and n = 12
      and event = mockEvent and t = 2000]
    counter_invariant_after_charge [where s = exhausted_subscription and n = 12
      and event = mockEvent and t = 2000]
  by (simp add: mockSubscription_def exhausted_subscription_def stored_subscription_def
      num_or_def)

text \<open>
  C8 as stated fails: an active subscription with twelve of twelve charges paid satisfies
  the invariant; after a success event the row the handler wrote has paidCount 13 and
  remainingCount 0 against totalCount 12, and is not terminal.
\<close>

theorem counter_invariant_counterexample:
  "spec_counter_invariant exhausted_subscription
   \<and> \<not> isTerminal exhausted_subscription
   \<and> totalCount exhausted_subscription = Some 12
   \<and> map (\<lambda>s. (sub_status s, totalCount s, paidCount s, remainingCount s, spec_counter_invariant s))
        (store (snd (onPaymentSuccess memory_adapter baseOptions (mockEvent\<lparr>txnid := ''txn123''\<rparr>)
           (world0 [exhausted_subscription] 2000))))
       = [(Active, Some 12, Some 13, Some 0, False)]"
  by (simp add: onPaymentSuccess_def isTerminal_def spec_counter_invariant_def run_defs)

text \<open>
  C9. Every handler returns normally, whatever the adapter, the plan function and the
  callbacks do, and so the endpoint answers a verified event with success. In each of the
  handlers an exception raised while locating the subscription, while updating it, by the
  plan function or by the user-supplied callback is caught: the handler returns normally,
  the world is the one at the throw, and one error is logged there, the handler's own
  prefix followed by the exception's message.
\<close>

theorem handlers_swallow_exceptions:
  fixes ctx :: "'db Adapter"
  shows
  "fst (onPaymentSuccess ctx options event w) = Inr ()
   \<and> fst (onPaymentFailure ctx options event w) = Inr ()
   \<and> fst (onSubscriptionActivated ctx options event w) = Inr ()
   \<and> fst (onSubscriptionCharged ctx options event w) = Inr ()
   \<and> fst (onSubscriptionPending ctx options event w) = Inr ()
   \<and> fst (onSubscriptionHalted ctx options event w) = Inr ()
   \<and> fst (onSubscriptionCompleted ctx options event w) = Inr ()
   \<and> fst (onSubscriptionCancelled ctx options event w) = Inr ()
   \<and> fst (onSubscriptionPaused ctx options event w) = Inr ()
   \<and> fst (onSubscriptionResumed ctx options event w) = Inr ()
   \<and> fst (onMandateRevoked ctx options event w) = Inr ()
   \<and> fst (onMandateModified ctx options event w) = Inr ()
   \<and> (or_else (body ''hash'') [] \<noteq> []
       \<and> verifyPayUHash (webhook_verify_params options body) (merchantSalt options)
            (or_else (body ''hash'') [])
    \<longrightarrow> fst (webhook ctx options (Some body) w) = Inr \<lparr>success = True\<rparr>)
   \<and> (subscription options = Some so \<and> enabled so \<and> txnid event \<noteq> []
    \<and> findSubscription ctx event w = (Inl e, wa)
    \<longrightarrow> onPaymentSuccess ctx options event w =
          (Inr (), wa\<lparr>trace := trace wa @ [LoggerError (''PayU onPaymentSuccess error: '' @ exn_message e)]\<rparr>))
   \<and> (subscription options = Some so \<and> enabled so \<and> txnid event \<noteq> []
    \<and> findSubscription ctx event w = (Inr (Some s), wa)
    \<and> update ctx ''subscription'' [(''id'', sub_id s)]
            (payment_success_update s event (now wa)) (store wa) = (Inl e, dbb)
    \<longrightarrow> onPaymentSuccess ctx options event w =
          (Inr (), wa\<lparr>store := dbb, trace := trace wa @
            [Update ''subscription'' [(''id'', sub_id s)]
             (payment_success_update s event (now wa)),
             LoggerError (''PayU onPaymentSuccess error: '' @ exn_message e)]\<rparr>))
   \<and> (subscription options = Some so \<and> enabled so \<and> txnid event \<noteq> []
    \<and> findSubscription ctx event w = (Inr (Some s), wa)
    \<and> update ctx ''subscription'' [(''id'', sub_id s)]
            (payment_success_update s event (now wa)) (store wa) = (Inr (), dbb)
    \<and> plans so = Some (PlansFunction (Inl e))
    \<longrightarrow> onPaymentSuccess ctx options event w =
          (Inr (), wa\<lparr>store := dbb, trace := trace wa @
            [Update ''subscription'' [(''id'', sub_id s)]
             (payment_success_update s event (now wa)),
             LoggerError (''PayU onPaymentSuccess error: '' @ exn_message e)]\<rparr>))
   \<and> (subscription options = Some so \<and> enabled so \<and> txnid event \<noteq> []
    \<and> findSubscription ctx event w = (Inr (Some s), wa)
    \<and> update ctx ''subscription'' [(''id'', sub_id s)]
            (payment_success_update s event (now wa)) (store wa) = (Inr (), dbb)
    \<and> (find_plan so s :: (PayUPlan option, 'db) io) = io_return p
    \<and> cb_onPaymentSuccess so = Some f \<and> f (SubscriptionCallbackData s p event) = Some e
    \<longrightarrow> onPaymentSuccess ctx options event w =
          (Inr (), wa\<lparr>store := dbb, trace := trace wa @
            [Update ''subscription'' [(''id'', sub_id s)]
             (payment_success_update s event (now wa)),
             Callback ''onPaymentSuccess'' (SubscriptionCallbackData s p event),
             LoggerError (''PayU onPaymentSuccess error: '' @ exn_message e)]\<rparr>))
   \<and> (subscription options = Some so \<and> enabled so
    \<and> findSubscription ctx event w = (Inl e, wa)
    \<longrightarrow> onPaymentFailure ctx options event w =
          (Inr (), wa\<lparr>trace := trace wa @ [LoggerError (''PayU onPaymentFailure error: '' @ exn_message e)]\<rparr>))
   \<and> (subscription options = Some so \<and> enabled so
    \<and> findSubscription ctx event w = (Inr (Some s), wa)
    \<and> update ctx ''subscription'' [(''id'', sub_id s)]
            ([(''status'', VStatus Pending), (''updatedAt'', VDate (now wa))]) (store wa) = (Inl e, dbb)
    \<longrightarrow> onPaymentFailure ctx options event w =
          (Inr (), wa\<lparr>store := dbb, trace := trace wa @
            [Update ''subscription'' [(''id'', sub_id s)]
             ([(''status'', VStatus Pending), (''updatedAt'', VDate (now wa))]),
             LoggerError (''PayU onPaymentFailure error: '' @ exn_message e)]\<rparr>))
   \<and> (subscription options = Some so \<and> enabled so
    \<and> findSubscription ctx event w = (Inr (Some s), wa)
    \<and> update ctx ''subscription'' [(''id'', sub_id s)]
            ([(''status'', VStatus Pending), (''updatedAt'', VDate (now wa))]) (store wa) = (Inr (), dbb)
    \<and> cb_onPaymentFailure so = Some f \<and> f (PaymentFailureData event (failure_reason event)) = Some e
    \<longrightarrow> onPaymentFailure ctx options event w =
          (Inr (), wa\<lparr>store := dbb, trace := trace wa @
            [Update ''subscription'' [(''id'', sub_id s)]
             ([(''status'', VStatus Pending), (''updatedAt'', VDate (now wa))]),
             Callback ''onPaymentFailure'' (PaymentFailureData event (failure_reason event)),
             LoggerError (''PayU onPaymentFailure error: '' @ exn_message e)]\<rparr>))
   \<and> (subscription options = Some so \<and> enabled so
    \<and> findSubscription ctx event w = (Inr None, wa)
    \<and> cb_onPaymentFailure so = Some f \<and> f (PaymentFailureData event (failure_reason event)) = Some e
    \<longrightarrow> onPaymentFailure ctx options event w =
          (Inr (), wa\<lparr>trace := trace wa @
            [Callback ''onPaymentFailure'' (PaymentFailureData event (failure_reason event)),
             LoggerError (''PayU onPaymentFailure error: '' @ exn_message e)]\<rparr>))
   \<and> (subscription options = Some so \<and> enabled so \<and> txnid event \<noteq> []
    \<and> findSubscription ctx event w = (Inl e, wa)
    \<longrightarrow> onSubscriptionActivated ctx options event w =
          (Inr (), wa\<lparr>trace := trace wa @ [LoggerError (''PayU onSubscriptionActivated error: '' @ exn_message e)]\<rparr>))
   \<and> (subscription options = Some so \<and> enabled so \<and> txnid event \<noteq> []
    \<and> findSubscription ctx event w = (Inr (Some s), wa)
    \<and> update ctx ''subscription'' [(''id'', sub_id s)]
            ([(''status'', VStatus Active), (''payuMihpayid'', VString (mihpayid event)),
              (''currentStart'', VDate (now wa)), (''updatedAt'', VDate (now wa))]) (store wa) = (Inl e, dbb)
    \<longrightarrow> onSubscriptionActivated ctx options event w =
          (Inr (), wa\<lparr>store := dbb, trace := trace wa @
            [Update ''subscription'' [(''id'', sub_id s)]
             ([(''status'', VStatus Active), (''payuMihpayid'', VString (mihpayid event)),
              (''currentStart'', VDate (now wa)), (''updatedAt'', VDate (now wa))]),
             LoggerError (''PayU onSubscriptionActivated error: '' @ exn_message e)]\<rparr>))
   \<and> (subscription options = Some so \<and> enabled so \<and> txnid event \<noteq> []
    \<and> findSubscription ctx event w = (Inr (Some s), wa)
    \<and> update ctx ''subscription'' [(''id'', sub_id s)]
            ([(''status'', VStatus Active), (''payuMihpayid'', VString (mihpayid event)),
              (''currentStart'', VDate (now wa)), (''updatedAt'', VDate (now wa))]) (store wa) = (Inr (), dbb)
    \<and> plans so = Some (PlansFunction (Inl e))
    \<longrightarrow> onSubscriptionActivated ctx options event w =
          (Inr (), wa\<lparr>store := dbb, trace := trace wa @
            [Update ''subscription'' [(''id'', sub_id s)]
             ([(''status'', VStatus Active), (''payuMihpayid'', VString (mihpayid event)),
              (''currentStart'', VDate (now wa)), (''updatedAt'', VDate (now wa))]),
             LoggerError (''PayU onSubscriptionActivated error: '' @ exn_message e)]\<rparr>))
   \<and> (subscription options = Some so \<and> enabled so \<and> txnid event \<noteq> []
    \<and> findSubscription ctx event w = (Inr (Some s), wa)
    \<and> update ctx ''subscription'' [(''id'', sub_id s)]
            ([(''status'', VStatus Active), (''payuMihpayid'', VString (mihpayid event)),
              (''currentStart'', VDate (now wa)), (''updatedAt'', VDate (now wa))]) (store wa) = (Inr (), dbb)
    \<and> (find_plan so s :: (PayUPlan option, 'db) io) = io_return p
    \<and> cb_onSubscriptionActivated so = Some f \<and> f (SubscriptionCallbackData s p event) = Some e
    \<longrightarrow> onSubscriptionActivated ctx options event w =
          (Inr (), wa\<lparr>store := dbb, trace := trace wa @
            [Update ''subscription'' [(''id'', sub_id s)]
             ([(''status'', VStatus Active), (''payuMihpayid'', VString (mihpayid event)),
              (''currentStart'', VDate (now wa)), (''updatedAt'', VDate (now wa))]),
             Callback ''onSubscriptionActivated'' (SubscriptionCallbackData s p event),
             LoggerError (''PayU onSubscriptionActivated error: '' @ exn_message e)]\<rparr>))
   \<and> (subscription options = Some so \<and> enabled so \<and> txnid event \<noteq> []
    \<and> findSubscription ctx event w = (Inl e, wa)
    \<longrightarrow> onSubscriptionCharged ctx options event w =
          (Inr (), wa\<lparr>trace := trace wa @ [LoggerError (''PayU onSubscriptionCharged error: '' @ exn_message e)]\<rparr>))
   \<and> (subscription options = Some so \<and> enabled so \<and> txnid event \<noteq> []
    \<and> findSubscription ctx event w = (Inr (Some s), wa)
    \<and> update ctx ''subscription'' [(''id'', sub_id s)]
            (subscription_charged_update s event (now wa)) (store wa) = (Inl e, dbb)
    \<longrightarrow> onSubscriptionCharged ctx options event w =
          (Inr (), wa\<lparr>store := dbb, trace := trace wa @
            [Update ''subscription'' [(''id'', sub_id s)]
             (subscription_charged_update s event (now wa)),
             LoggerError (''PayU onSubscriptionCharged error: '' @ exn_message e)]\<rparr>))
   \<and> (subscription options = Some so \<and> enabled so \<and> txnid event \<noteq> []
    \<and> findSubscription ctx event w = (Inr (Some s), wa)
    \<and> update ctx ''subscription'' [(''id'', sub_id s)]
            (subscription_charged_update s event (now wa)) (store wa) = (Inr (), dbb)
    \<and> plans so = Some (PlansFunction (Inl e))
    \<longrightarrow> onSubscriptionCharged ctx options event w =
          (Inr (), wa\<lparr>store := dbb, trace := trace wa @
            [Update ''subscription'' [(''id'', sub_id s)]
             (subscription_charged_update s event (now wa)),
             LoggerError (''PayU onSubscriptionCharged error: '' @ exn_message e)]\<rparr>))
   \<and> (subscription options = Some so \<and> enabled so \<and> txnid event \<noteq> []
    \<and> findSubscription ctx event w = (Inr (Some s), wa)
    \<and> update ctx ''subscription'' [(''id'', sub_id s)]
            (subscription_charged_update s event (now wa)) (store wa) = (Inr (), dbb)
    \<and> (find_plan so s :: (PayUPlan option, 'db) io) = io_return p
    \<and> cb_onSubscriptionCharged so = Some f \<and> f (SubscriptionCallbackData s p event) = Some e
    \<longrightarrow> onSubscriptionCharged ctx options event w =
          (Inr (), wa\<lparr>store := dbb, trace := trace wa @
            [Update ''subscription'' [(''id'', sub_id s)]
             (subscription_charged_update s event (now wa)),
             Callback ''onSubscriptionCharged'' (SubscriptionCallbackData s p event),
             LoggerError (''PayU onSubscriptionCharged error: '' @ exn_message e)]\<rparr>))
   \<and> (subscription options = Some so \<and> enabled so
    \<and> findSubscription ctx event w = (Inl e, wa)
    \<longrightarrow> onSubscriptionPending ctx options event w =
          (Inr (), wa\<lparr>trace := trace wa @ [LoggerError (''PayU onSubscriptionPending error: '' @ exn_message e)]\<rparr>))
   \<and> (subscription options = Some so \<and> enabled so
    \<and> findSubscription ctx event w = (Inr (Some s), wa)
    \<and> update ctx ''subscription'' [(''id'', sub_id s)]
            ([(''status'', VStatus Pending), (''updatedAt'', VDate (now wa))]) (store wa) = (Inl e, dbb)
    \<longrightarrow> onSubscriptionPending ctx options event w =
          (Inr (), wa\<lparr>store := dbb, trace := trace wa @
            [Update ''subscription'' [(''id'', sub_id s)]
             ([(''status'', VStatus Pending), (''updatedAt'', VDate (now wa))]),
             LoggerError (''PayU onSubscriptionPending error: '' @ exn_message e)]\<rparr>))
   \<and> (subscription options = Some so \<and> enabled so
    \<and> findSubscription ctx event w = (Inr (Some s), wa)
    \<and> update ctx ''subscription'' [(''id'', sub_id s)]
            ([(''status'', VStatus Pending), (''updatedAt'', VDate (now wa))]) (store wa) = (Inr (), dbb)
    \<and> plans so = Some (PlansFunction (Inl e))
    \<longrightarrow> onSubscriptionPending ctx options event w =
          (Inr (), wa\<lparr>store := dbb, trace := trace wa @
            [Update ''subscription'' [(''id'', sub_id s)]
             ([(''status'', VStatus Pending), (''updatedAt'', VDate (now wa))]),
             LoggerError (''PayU onSubscriptionPending error: '' @ exn_message e)]\<rparr>))
   \<and> (subscription options = Some so \<and> enabled so
    \<and> findSubscription ctx event w = (Inr (Some s), wa)
    \<and> update ctx ''subscription'' [(''id'', sub_id s)]
            ([(''status'', VStatus Pending), (''updatedAt'', VDate (now wa))]) (store wa) = (Inr (), dbb)
    \<and> (find_plan so s :: (PayUPlan option, 'db) io) = io_return p
    \<and> cb_onSubscriptionPending so = Some f \<and> f (SubscriptionCallbackData s p event) = Some e
    \<longrightarrow> onSubscriptionPending ctx options event w =
          (Inr (), wa\<lparr>store := dbb, trace := trace wa @
            [Update ''subscription'' [(''id'', sub_id s)]
             ([(''status'', VStatus Pending), (''updatedAt'', VDate (now wa))]),
             Callback ''onSubscriptionPending'' (SubscriptionCallbackData s p event),
             LoggerError (''PayU onSubscriptionPending error: '' @ exn_message e)]\<rparr>))
   \<and> (subscription options = Some so \<and> enabled so
    \<and> findSubscription ctx event w = (Inl e, wa)
    \<longrightarrow> onSubscriptionHalted ctx options event w =
          (Inr (), wa\<lparr>trace := trace wa @ [LoggerError (''PayU onSubscriptionHalted error: '' @ exn_message e)]\<rparr>))
   \<and> (subscription options = Some so \<and> enabled so
    \<and> findSubscription ctx event w = (Inr (Some s), wa)
    \<and> update ctx ''subscription'' [(''id'', sub_id s)]
            ([(''status'', VStatus Halted), (''updatedAt'', VDate (now wa))]) (store wa) = (Inl e, dbb)
    \<longrightarrow> onSubscriptionHalted ctx options event w =
          (Inr (), wa\<lparr>store := dbb, trace := trace wa @
            [Update ''subscription'' [(''id'', sub_id s)]
             ([(''status'', VStatus Halted), (''updatedAt'', VDate (now wa))]),
             LoggerError (''PayU onSubscriptionHalted error: '' @ exn_message e)]\<rparr>))
   \<and> (subscription options = Some so \<and> enabled so
    \<and> findSubscription ctx event w = (Inr (Some s), wa)
    \<and> update ctx ''subscription'' [(''id'', sub_id s)]
            ([(''status'', VStatus Halted), (''updatedAt'', VDate (now wa))]) (store wa) = (Inr (), dbb)
    \<and> plans so = Some (PlansFunction (Inl e))
    \<longrightarrow> onSubscriptionHalted ctx options event w =
          (Inr (), wa\<lparr>store := dbb, trace := trace wa @
            [Update ''subscription'' [(''id'', sub_id s)]
             ([(''status'', VStatus Halted), (''updatedAt'', VDate (now wa))]),
             LoggerError (''PayU onSubscriptionHalted error: '' @ exn_message e)]\<rparr>))
   \<and> (subscription options = Some so \<and> enabled so
    \<and> findSubscription ctx event w = (Inr (Some s), wa)
    \<and> update ctx ''subscription'' [(''id'', sub_id s)]
            ([(''status'', VStatus Halted), (''updatedAt'', VDate (now wa))]) (store wa) = (Inr (), dbb)
    \<and> (find_plan so s :: (PayUPlan option, 'db) io) = io_return p
    \<and> cb_onSubscriptionHalted so = Some f \<and> f (SubscriptionCallbackData s p event) = Some e
    \<longrightarrow> onSubscriptionHalted ctx options event w =
          (Inr (), wa\<lparr>store := dbb, trace := trace wa @
            [Update ''subscription'' [(''id'', sub_id s)]
             ([(''status'', VStatus Halted), (''updatedAt'', VDate (now wa))]),
             Callback ''onSubscriptionHalted'' (SubscriptionCallbackData s p event),
             LoggerError (''PayU onSubscriptionHalted error: '' @ exn_message e)]\<rparr>))
   \<and> (subscription options = Some so \<and> enabled so
    \<and> findSubscription ctx event w = (Inl e, wa)
    \<longrightarrow> onSubscriptionCompleted ctx options event w =
          (Inr (), wa\<lparr>trace := trace wa @ [LoggerError (''PayU onSubscriptionCompleted error: '' @ exn_message e)]\<rparr>))
   \<and> (subscription options = Some so \<and> enabled so
    \<and> findSubscription ctx event w = (Inr (Some s), wa)
    \<and> update ctx ''subscription'' [(''id'', sub_id s)]
            ([(''status'', VStatus Completed), (''endedAt'', VDate (now wa)),
              (''remainingCount'', VNumber 0), (''updatedAt'', VDate (now wa))]) (store wa) = (Inl e, dbb)
    \<longrightarrow> onSubscriptionCompleted ctx options event w =
          (Inr (), wa\<lparr>store := dbb, trace := trace wa @
            [Update ''subscription'' [(''id'', sub_id s)]
             ([(''status'', VStatus Completed), (''endedAt'', VDate (now wa)),
              (''remainingCount'', VNumber 0), (''updatedAt'', VDate (now wa))]),
             LoggerError (''PayU onSubscriptionCompleted error: '' @ exn_message e)]\<rparr>))
   \<and> (subscription options = Some so \<and> enabled so
    \<and> findSubscription ctx event w = (Inr (Some s), wa)
    \<and> update ctx ''subscription'' [(''id'', sub_id s)]
            ([(''status'', VStatus Completed), (''endedAt'', VDate (now wa)),
              (''remainingCount'', VNumber 0), (''updatedAt'', VDate (now wa))]) (store wa) = (Inr (), dbb)
    \<and> plans so = Some (PlansFunction (Inl e))
    \<longrightarrow> onSubscriptionCompleted ctx options event w =
          (Inr (), wa\<lparr>store := dbb, trace := trace wa @
            [Update ''subscription'' [(''id'', sub_id s)]
             ([(''status'', VStatus Completed), (''endedAt'', VDate (now wa)),
              (''remainingCount'', VNumber 0), (''updatedAt'', VDate (now wa))]),
             LoggerError (''PayU onSubscriptionCompleted error: '' @ exn_message e)]\<rparr>))
   \<and> (subscription options = Some so \<and> enabled so
    \<and> findSubscription ctx event w = (Inr (Some s), wa)
    \<and> update ctx ''subscription'' [(''id'', sub_id s)]
            ([(''status'', VStatus Completed), (''endedAt'', VDate (now wa)),
              (''remainingCount'', VNumber 0), (''updatedAt'', VDate (now wa))]) (store wa) = (Inr (), dbb)
    \<and> (find_plan so s :: (PayUPlan option, 'db) io) = io_return p
    \<and> cb_onSubscriptionCompleted so = Some f \<and> f (SubscriptionCallbackData s p event) = Some e
    \<longrightarrow> onSubscriptionCompleted ctx options event w =
          (Inr (), wa\<lparr>store := dbb, trace := trace wa @
            [Update ''subscription'' [(''id'', sub_id s)]
             ([(''status'', VStatus Completed), (''endedAt'', VDate (now wa)),
              (''remainingCount'', VNumber 0), (''updatedAt'', VDate (now wa))]),
             Callback ''onSubscriptionCompleted'' (SubscriptionCallbackData s p event),
             LoggerError (''PayU onSubscriptionCompleted error: '' @ exn_message e)]\<rparr>))
   \<and> (subscription options = Some so \<and> enabled so
    \<and> findSubscription ctx event w = (Inl e, wa)
    \<longrightarrow> onSubscriptionCancelled ctx options event w =
          (Inr (), wa\<lparr>trace := trace wa @ [LoggerError (''PayU onSubscriptionCancelled error: '' @ exn_message e)]\<rparr>))
   \<and> (subscription options = Some so \<and> enabled so
    \<and> findSubscription ctx event w = (Inr (Some s), wa)
    \<and> update ctx ''subscription'' [(''id'', sub_id s)]
            (cancelled_update (now wa)) (store wa) = (Inl e, dbb)
    \<longrightarrow> onSubscriptionCancelled ctx options event w =
          (Inr (), wa\<lparr>store := dbb, trace := trace wa @
            [Update ''subscription'' [(''id'', sub_id s)]
             (cancelled_update (now wa)),
             LoggerError (''PayU onSubscriptionCancelled error: '' @ exn_message e)]\<rparr>))
   \<and> (subscription options = Some so \<and> enabled so
    \<and> findSubscription ctx event w = (Inr (Some s), wa)
    \<and> update ctx ''subscription'' [(''id'', sub_id s)]
            (cancelled_update (now wa)) (store wa) = (Inr (), dbb)
    \<and> plans so = Some (PlansFunction (Inl e))
    \<longrightarrow> onSubscriptionCancelled ctx options event w =
          (Inr (), wa\<lparr>store := dbb, trace := trace wa @
            [Update ''subscription'' [(''id'', sub_id s)]
             (cancelled_update (now wa)),
             LoggerError (''PayU onSubscriptionCancelled error: '' @ exn_message e)]\<rparr>))
   \<and> (subscription options = Some so \<and> enabled so
    \<and> findSubscription ctx event w = (Inr (Some s), wa)
    \<and> update ctx ''subscription'' [(''id'', sub_id s)]
            (cancelled_update (now wa)) (store wa) = (Inr (), dbb)
    \<and> (find_plan so s :: (PayUPlan option, 'db) io) = io_return p
    \<and> cb_onSubscriptionCancelled so = Some f \<and> f (SubscriptionCallbackData s p event) = Some e
    \<longrightarrow> onSubscriptionCancelled ctx options event w =
          (Inr (), wa\<lparr>store := dbb, trace := trace wa @
            [Update ''subscription'' [(''id'', sub_id s)]
             (cancelled_update (now wa)),
             Callback ''onSubscriptionCancelled'' (SubscriptionCallbackData s p event),
             LoggerError (''PayU onSubscriptionCancelled error: '' @ exn_message e)]\<rparr>))
   \<and> (subscription options = Some so \<and> enabled so
    \<and> findSubscription ctx event w = (Inl e, wa)
    \<longrightarrow> onSubscriptionPaused ctx options event w =
          (Inr (), wa\<lparr>trace := trace wa @ [LoggerError (''PayU onSubscriptionPaused error: '' @ exn_message e)]\<rparr>))
   \<and> (subscription options = Some so \<and> enabled so
    \<and> findSubscription ctx event w = (Inr (Some s), wa)
    \<and> update ctx ''subscription'' [(''id'', sub_id s)]
            ([(''status'', VStatus Paused), (''pausedAt'', VDate (now wa)),
              (''updatedAt'', VDate (now wa))]) (store wa) = (Inl e, dbb)
    \<longrightarrow> onSubscriptionPaused ctx options event w =
          (Inr (), wa\<lparr>store := dbb, trace := trace wa @
            [Update ''subscription'' [(''id'', sub_id s)]
             ([(''status'', VStatus Paused), (''pausedAt'', VDate (now wa)),
              (''updatedAt'', VDate (now wa))]),
             LoggerError (''PayU onSubscriptionPaused error: '' @ exn_message e)]\<rparr>))
   \<and> (subscription options = Some so \<and> enabled so
    \<and> findSubscription ctx event w = (Inr (Some s), wa)
    \<and> update ctx ''subscription'' [(''id'', sub_id s)]
            ([(''status'', VStatus Paused), (''pausedAt'', VDate (now wa)),
              (''updatedAt'', VDate (now wa))]) (store wa) = (Inr (), dbb)
    \<and> plans so = Some (PlansFunction (Inl e))
    \<longrightarrow> onSubscriptionPaused ctx options event w =
          (Inr (), wa\<lparr>store := dbb, trace := trace wa @
            [Update ''subscription'' [(''id'', sub_id s)]
             ([(''status'', VStatus Paused), (''pausedAt'', VDate (now wa)),
              (''updatedAt'', VDate (now wa))]),
             LoggerError (''PayU onSubscriptionPaused error: '' @ exn_message e)]\<rparr>))
   \<and> (subscription options = Some so \<and> enabled so
    \<and> findSubscription ctx event w = (Inr (Some s), wa)
    \<and> update ctx ''subscription'' [(''id'', sub_id s)]
            ([(''status'', VStatus Paused), (''pausedAt'', VDate (now wa)),
              (''updatedAt'', VDate (now wa))]) (store wa) = (Inr (), dbb)
    \<and> (find_plan so s :: (PayUPlan option, 'db) io) = io_return p
    \<and> cb_onSubscriptionPaused so = Some f \<and> f (SubscriptionCallbackData s p event) = Some e
    \<longrightarrow> onSubscriptionPaused ctx options event w =
          (Inr (), wa\<lparr>store := dbb, trace := trace wa @
            [Update ''subscription'' [(''id'', sub_id s)]
             ([(''status'', VStatus Paused), (''pausedAt'', VDate (now wa)),
              (''updatedAt'', VDate (now wa))]),
             Callback ''onSubscriptionPaused'' (SubscriptionCallbackData s p event),
             LoggerError (''PayU onSubscriptionPaused error: '' @ exn_message e)]\<rparr>))
   \<and> (subscription options = Some so \<and> enabled so
    \<and> findSubscription ctx event w = (Inl e, wa)
    \<longrightarrow> onSubscriptionResumed ctx options event w =
          (Inr (), wa\<lparr>trace := trace wa @ [LoggerError (''PayU onSubscriptionResumed error: '' @ exn_message e)]\<rparr>))
   \<and> (subscription options = Some so \<and> enabled so
    \<and> findSubscription ctx event w = (Inr (Some s), wa)
    \<and> update ctx ''subscription'' [(''id'', sub_id s)]
            ([(''status'', VStatus Active), (''pausedAt'', VNull),
              (''updatedAt'', VDate (now wa))]) (store wa) = (Inl e, dbb)
    \<longrightarrow> onSubscriptionResumed ctx options event w =
          (Inr (), wa\<lparr>store := dbb, trace := trace wa @
            [Update ''subscription'' [(''id'', sub_id s)]
             ([(''status'', VStatus Active), (''pausedAt'', VNull),
              (''updatedAt'', VDate (now wa))]),
             LoggerError (''PayU onSubscriptionResumed error: '' @ exn_message e)]\<rparr>))
   \<and> (subscription options = Some so \<and> enabled so
    \<and> findSubscription ctx event w = (Inr (Some s), wa)
    \<and> update ctx ''subscription'' [(''id'', sub_id s)]
            ([(''status'', VStatus Active), (''pausedAt'', VNull),
              (''updatedAt'', VDate (now wa))]) (store wa) = (Inr (), dbb)
    \<and> plans so = Some (PlansFunction (Inl e))
    \<longrightarrow> onSubscriptionResumed ctx options event w =
          (Inr (), wa\<lparr>store := dbb, trace := trace wa @
            [Update ''subscription'' [(''id'', sub_id s)]
             ([(''status'', VStatus Active), (''pausedAt'', VNull),
              (''updatedAt'', VDate (now wa))]),
             LoggerError (''PayU onSubscriptionResumed error: '' @ exn_message e)]\<rparr>))
   \<and> (subscription options = Some so \<and> enabled so
    \<and> findSubscription ctx event w = (Inr (Some s), wa)
    \<and> update ctx ''subscription'' [(''id'', sub_id s)]
            ([(''status'', VStatus Active), (''pausedAt'', VNull),
              (''updatedAt'', VDate (now wa))]) (store wa) = (Inr (), dbb)
    \<and> (find_plan so s :: (PayUPlan option, 'db) io) = io_return p
    \<and> cb_onSubscriptionResumed so = Some f \<and> f (SubscriptionCallbackData s p event) = Some e
    \<longrightarrow> onSubscriptionResumed ctx options event w =
          (Inr (), wa\<lparr>store := dbb, trace := trace wa @
            [Update ''subscription'' [(''id'', sub_id s)]
             ([(''status'', VStatus Active), (''pausedAt'', VNull),
              (''updatedAt'', VDate (now wa))]),
             Callback ''onSubscriptionResumed'' (SubscriptionCallbackData s p event),
             LoggerError (''PayU onSubscriptionResumed error: '' @ exn_message e)]\<rparr>))
   \<and> (subscription options = Some so \<and> enabled so
    \<and> findSubscription ctx event w = (Inl e, wa)
    \<longrightarrow> onMandateRevoked ctx options event w =
          (Inr (), wa\<lparr>trace := trace wa @ [LoggerError (''PayU onMandateRevoked error: '' @ exn_message e)]\<rparr>))
   \<and> (subscription options = Some so \<and> enabled so
    \<and> findSubscription ctx event w = (Inr (Some s), wa)
    \<and> update ctx ''subscription'' [(''id'', sub_id s)]
            (cancelled_update (now wa)) (store wa) = (Inl e, dbb)
    \<longrightarrow> onMandateRevoked ctx options event w =
          (Inr (), wa\<lparr>store := dbb, trace := trace wa @
            [Update ''subscription'' [(''id'', sub_id s)]
             (cancelled_update (now wa)),
             LoggerError (''PayU onMandateRevoked error: '' @ exn_message e)]\<rparr>))
   \<and> (subscription options = Some so \<and> enabled so
    \<and> findSubscription ctx event w = (Inr (Some s), wa)
    \<and> update ctx ''subscription'' [(''id'', sub_id s)]
            (cancelled_update (now wa)) (store wa) = (Inr (), dbb)
    \<and> plans so = Some (PlansFunction (Inl e))
    \<longrightarrow> onMandateRevoked ctx options event w =
          (Inr (), wa\<lparr>store := dbb, trace := trace wa @
            [Update ''subscription'' [(''id'', sub_id s)]
             (cancelled_update (now wa)),
             LoggerError (''PayU onMandateRevoked error: '' @ exn_message e)]\<rparr>))
   \<and> (subscription options = Some so \<and> enabled so
    \<and> findSubscription ctx event w = (Inr (Some s), wa)
    \<and> update ctx ''subscription'' [(''id'', sub_id s)]
            (cancelled_update (now wa)) (store wa) = (Inr (), dbb)
    \<and> (find_plan so s :: (PayUPlan option, 'db) io) = io_return p
    \<and> cb_onMandateRevoked so = Some f \<and> f (SubscriptionCallbackData s p event) = Some e
    \<longrightarrow> onMandateRevoked ctx options event w =
          (Inr (), wa\<lparr>store := dbb, trace := trace wa @
            [Update ''subscription'' [(''id'', sub_id s)]
             (cancelled_update (now wa)),
             Callback ''onMandateRevoked'' (SubscriptionCallbackData s p event),
             LoggerError (''PayU onMandateRevoked error: '' @ exn_message e)]\<rparr>))
   \<and> (subscription options = Some so \<and> enabled so
    \<and> findSubscription ctx event w = (Inl e, wa)
    \<longrightarrow> onMandateModified ctx options event w =
          (Inr (), wa\<lparr>trace := trace wa @ [LoggerError (''PayU onMandateModified error: '' @ exn_message e)]\<rparr>))
   \<and> (subscription options = Some so \<and> enabled so
    \<and> findSubscription ctx event w = (Inr (Some s), wa)
    \<and> update ctx ''subscription'' [(''id'', sub_id s)]
            ([(''updatedAt'', VDate (now wa))]) (store wa) = (Inl e, dbb)
    \<longrightarrow> onMandateModified ctx options event w =
          (Inr (), wa\<lparr>store := dbb, trace := trace wa @
            [Update ''subscription'' [(''id'', sub_id s)]
             ([(''updatedAt'', VDate (now wa))]),
             LoggerError (''PayU onMandateModified error: '' @ exn_message e)]\<rparr>))
   \<and> (subscription options = Some so \<and> enabled so
    \<and> findSubscription ctx event w = (Inr (Some s), wa)
    \<and> update ctx ''subscription'' [(''id'', sub_id s)]
            ([(''updatedAt'', VDate (now wa))]) (store wa) = (Inr (), dbb)
    \<and> plans so = Some (PlansFunction (Inl e))
    \<longrightarrow> onMandateModified ctx options event w =
          (Inr (), wa\<lparr>store := dbb, trace := trace wa @
            [Update ''subscription'' [(''id'', sub_id s)]
             ([(''updatedAt'', VDate (now wa))]),
             LoggerError (''PayU onMandateModified error: '' @ exn_message e)]\<rparr>))
   \<and> (subscription options = Some so \<and> enabled so
    \<and> findSubscription ctx event w = (Inr (Some s), wa)
    \<and> update ctx ''subscription'' [(''id'', sub_id s)]
            ([(''updatedAt'', VDate (now wa))]) (store wa) = (Inr (), dbb)
    \<and> (find_plan so s :: (PayUPlan option, 'db) io) = io_return p
    \<and> cb_onMandateModified so = Some f \<and> f (SubscriptionCallbackData s p event) = Some e
    \<longrightarrow> onMandateModified ctx options event w =
          (Inr (), wa\<lparr>store := dbb, trace := trace wa @
            [Update ''subscription'' [(''id'', sub_id s)]
             ([(''updatedAt'', VDate (now wa))]),
             Callback ''onMandateModified'' (SubscriptionCallbackData s p event),
             LoggerError (''PayU onMandateModified error: '' @ exn_message e)]\<rparr>))"
  by (intro conjI handlers_return handlers_log) (simp add: webhook_returns)

text \<open>
  The database rejects every call, the database rejects the update, the callback throws,
  the plan function throws, the payment-failure callback throws for an event that matches
  no subscription: each time the handler returns normally with the error logged. With a
  database that rejects every call the endpoint answers a verified success event with
  success, and both handlers of that event have logged their error.
\<close>

theorem handlers_swallow_exceptions_witness:
  "webhook failing_adapter baseOptions (Some (test_body ''success'' success_digest None))
       (world0 [] 2000) =
     (Inr \<lparr>success = True\<rparr>,
      \<lparr>store = [], now = 2000,
       trace = [FindOne ''subscription'' [(''payuTransactionId'', ''txn123'')],
                LoggerError ''PayU onPaymentSuccess error: DB error'',
                FindOne ''subscription'' [(''payuTransactionId'', ''txn123'')],
                LoggerError ''PayU onSubscriptionActivated error: DB error'']\<rparr>)
   \<and> onPaymentSuccess failing_adapter baseOptions mockEvent (world0 [] 2000) =
       (Inr (),
        \<lparr>store = [], now = 2000,
         trace = [FindOne ''subscription'' [(''payuTransactionId'', ''txn_123'')],
                  LoggerError ''PayU onPaymentSuccess error: DB error'']\<rparr>)
   \<and> onSubscriptionCancelled failing_adapter baseOptions mockEvent (world0 [] 2000) =
       (Inr (),
        \<lparr>store = [], now = 2000,
         trace = [FindOne ''subscription'' [(''payuTransactionId'', ''txn_123'')],
                  LoggerError ''PayU onSubscriptionCancelled error: DB error'']\<rparr>)
   \<and> errors_of (trace (snd (onMandateModified readonly_adapter baseOptions mockEvent
          (world0 [mockSubscription] 2000)))) = [''PayU onMandateModified error: DB error'']
   \<and> errors_of (trace (snd (onPaymentSuccess readonly_adapter baseOptions mockEvent
          (world0 [mockSubscription] 2000)))) = [''PayU onPaymentSuccess error: DB error'']
   \<and> errors_of (trace (snd (onPaymentSuccess memory_adapter callbackOptions mockEvent
          (world0 [mockSubscription] 2000)))) = [''PayU onPaymentSuccess error: callback failed'']
   \<and> errors_of (trace (snd (onSubscriptionPaused memory_adapter
          (baseOptions\<lparr>subscription := Some (baseSubscriptionOptions
             \<lparr>plans := Some (PlansFunction (Inl (Error ''plans failed'')))\<rparr>)\<rparr>)
          mockEvent (world0 [mockSubscription] 2000)))) =
       [''PayU onSubscriptionPaused error: plans failed'']
   \<and> errors_of (trace (snd (onPaymentFailure memory_adapter
          (baseOptions\<lparr>subscription := Some (baseSubscriptionOptions
             \<lparr>cb_onPaymentFailure := Some throwing\<rparr>)\<rparr>)
          mockEvent (world0 [] 2000)))) = [''PayU onPaymentFailure error: callback failed'']"
proof -
  have rejected:
    "webhook failing_adapter baseOptions (Some (test_body ''success'' success_digest None))
       (world0 [] 2000) =
     (Inr \<lparr>success = True\<rparr>,
      \<lparr>store = [], now = 2000,
       trace = [FindOne ''subscription'' [(''payuTransactionId'', ''txn123'')],
                LoggerError ''PayU onPaymentSuccess error: DB error'',
                FindOne ''subscription'' [(''payuTransactionId'', ''txn123'')],
                LoggerError ''PayU onSubscriptionActivated error: DB error'']\<rparr>)
   \<and> onPaymentSuccess failing_adapter baseOptions mockEvent (world0 [] 2000) =
       (Inr (),
        \<lparr>store = [], now = 2000,
         trace = [FindOne ''subscription'' [(''payuTransactionId'', ''txn_123'')],
                  LoggerError ''PayU onPaymentSuccess error: DB error'']\<rparr>)
   \<and> onSubscriptionCancelled failing_adapter baseOptions mockEvent (world0 [] 2000) =
       (Inr (),
        \<lparr>store = [], now = 2000,
         trace = [FindOne ''subscription'' [(''payuTransactionId'', ''txn_123'')],
                  LoggerError ''PayU onSubscriptionCancelled error: DB error'']\<rparr>)"
    using
      handlers_swallow_exceptions [where ctx = failing_adapter and options = baseOptions
        and so = baseSubscriptionOptions and event = mockEvent and w = "world0 [] 2000"
        and body = "test_body ''success'' success_digest None" and e = "Error ''DB error''"
        and wa = "\<lparr>store = [], now = 2000,
                   trace = [FindOne ''subscription'' [(''payuTransactionId'', ''txn_123'')]]\<rparr>"]
      success_body_verified [of None]
    by (simp add: webhook_def webhook_route_def webhook_event_def test_body_simps or_else_def
        toLowerCase_def lower_char_def onPaymentSuccess_def onSubscriptionActivated_def
        run_defs fun_eq_iff)
  have readonly:
    "errors_of (trace (snd (onMandateModified readonly_adapter baseOptions mockEvent
          (world0 [mockSubscription] 2000)))) = [''PayU onMandateModified error: DB error'']
   \<and> errors_of (trace (snd (onPaymentSuccess readonly_adapter baseOptions mockEvent
          (world0 [mockSubscription] 2000)))) = [''PayU onPaymentSuccess error: DB error'']"
    using
      handlers_swallow_exceptions [where ctx = readonly_adapter and options = baseOptions
        and so = baseSubscriptionOptions and event = mockEvent
        and w = "world0 [mockSubscription] 2000" and s = mockSubscription
        and e = "Error ''DB error''" and dbb = "[mockSubscription]"
        and wa = "\<lparr>store = [mockSubscription], now = 2000,
                   trace = [FindOne ''subscription'' [(''payuTransactionId'', ''txn_123'')]]\<rparr>"]
    by (simp add: run_defs fun_eq_iff)
  have callback:
    "errors_of (trace (snd (onPaymentSuccess memory_adapter callbackOptions mockEvent
          (world0 [mockSubscription] 2000)))) = [''PayU onPaymentSuccess error: callback failed'']"
    using
      handlers_swallow_exceptions [where ctx = memory_adapter and options = callbackOptions
        and so = "baseSubscriptionOptions
          \<lparr>cb_onSubscriptionCancelled := Some noted, cb_onPaymentSuccess := Some throwing,
           cb_onPaymentFailure := Some noted\<rparr>"
        and event = mockEvent and w = "world0 [mockSubscription] 2000" and s = mockSubscription
        and e = "Error ''callback failed''" and f = throwing and p = "Some monthly_plan"
        and dbb = "[apply_update (payment_success_update mockSubscription mockEvent 2000)
                     mockSubscription]"
        and wa = "\<lparr>store = [mockSubscription], now = 2000,
                   trace = [FindOne ''subscription'' [(''payuTransactionId'', ''txn_123'')]]\<rparr>"]
    by (simp add: run_defs fun_eq_iff)
  have planfun:
    "errors_of (trace (snd (onSubscriptionPaused memory_adapter
          (baseOptions\<lparr>subscription := Some (baseSubscriptionOptions
             \<lparr>plans := Some (PlansFunction (Inl (Error ''plans failed'')))\<rparr>)\<rparr>)
          mockEvent (world0 [mockSubscription] 2000)))) =
       [''PayU onSubscriptionPaused error: plans failed'']"
    using
      handlers_swallow_exceptions [where ctx = memory_adapter
        and options = "baseOptions\<lparr>subscription := Some (baseSubscriptionOptions
               \<lparr>plans := Some (PlansFunction (Inl (Error ''plans failed'')))\<rparr>)\<rparr>"
        and so = "baseSubscriptionOptions
               \<lparr>plans := Some (PlansFunction (Inl (Error ''plans failed'')))\<rparr>"
        and event = mockEvent and w = "world0 [mockSubscription] 2000" and s = mockSubscription
        and e = "Error ''plans failed''"
        and dbb = "[apply_update [(''status'', VStatus Paused), (''pausedAt'', VDate 2000),
                     (''updatedAt'', VDate 2000)] mockSubscription]"
        and wa = "\<lparr>store = [mockSubscription], now = 2000,
                   trace = [FindOne ''subscription'' [(''payuTransactionId'', ''txn_123'')]]\<rparr>"]
    by (simp add: run_defs fun_eq_iff)
  have unmatched:
    "errors_of (trace (snd (onPaymentFailure memory_adapter
          (baseOptions\<lparr>subscription := Some (baseSubscriptionOptions
             \<lparr>cb_onPaymentFailure := Some throwing\<rparr>)\<rparr>)
          mockEvent (world0 [] 2000)))) = [''PayU onPaymentFailure error: callback failed'']"
    using
      handlers_swallow_exceptions [where ctx = memory_adapter
        and options = "baseOptions\<lparr>subscription := Some (baseSubscriptionOptions
               \<lparr>cb_onPaymentFailure := Some throwing\<rparr>)\<rparr>"
        and so = "baseSubscriptionOptions\<lparr>cb_onPaymentFailure := Some throwing\<rparr>"
        and event = mockEvent and w = "world0 [] 2000"
        and e = "Error ''callback failed''" and f = throwing
        and wa = "\<lparr>store = [], now = 2000,
                   trace = [FindOne ''subscription'' [(''payuTransactionId'', ''txn_123'')]]\<rparr>"]
    by (simp add: run_defs fun_eq_iff)
  from rejected readonly callback planfun unmatched show ?thesis
    by blast
qed

text \<open>
  C10. With an empty txnid, \<open>onPaymentSuccess\<close>, \<open>onSubscriptionActivated\<close> and
  \<open>onSubscriptionCharged\<close> return at once and leave the world, with its trace of reads,
  writes and callbacks, as it was. \<open>onPaymentFailure\<close> has no such guard: with
  subscriptions enabled its first effect is the read by the empty transaction id, and once
  the lookup has returned (and the update, if a row was found, has succeeded) it invokes
  the payment-failure callback that is set.
\<close>

theorem empty_txnid_guard:
  "(txnid event = [] \<longrightarrow>
      onPaymentSuccess ctx options event w = (Inr (), w)
      \<and> onSubscriptionActivated ctx options event w = (Inr (), w)
      \<and> onSubscriptionCharged ctx options event w = (Inr (), w))
   \<and> (txnid event = [] \<and> subscription options = Some so \<and> enabled so \<longrightarrow>
        take (Suc (length (trace w))) (trace (snd (onPaymentFailure ctx options event w))) =
          trace w @ [FindOne ''subscription'' [(''payuTransactionId'', [])]])
   \<and> (txnid event = [] \<and> subscription options = Some so \<and> enabled so
       \<and> findSubscription ctx event w = (Inr None, wa)
       \<and> cb_onPaymentFailure so = Some f
    \<longrightarrow> trace (snd (onPaymentFailure ctx options event w)) =
          trace wa @ Callback ''onPaymentFailure'' (PaymentFailureData event (failure_reason event))
            # (case f (PaymentFailureData event (failure_reason event)) of
                 None \<Rightarrow> []
               | Some e \<Rightarrow> [LoggerError (''PayU onPaymentFailure error: '' @ exn_message e)]))
   \<and> (txnid event = [] \<and> subscription options = Some so \<and> enabled so
       \<and> findSubscription ctx event w = (Inr (Some s), wa)
       \<and> update ctx ''subscription'' [(''id'', sub_id s)]
            [(''status'', VStatus Pending), (''updatedAt'', VDate (now wa))] (store wa) = (Inr (), dbb)
       \<and> cb_onPaymentFailure so = Some f
    \<longrightarrow> callbacks_of (trace (snd (onPaymentFailure ctx options event w))) =
          callbacks_of (trace wa)
            @ [(''onPaymentFailure'', PaymentFailureData event (failure_reason event))])"
proof (intro conjI impI)
  assume "txnid event = []"
  then show "onPaymentSuccess ctx options event w = (Inr (), w)"
    and "onSubscriptionActivated ctx options event w = (Inr (), w)"
    and "onSubscriptionCharged ctx options event w = (Inr (), w)"
    by (simp_all add: onPaymentSuccess_def onSubscriptionActivated_def onSubscriptionCharged_def
        io_return_def split: option.splits)
next
  assume a: "txnid event = [] \<and> subscription options = Some so \<and> enabled so"
  obtain r wb where f: "findSubscription ctx event w = (r, wb)"
    by (cases "findSubscription ctx event w")
  then obtain rest where wb: "trace wb = trace w @ FindOne ''subscription'' [(''payuTransactionId'', [])] # rest"
    using a by (auto simp: findSubscription_cases split: prod.splits sum.splits option.splits if_splits)
  have "\<exists>more. trace (snd (onPaymentFailure ctx options event w)) = trace wb @ more"
    using a f
    by (auto simp: onPaymentFailure_def try_catch_logs io_bind_def adapter_update_def
        invoke_def io_return_def split: prod.splits sum.splits option.splits)
  with wb show "take (Suc (length (trace w))) (trace (snd (onPaymentFailure ctx options event w))) =
      trace w @ [FindOne ''subscription'' [(''payuTransactionId'', [])]]"
    by auto
next
  assume "txnid event = [] \<and> subscription options = Some so \<and> enabled so
       \<and> findSubscription ctx event w = (Inr None, wa)
       \<and> cb_onPaymentFailure so = Some f"
  then show "trace (snd (onPaymentFailure ctx options event w)) =
      trace wa @ Callback ''onPaymentFailure'' (PaymentFailureData event (failure_reason event))
        # (case f (PaymentFailureData event (failure_reason event)) of
             None \<Rightarrow> []
           | Some e \<Rightarrow> [LoggerError (''PayU onPaymentFailure error: '' @ exn_message e)])"
    by (simp add: onPaymentFailure_def try_catch_logs io_bind_def invoke_def io_return_def
        split: option.splits)
next
  assume "txnid event = [] \<and> subscription options = Some so \<and> enabled so
       \<and> findSubscription ctx event w = (Inr (Some s), wa)
       \<and> update ctx ''subscription'' [(''id'', sub_id s)]
            [(''status'', VStatus Pending), (''updatedAt'', VDate (now wa))] (store wa) = (Inr (), dbb)
       \<and> cb_onPaymentFailure so = Some f"
  then show "callbacks_of (trace (snd (onPaymentFailure ctx options event w))) =
      callbacks_of (trace wa)
        @ [(''onPaymentFailure'', PaymentFailureData event (failure_reason event))]"
    by (simp add: onPaymentFailure_def try_catch_logs io_bind_def adapter_update_def invoke_def
        io_return_def callbacks_of_append split: option.splits)
qed

text \<open>
  The test event with an empty txnid, on a store that holds the test subscription: the
  three guarded handlers do nothing, the failure handler reads and calls back.
\<close>

theorem empty_txnid_guard_witness:
  "onPaymentSuccess memory_adapter callbackOptions (mockEvent\<lparr>txnid := []\<rparr>)
       (world0 [mockSubscription] 2000) = (Inr (), world0 [mockSubscription] 2000)
   \<and> onSubscriptionActivated memory_adapter callbackOptions (mockEvent\<lparr>txnid := []\<rparr>)
       (world0 [mockSubscription] 2000) = (Inr (), world0 [mockSubscription] 2000)
   \<and> onSubscriptionCharged memory_adapter callbackOptions (mockEvent\<lparr>txnid := []\<rparr>)
       (world0 [mockSubscription] 2000) = (Inr (), world0 [mockSubscription] 2000)
   \<and> trace (snd (onPaymentFailure memory_adapter callbackOptions (mockEvent\<lparr>txnid := []\<rparr>)
       (world0 [mockSubscription] 2000))) =
       [FindOne ''subscription'' [(''payuTransactionId'', [])],
        Callback ''onPaymentFailure'' (PaymentFailureData (mockEvent\<lparr>txnid := []\<rparr>) ''Payment failed'')]"
  using empty_txnid_guard [where ctx = memory_adapter and options = callbackOptions
      and so = "baseSubscriptionOptions
        \<lparr>cb_onSubscriptionCancelled := Some noted, cb_onPaymentSuccess := Some throwing,
         cb_onPaymentFailure := Some noted\<rparr>"
      and event = "mockEvent\<lparr>txnid := []\<rparr>" and w = "world0 [mockSubscription] 2000"
      and f = noted
      and wa = "\<lparr>store = [mockSubscription], now = 2000,
                 trace = [FindOne ''subscription'' [(''payuTransactionId'', [])]]\<rparr>"]
  by (simp add: run_defs)

end
